theory Spec2Isabelle
  imports Complex_Main "HOL-Library.Word"
begin

unbundle bit_operations_syntax

section \<open>Values, errors and the engine interface\<close>

text \<open>
  Handles of the engine (\<open>MimerSession\<close>, \<open>MimerStatement\<close>, \<open>MimerLob\<close>) are opaque
  pointers; \<open>MIMERNULLHANDLE\<close> and \<open>nullptr\<close> are the handle 0.
\<close>

type_synonym handle = nat

definition MIMERNULLHANDLE :: handle where
  "MIMERNULLHANDLE = 0"

text \<open>
  A JavaScript number is an IEEE double. The code only asks whether it is finite, whether
  it is integral and how it compares with integer bounds, all of which are exact on the
  number denoted, so a finite double is modelled by the rational it denotes.
\<close>

datatype jsnum = Finite rat | PosInf | NegInf | NaN

text \<open>
  The values that cross the boundary with the calling environment. A JavaScript string is
  held as its UTF-8 bytes (what \<open>Utf8Value()\<close> returns); \<open>JSSymbol d\<close> is a symbol with the
  description \<open>d\<close>; \<open>JSOther s\<close> is a value of any other kind, named by \<open>s\<close>; \<open>JSNative p\<close>
  is a wrapped native object at address \<open>p\<close>.
\<close>

datatype jsval =
    JSUndefined
  | JSNull
  | JSBoolean bool
  | JSNumber jsnum
  | JSString string
  | JSBuffer string
  | JSArray "jsval list"
  | JSObject "(string \<times> jsval) list"
  | JSSymbol string
  | JSOther string
  | JSNative nat

text \<open>\<open>obj.Set(key, v)\<close>: overwrite an existing property, else add it last.\<close>

fun obj_set :: "string \<Rightarrow> jsval \<Rightarrow> (string \<times> jsval) list \<Rightarrow> (string \<times> jsval) list" where
  "obj_set k v [] = [(k, v)]"
| "obj_set k v ((k', v') # ps) = (if k = k' then (k, v) # ps else (k', v') # obj_set k v ps)"

text \<open>
  A pending JavaScript exception. \<open>MimerError\<close> is the structured error built by
  \<open>ThrowMimerError\<close> (message, \<open>mimerCode\<close>, \<open>operation\<close>); the other two are the plain
  \<open>Napi::Error\<close> and \<open>Napi::TypeError\<close>.
\<close>

datatype js_error =
    MimerError string int string
  | PlainError string
  | TypeError string

text \<open>
  Every call made to the engine, with the arguments the code passes (constant arguments
  such as \<open>MIMER_FORWARD_ONLY\<close> and \<open>MIMER_TRANS_READWRITE\<close> left out; the flag of
  \<open>MimerEndTransaction\<close> is true for \<open>MIMER_COMMIT\<close>, false for \<open>MIMER_ROLLBACK\<close>). The
  value of \<open>MimerSetInt64\<close> is \<open>None\<close> when the code passes the result of a conversion
  that C++ leaves undefined. A text argument passed as \<open>c_str()\<close> without a length (a
  statement text, a login text, the value of \<open>MimerSetString8\<close>) is recorded as the
  \<open>std::string\<close> the pointer is taken from, of which the engine reads the bytes before
  the first NUL; the data of \<open>MimerSetNclobData8\<close>, \<open>MimerSetBlobData\<close> and
  \<open>MimerSetBinary\<close> are passed with their length.
\<close>

datatype call =
    MimerBeginSession8 string string string
  | MimerEndSession handle
  | MimerBeginTransaction handle
  | MimerEndTransaction handle bool
  | MimerGetError8 handle
  | MimerBeginStatement8 handle string
  | MimerExecuteStatement8 handle string
  | MimerEndStatement handle
  | MimerParameterCount handle
  | MimerParameterType handle int
  | MimerColumnCount handle
  | MimerColumnName8 handle int
  | MimerColumnType handle int
  | MimerOpenCursor handle
  | MimerCloseCursor handle
  | MimerExecute handle
  | MimerFetch handle
  | MimerSetNull handle int
  | MimerSetBoolean handle int int
  | MimerSetInt32 handle int int
  | MimerSetInt64 handle int "int option"
  | MimerSetDouble handle int jsnum
  | MimerSetString8 handle int string
  | MimerSetBinary handle int string
  | MimerSetLob handle int nat
  | MimerSetNclobData8 handle string
  | MimerSetBlobData handle string
  | MimerIsNull handle int
  | MimerGetInt32 handle int
  | MimerGetInt64 handle int
  | MimerGetDouble handle int
  | MimerGetFloat handle int
  | MimerGetBoolean handle int
  | MimerGetLob handle int
  | MimerGetBlobData handle nat
  | MimerGetNclobData8 handle nat
  | MimerGetBinary handle int nat
  | MimerGetString8 handle int nat

text \<open>
  What a call gives back: its return value and whatever it writes through its pointer
  arguments (a handle, a size, an integer, a floating-point number, a buffer; a character
  buffer is read up to its terminating NUL).
\<close>

record reply =
  rcode :: int
  rhandle :: handle
  rsize :: nat
  rint :: int
  rnum :: jsnum
  rstr :: string

text \<open>
  The engine is an external collaborator. Its answer to a call may depend on everything
  it was asked before, so it is a function of the history of calls and the call.
\<close>

type_synonym engine = "call list \<Rightarrow> call \<Rightarrow> reply"

text \<open>
  The part of the state every function sees: the history of engine calls and the pending
  exception of the JavaScript environment (\<open>env.IsExceptionPending()\<close>).
\<close>

record world =
  trace :: "call list"
  pending :: "js_error option"

definition ecall :: "engine \<Rightarrow> call \<Rightarrow> 'a world_scheme \<Rightarrow> reply \<times> 'a world_scheme" where
  "ecall eng c w = (eng (trace w) c, w\<lparr>trace := trace w @ [c]\<rparr>)"

text \<open>
  The header \<open>mimerapi.h\<close> is not part of the repository. Its constants are taken as a
  parameter, looked up by macro name, and its type-classification macros as predicates
  on type codes. \<open>ToString\<close> is the host's conversion \<open>val.ToString()\<close> of a value to a
  string; it runs JavaScript and can raise (for a symbol, or an object whose \<open>toString\<close>
  throws): then it gives the exception raised.
\<close>

record mimerapi =
  const :: "string \<Rightarrow> int"
  ToString :: "jsval \<Rightarrow> js_error + string"
  MimerIsInt32 :: "int \<Rightarrow> bool"
  MimerIsInt64 :: "int \<Rightarrow> bool"
  MimerIsDouble :: "int \<Rightarrow> bool"
  MimerIsFloat :: "int \<Rightarrow> bool"
  MimerIsBoolean :: "int \<Rightarrow> bool"
  MimerIsBlob :: "int \<Rightarrow> bool"
  MimerIsNclob :: "int \<Rightarrow> bool"
  MimerIsBinary :: "int \<Rightarrow> bool"

text \<open>\<open>static_cast<int16_t>\<close> of a column or parameter index.\<close>

definition cast_int16 :: "int \<Rightarrow> int" where
  "cast_int16 i = sint (word_of_int i :: 16 word)"

text \<open>\<open>static_cast<int>\<close> of an array length (\<open>uint32_t\<close>).\<close>

definition cast_int :: "nat \<Rightarrow> int" where
  "cast_int n = sint (word_of_nat n :: 32 word)"

section \<open>helpers.cc\<close>

definition LOB_READ_CHUNK :: nat where
  "LOB_READ_CHUNK = 65536"

definition LOB_WRITE_CHUNK :: nat where
  "LOB_WRITE_CHUNK = 2 * 1024 * 1024"

text \<open>The byte of a \<open>char\<close>, as \<open>static_cast<unsigned char>\<close> reads it.\<close>

definition uchar :: "char \<Rightarrow> 8 word" where
  "uchar c = word_of_nat (of_char c)"

text \<open>\<open>Utf8CharCount\<close>: the loop over \<open>i\<close>, as a function of the bytes from \<open>i\<close> on.\<close>

function Utf8CharCount :: "string \<Rightarrow> nat" where
  "Utf8CharCount s =
     (case s of
        [] \<Rightarrow> 0
      | c # cs \<Rightarrow>
          (if uchar c < 0x80 then Suc (Utf8CharCount cs)
           else if uchar c AND 0xE0 = 0xC0 then Suc (Utf8CharCount (drop 1 cs))
           else if uchar c AND 0xF0 = 0xE0 then Suc (Utf8CharCount (drop 2 cs))
           else Suc (Utf8CharCount (drop 3 cs))))"
  by pat_completeness auto
termination
  by (relation "measure length") auto

declare Utf8CharCount.simps [simp del]

text \<open>Decimal text of an integer, as \<open>operator<<\<close> writes it.\<close>

fun show_nat :: "nat \<Rightarrow> string" where
  "show_nat n =
     (if n < 10 then [''0123456789'' ! n]
      else show_nat (n div 10) @ [''0123456789'' ! (n mod 10)])"

declare show_nat.simps [simp del]

definition show_int :: "int \<Rightarrow> string" where
  "show_int i = (if i < 0 then CHR ''-'' # show_nat (nat (- i)) else show_nat (nat i))"

definition mimer_message :: "int \<Rightarrow> string \<Rightarrow> string \<Rightarrow> string" where
  "mimer_message code operation detail =
     (if detail = [] then operation @ '' failed (code: '' @ show_int code @ '')''
      else operation @ '' failed: '' @ detail @ '' (code: '' @ show_int code @ '')'')"

definition ThrowMimerError :: "int \<Rightarrow> string \<Rightarrow> string \<Rightarrow> 'a world_scheme \<Rightarrow> 'a world_scheme" where
  "ThrowMimerError code operation detail w =
     w\<lparr>pending := Some (MimerError (mimer_message code operation detail) code operation)\<rparr>"

text \<open>
  \<open>MimerTypeName\<close>: the \<open>switch\<close> over the header's type codes (the labels of a \<open>switch\<close>
  are distinct, so the first label that matches is the one taken), then the interval
  range of the \<open>default\<close> branch.
\<close>

definition type_name_cases :: "(string \<times> string) list" where
  "type_name_cases =
    [(''MIMER_CHARACTER'', ''CHARACTER''),
     (''MIMER_CHARACTER_VARYING'', ''CHARACTER VARYING''),
     (''MIMER_NCHAR'', ''NCHAR''),
     (''MIMER_NCHAR_VARYING'', ''NCHAR VARYING''),
     (''MIMER_UTF8'', ''NVARCHAR''),
     (''MIMER_DECIMAL'', ''DECIMAL''),
     (''MIMER_NUMERIC'', ''NUMERIC''),
     (''MIMER_INTEGER'', ''INTEGER''),
     (''MIMER_UNSIGNED_INTEGER'', ''INTEGER''),
     (''MIMER_T_INTEGER'', ''INTEGER''),
     (''MIMER_T_UNSIGNED_INTEGER'', ''INTEGER''),
     (''MIMER_T_SMALLINT'', ''SMALLINT''),
     (''MIMER_T_UNSIGNED_SMALLINT'', ''SMALLINT''),
     (''MIMER_T_BIGINT'', ''BIGINT''),
     (''MIMER_T_UNSIGNED_BIGINT'', ''BIGINT''),
     (''MIMER_FLOAT'', ''FLOAT''),
     (''MIMER_T_FLOAT'', ''FLOAT''),
     (''MIMER_T_REAL'', ''REAL''),
     (''MIMER_T_DOUBLE'', ''DOUBLE PRECISION''),
     (''MIMER_BOOLEAN'', ''BOOLEAN''),
     (''MIMER_DATE'', ''DATE''),
     (''MIMER_TIME'', ''TIME''),
     (''MIMER_TIMESTAMP'', ''TIMESTAMP''),
     (''MIMER_BINARY'', ''BINARY''),
     (''MIMER_BINARY_VARYING'', ''BINARY VARYING''),
     (''MIMER_BLOB'', ''BLOB''),
     (''MIMER_CLOB'', ''CLOB''),
     (''MIMER_NCLOB'', ''NCLOB''),
     (''MIMER_BLOB_LOCATOR'', ''BLOB''),
     (''MIMER_CLOB_LOCATOR'', ''CLOB''),
     (''MIMER_NCLOB_LOCATOR'', ''NCLOB''),
     (''MIMER_NATIVE_SMALLINT'', ''SMALLINT''),
     (''MIMER_NATIVE_SMALLINT_NULLABLE'', ''SMALLINT''),
     (''MIMER_NATIVE_INTEGER'', ''INTEGER''),
     (''MIMER_NATIVE_INTEGER_NULLABLE'', ''INTEGER''),
     (''MIMER_NATIVE_BIGINT'', ''BIGINT''),
     (''MIMER_NATIVE_BIGINT_NULLABLE'', ''BIGINT''),
     (''MIMER_NATIVE_REAL'', ''REAL''),
     (''MIMER_NATIVE_REAL_NULLABLE'', ''REAL''),
     (''MIMER_NATIVE_DOUBLE'', ''DOUBLE PRECISION''),
     (''MIMER_NATIVE_DOUBLE_NULLABLE'', ''DOUBLE PRECISION''),
     (''MIMER_NATIVE_BLOB'', ''BLOB''),
     (''MIMER_NATIVE_BLOB_LOCATOR'', ''BLOB''),
     (''MIMER_NATIVE_CLOB'', ''CLOB''),
     (''MIMER_NATIVE_CLOB_LOCATOR'', ''CLOB''),
     (''MIMER_NATIVE_NCLOB'', ''NCLOB''),
     (''MIMER_NATIVE_NCLOB_LOCATOR'', ''NCLOB''),
     (''MIMER_UUID'', ''UUID'')]"

definition MimerTypeName :: "mimerapi \<Rightarrow> int \<Rightarrow> string" where
  "MimerTypeName api absType =
     (case find (\<lambda>(macro, name). absType = const api macro) type_name_cases of
        Some (macro, name) \<Rightarrow> name
      | None \<Rightarrow>
          (if const api ''MIMER_INTERVAL_YEAR'' \<le> absType
              \<and> absType \<le> const api ''MIMER_INTERVAL_MINUTE_TO_SECOND''
           then ''INTERVAL'' else ''UNKNOWN''))"

text \<open>
  \<open>BuildFieldsArray\<close>. The loop \<open>for (col = 1; col <= columnCount; col++)\<close> is the
  recursion on \<open>col\<close>; \<open>flds\<close> collects the elements set at index \<open>col - 1\<close>.
\<close>

definition field_nullable :: "mimerapi \<Rightarrow> int \<Rightarrow> bool" where
  "field_nullable api rawType =
     (let absType = (if rawType < 0 then - rawType else rawType) in
      if rawType < 0 then True
      else if absType = const api ''MIMER_NATIVE_SMALLINT_NULLABLE''
            \<or> absType = const api ''MIMER_NATIVE_INTEGER_NULLABLE''
            \<or> absType = const api ''MIMER_NATIVE_BIGINT_NULLABLE''
            \<or> absType = const api ''MIMER_NATIVE_REAL_NULLABLE''
            \<or> absType = const api ''MIMER_NATIVE_DOUBLE_NULLABLE''
      then True
      else False)"

definition build_field :: "mimerapi \<Rightarrow> string \<Rightarrow> int \<Rightarrow> jsval" where
  "build_field api nameBuf rawType =
     (let absType = (if rawType < 0 then - rawType else rawType) in
      JSObject
        (obj_set ''nullable'' (JSBoolean (field_nullable api rawType))
        (obj_set ''dataTypeName'' (JSString (MimerTypeName api absType))
        (obj_set ''dataTypeCode'' (JSNumber (Finite (of_int rawType)))
        (obj_set ''name'' (JSString nameBuf) [])))))"

function BuildFieldsArray_loop ::
  "mimerapi \<Rightarrow> engine \<Rightarrow> handle \<Rightarrow> int \<Rightarrow> int \<Rightarrow> jsval list \<Rightarrow> 'a world_scheme
     \<Rightarrow> jsval list \<times> 'a world_scheme" where
  "BuildFieldsArray_loop api eng stmt columnCount col flds w =
     (if col \<le> columnCount then
        (let (rn, w1) = ecall eng (MimerColumnName8 stmt (cast_int16 col)) w;
             (rt, w2) = ecall eng (MimerColumnType stmt (cast_int16 col)) w1
         in BuildFieldsArray_loop api eng stmt columnCount (col + 1)
              (flds @ [build_field api (rstr rn) (rcode rt)]) w2)
      else (flds, w))"
  by pat_completeness auto
termination
  by (relation "measure (\<lambda>(api, eng, stmt, columnCount, col, flds, w). nat (columnCount + 1 - col))")
     auto

declare BuildFieldsArray_loop.simps [simp del]

definition BuildFieldsArray ::
  "mimerapi \<Rightarrow> engine \<Rightarrow> handle \<Rightarrow> int \<Rightarrow> 'a world_scheme \<Rightarrow> jsval \<times> 'a world_scheme" where
  "BuildFieldsArray api eng stmt columnCount w =
     (let (flds, w') = BuildFieldsArray_loop api eng stmt columnCount 1 [] w
      in (JSArray flds, w'))"

text \<open>
  \<open>BindParameters\<close>, the numeric branch. \<open>std::trunc(num) == num && std::isfinite(num)\<close>
  holds of a finite number without fractional part, and of nothing else (an infinity is
  not finite and a NaN is not equal to itself).
\<close>

definition INT32_MIN :: int where "INT32_MIN = - (2 ^ 31)"
definition INT32_MAX :: int where "INT32_MAX = 2 ^ 31 - 1"

fun isfinite :: "jsnum \<Rightarrow> bool" where
  "isfinite (Finite q) = True"
| "isfinite _ = False"

fun trunc_eq_self :: "jsnum \<Rightarrow> bool" where
  "trunc_eq_self (Finite q) = (of_int (if q < 0 then \<lceil>q\<rceil> else \<lfloor>q\<rfloor>) = q)"
| "trunc_eq_self PosInf = True"
| "trunc_eq_self NegInf = True"
| "trunc_eq_self NaN = False"

fun num_ge :: "jsnum \<Rightarrow> int \<Rightarrow> bool" where
  "num_ge (Finite q) i = (of_int i \<le> q)"
| "num_ge PosInf i = True"
| "num_ge _ i = False"

fun num_le :: "jsnum \<Rightarrow> int \<Rightarrow> bool" where
  "num_le (Finite q) i = (q \<le> of_int i)"
| "num_le NegInf i = True"
| "num_le _ i = False"

text \<open>
  \<open>static_cast<int32_t>(num)\<close> and \<open>static_cast<int64_t>(num)\<close> of an integral number.
  The first is only applied inside the 32-bit range. The second is applied to every
  other finite integral number; outside the 64-bit range C++ leaves the result
  undefined, which is \<open>None\<close> here.
\<close>

fun cast_int32 :: "jsnum \<Rightarrow> int" where
  "cast_int32 (Finite q) = \<lfloor>q\<rfloor>"
| "cast_int32 _ = 0"

fun cast_int64 :: "jsnum \<Rightarrow> int option" where
  "cast_int64 (Finite q) = (if - (2 ^ 63) \<le> \<lfloor>q\<rfloor> \<and> \<lfloor>q\<rfloor> < 2 ^ 63 then Some \<lfloor>q\<rfloor> else None)"
| "cast_int64 _ = None"

definition bind_number ::
  "engine \<Rightarrow> handle \<Rightarrow> int \<Rightarrow> jsnum \<Rightarrow> 'a world_scheme \<Rightarrow> reply \<times> 'a world_scheme" where
  "bind_number eng stmt paramIndex num w =
     (if trunc_eq_self num \<and> isfinite num then
        (if num_ge num INT32_MIN \<and> num_le num INT32_MAX
         then ecall eng (MimerSetInt32 stmt paramIndex (cast_int32 num)) w
         else ecall eng (MimerSetInt64 stmt paramIndex (cast_int64 num)) w)
      else ecall eng (MimerSetDouble stmt paramIndex num) w)"

text \<open>
  The character large-object branch. The inner loop steps \<open>chunk\<close> back while the byte
  after the chunk is a UTF-8 continuation byte.
\<close>

function shrink_chunk :: "string \<Rightarrow> nat \<Rightarrow> nat \<Rightarrow> nat \<Rightarrow> nat" where
  "shrink_chunk data offset remaining chunk =
     (if chunk > 0 \<and> chunk < remaining \<and> uchar (data ! (offset + chunk)) AND 0xC0 = 0x80
      then shrink_chunk data offset remaining (chunk - 1)
      else chunk)"
  by pat_completeness auto
termination
  by (relation "measure (\<lambda>(data, offset, remaining, chunk). chunk)") auto

declare shrink_chunk.simps [simp del]

text \<open>
  The outer loop \<open>while (remaining > 0 && rc >= 0)\<close>. Nothing in the loop itself makes
  \<open>chunk\<close> positive, so it may run forever: not returning is the value \<open>None\<close>.
\<close>

partial_function (option) nclob_write_loop ::
  "engine \<Rightarrow> handle \<Rightarrow> string \<Rightarrow> nat \<Rightarrow> nat \<Rightarrow> int \<Rightarrow> 'a world_scheme
     \<Rightarrow> (int \<times> 'a world_scheme) option" where
  "nclob_write_loop eng lobHandle data offset remaining rc w =
     (if remaining > 0 \<and> rc \<ge> 0 then
        (let chunk = shrink_chunk data offset remaining
                       (if remaining < LOB_WRITE_CHUNK then remaining else LOB_WRITE_CHUNK);
             rw = ecall eng (MimerSetNclobData8 lobHandle (take chunk (drop offset data))) w
         in nclob_write_loop eng lobHandle data (offset + chunk) (remaining - chunk)
              (rcode (fst rw)) (snd rw))
      else Some (rc, w))"

declare nclob_write_loop.simps [code]

text \<open>The binary large-object loop: the chunk is positive, so it ends.\<close>

function blob_write_loop ::
  "engine \<Rightarrow> handle \<Rightarrow> string \<Rightarrow> nat \<Rightarrow> nat \<Rightarrow> int \<Rightarrow> 'a world_scheme
     \<Rightarrow> int \<times> 'a world_scheme" where
  "blob_write_loop eng lobHandle data offset remaining rc w =
     (if remaining > 0 \<and> rc \<ge> 0 then
        (let chunk = (if remaining < LOB_WRITE_CHUNK then remaining else LOB_WRITE_CHUNK);
             rw = ecall eng (MimerSetBlobData lobHandle (take chunk (drop offset data))) w
         in blob_write_loop eng lobHandle data (offset + chunk) (remaining - chunk)
              (rcode (fst rw)) (snd rw))
      else (rc, w))"
  by pat_completeness auto
termination
  by (relation "measure (\<lambda>(eng, lobHandle, data, offset, remaining, rc, w). remaining)")
     (auto simp: LOB_WRITE_CHUNK_def)

declare blob_write_loop.simps [simp del]

definition bind_string ::
  "mimerapi \<Rightarrow> engine \<Rightarrow> handle \<Rightarrow> int \<Rightarrow> string \<Rightarrow> 'a world_scheme
     \<Rightarrow> (int \<times> 'a world_scheme) option" where
  "bind_string api eng stmt paramIndex str w =
     (let (rp, w1) = ecall eng (MimerParameterType stmt paramIndex) w in
      if MimerIsNclob api (rcode rp) then
        (let (rl, w2) = ecall eng (MimerSetLob stmt paramIndex (Utf8CharCount str)) w1 in
         if rcode rl = 0
         then nclob_write_loop eng (rhandle rl) str 0 (length str) (rcode rl) w2
         else Some (rcode rl, w2))
      else
        (let (rs, w2) = ecall eng (MimerSetString8 stmt paramIndex str) w1
         in Some (rcode rs, w2)))"

definition bind_buffer ::
  "mimerapi \<Rightarrow> engine \<Rightarrow> handle \<Rightarrow> int \<Rightarrow> string \<Rightarrow> 'a world_scheme
     \<Rightarrow> int \<times> 'a world_scheme" where
  "bind_buffer api eng stmt paramIndex buf w =
     (let (rp, w1) = ecall eng (MimerParameterType stmt paramIndex) w in
      if MimerIsBlob api (rcode rp) then
        (let (rl, w2) = ecall eng (MimerSetLob stmt paramIndex (length buf)) w1 in
         if rcode rl = 0
         then blob_write_loop eng (rhandle rl) buf 0 (length buf) (rcode rl) w2
         else (rcode rl, w2))
      else
        (let (rs, w2) = ecall eng (MimerSetBinary stmt paramIndex buf) w1
         in (rcode rs, w2)))"

text \<open>
  \<open>val.ToString().Utf8Value()\<close> of the fallback branch. The code is written for a host
  built without C++ exceptions: an error is left pending with
  \<open>ThrowAsJavaScriptException\<close> and the caller asks \<open>IsExceptionPending\<close>. There a
  conversion that raises leaves its exception pending and gives the empty string, and
  while an exception is pending the host converts nothing and gives the empty string too.
\<close>

definition ToString_Utf8Value ::
  "mimerapi \<Rightarrow> jsval \<Rightarrow> 'a world_scheme \<Rightarrow> string \<times> 'a world_scheme" where
  "ToString_Utf8Value api val w =
     (if pending w \<noteq> None then ([], w)
      else (case ToString api val of
              Inr str \<Rightarrow> (str, w)
            | Inl e \<Rightarrow> ([], w\<lparr>pending := Some e\<rparr>)))"

text \<open>The dispatch on the kind of one value; the result is \<open>rc\<close>.\<close>

fun bind_value ::
  "mimerapi \<Rightarrow> engine \<Rightarrow> handle \<Rightarrow> int \<Rightarrow> jsval \<Rightarrow> 'a world_scheme
     \<Rightarrow> (int \<times> 'a world_scheme) option" where
  "bind_value api eng stmt paramIndex JSNull w =
     (let (r, w1) = ecall eng (MimerSetNull stmt paramIndex) w in Some (rcode r, w1))"
| "bind_value api eng stmt paramIndex JSUndefined w =
     (let (r, w1) = ecall eng (MimerSetNull stmt paramIndex) w in Some (rcode r, w1))"
| "bind_value api eng stmt paramIndex (JSBoolean b) w =
     (let (r, w1) = ecall eng (MimerSetBoolean stmt paramIndex (if b then 1 else 0)) w
      in Some (rcode r, w1))"
| "bind_value api eng stmt paramIndex (JSNumber num) w =
     (let (r, w1) = bind_number eng stmt paramIndex num w in Some (rcode r, w1))"
| "bind_value api eng stmt paramIndex (JSString str) w =
     bind_string api eng stmt paramIndex str w"
| "bind_value api eng stmt paramIndex (JSBuffer buf) w =
     Some (bind_buffer api eng stmt paramIndex buf w)"
| "bind_value api eng stmt paramIndex val w =
     (let (str, wa) = ToString_Utf8Value api val w;
          (r, w1) = ecall eng (MimerSetString8 stmt paramIndex str) wa
      in Some (rcode r, w1))"

text \<open>
  \<open>params[i]\<close> of a JavaScript array; the loop below only reads below the length.
  While an exception is pending (that of a failed conversion of an earlier value) the
  host reads no element and gives the empty value, which tests as undefined. When a
  status is negative while such an exception is pending, the host refuses the second
  throw and ends the process: the call does not return.
\<close>

definition js_index :: "jsval list \<Rightarrow> int \<Rightarrow> jsval" where
  "js_index params i = (if 0 \<le> i \<and> nat i < length params then params ! nat i else JSUndefined)"

definition params_get :: "jsval list \<Rightarrow> int \<Rightarrow> 'a world_scheme \<Rightarrow> jsval" where
  "params_get params i w = (if pending w \<noteq> None then JSUndefined else js_index params i)"

function BindParameters_loop ::
  "mimerapi \<Rightarrow> engine \<Rightarrow> handle \<Rightarrow> jsval list \<Rightarrow> int \<Rightarrow> int \<Rightarrow> 'a world_scheme
     \<Rightarrow> 'a world_scheme option" where
  "BindParameters_loop api eng stmt params providedCount i w =
     (if i < providedCount then
        (case bind_value api eng stmt (cast_int16 (i + 1)) (params_get params i w) w of
           None \<Rightarrow> None
         | Some (rc, w1) \<Rightarrow>
             if rc < 0
             then (if pending w1 \<noteq> None then None
                   else Some (ThrowMimerError rc ''BindParameters''
                                (''failed to bind parameter '' @ show_int (i + 1)) w1))
             else BindParameters_loop api eng stmt params providedCount (i + 1) w1)
      else Some w)"
  by pat_completeness auto
termination
  by (relation "measure (\<lambda>(api, eng, stmt, params, providedCount, i, w). nat (providedCount - i))")
     auto

declare BindParameters_loop.simps [simp del]

definition BindParameters ::
  "mimerapi \<Rightarrow> engine \<Rightarrow> handle \<Rightarrow> jsval list \<Rightarrow> 'a world_scheme \<Rightarrow> 'a world_scheme option" where
  "BindParameters api eng stmt params w =
     (let (rp, w1) = ecall eng (MimerParameterCount stmt) w;
          paramCount = rcode rp;
          providedCount = cast_int (length params)
      in if providedCount \<noteq> paramCount
         then Some (ThrowMimerError 0 ''BindParameters''
                      (''statement expects '' @ show_int paramCount @ '' but ''
                         @ show_int providedCount @ '' were provided'') w1)
         else BindParameters_loop api eng stmt params providedCount 0 w1)"

text \<open>\<open>CacheColumnMetadata\<close>: the vectors are sized to \<open>columnCount\<close> and filled in order.\<close>

function CacheColumnMetadata_loop ::
  "engine \<Rightarrow> handle \<Rightarrow> int \<Rightarrow> int \<Rightarrow> string list \<Rightarrow> int list \<Rightarrow> 'a world_scheme
     \<Rightarrow> (string list \<times> int list) \<times> 'a world_scheme" where
  "CacheColumnMetadata_loop eng stmt columnCount col colNames colTypes w =
     (if col \<le> columnCount then
        (let (rn, w1) = ecall eng (MimerColumnName8 stmt (cast_int16 col)) w;
             (rt, w2) = ecall eng (MimerColumnType stmt (cast_int16 col)) w1
         in CacheColumnMetadata_loop eng stmt columnCount (col + 1)
              (colNames @ [rstr rn]) (colTypes @ [rcode rt]) w2)
      else ((colNames, colTypes), w))"
  by pat_completeness auto
termination
  by (relation "measure (\<lambda>(eng, stmt, columnCount, col, colNames, colTypes, w).
                           nat (columnCount + 1 - col))")
     auto

declare CacheColumnMetadata_loop.simps [simp del]

definition CacheColumnMetadata ::
  "engine \<Rightarrow> handle \<Rightarrow> int \<Rightarrow> 'a world_scheme \<Rightarrow> (string list \<times> int list) \<times> 'a world_scheme" where
  "CacheColumnMetadata eng stmt columnCount w =
     CacheColumnMetadata_loop eng stmt columnCount 1 [] [] w"

text \<open>
  \<open>FetchSingleRow\<close>, one branch of the type dispatch at a time. A row is the list of its
  properties. The bytes an engine read delivers are \<open>rstr\<close> of its reply.
\<close>

type_synonym row = "(string \<times> jsval) list"

function blob_read_loop ::
  "engine \<Rightarrow> handle \<Rightarrow> nat \<Rightarrow> nat \<Rightarrow> string \<Rightarrow> int \<Rightarrow> 'a world_scheme
     \<Rightarrow> (int \<times> string) \<times> 'a world_scheme" where
  "blob_read_loop eng lobHandle offset remaining buf rc w =
     (if remaining > 0 then
        (let chunk = (if remaining < LOB_READ_CHUNK then remaining else LOB_READ_CHUNK);
             rw = ecall eng (MimerGetBlobData lobHandle chunk) w
         in if rcode (fst rw) < 0 then ((rcode (fst rw), buf), snd rw)
            else blob_read_loop eng lobHandle (offset + chunk) (remaining - chunk)
                   (buf @ take chunk (rstr (fst rw))) (rcode (fst rw)) (snd rw))
      else ((rc, buf), w))"
  by pat_completeness auto
termination
  by (relation "measure (\<lambda>(eng, lobHandle, offset, remaining, buf, rc, w). remaining)")
     (auto simp: LOB_READ_CHUNK_def)

declare blob_read_loop.simps [simp del]

definition fetch_blob ::
  "engine \<Rightarrow> handle \<Rightarrow> int \<Rightarrow> string \<Rightarrow> row \<Rightarrow> 'a world_scheme \<Rightarrow> row \<times> 'a world_scheme" where
  "fetch_blob eng stmt col colName row w =
     (let (rl, w1) = ecall eng (MimerGetLob stmt col) w in
      if rcode rl = 0 \<and> rsize rl > 0 then
        (let ((rc, buf), w2) = blob_read_loop eng (rhandle rl) 0 (rsize rl) [] (rcode rl) w1
         in (if rc \<ge> 0 then obj_set colName (JSBuffer buf) row else row, w2))
      else if rcode rl = 0 then (obj_set colName (JSBuffer []) row, w1)
      else (row, w1))"

text \<open>
  The character large-object read is a \<open>do ... while (rc > 0)\<close> that ends only when the
  engine says so.
\<close>

partial_function (option) nclob_read_loop ::
  "engine \<Rightarrow> handle \<Rightarrow> string \<Rightarrow> 'a world_scheme \<Rightarrow> ((int \<times> string) \<times> 'a world_scheme) option" where
  "nclob_read_loop eng lobHandle result w =
     (let rw = ecall eng (MimerGetNclobData8 lobHandle (LOB_READ_CHUNK + 1)) w
      in if rcode (fst rw) < 0 then Some ((rcode (fst rw), result), snd rw)
         else if rcode (fst rw) > 0
         then nclob_read_loop eng lobHandle (result @ rstr (fst rw)) (snd rw)
         else Some ((rcode (fst rw), result @ rstr (fst rw)), snd rw))"

declare nclob_read_loop.simps [code]

definition fetch_nclob ::
  "engine \<Rightarrow> handle \<Rightarrow> int \<Rightarrow> string \<Rightarrow> row \<Rightarrow> 'a world_scheme
     \<Rightarrow> (row \<times> 'a world_scheme) option" where
  "fetch_nclob eng stmt col colName row w =
     (let (rl, w1) = ecall eng (MimerGetLob stmt col) w in
      if rcode rl = 0 \<and> rsize rl > 0 then
        (case nclob_read_loop eng (rhandle rl) [] w1 of
           None \<Rightarrow> None
         | Some ((rc, result), w2) \<Rightarrow>
             Some (if rc \<ge> 0 then obj_set colName (JSString result) row else row, w2))
      else if rcode rl = 0 then Some (obj_set colName (JSString []) row, w1)
      else Some (row, w1))"

definition fetch_binary ::
  "engine \<Rightarrow> handle \<Rightarrow> int \<Rightarrow> string \<Rightarrow> row \<Rightarrow> 'a world_scheme \<Rightarrow> row \<times> 'a world_scheme" where
  "fetch_binary eng stmt col colName row w =
     (let (rs, w1) = ecall eng (MimerGetBinary stmt col 0) w; size = rcode rs in
      if size > 0 then
        (let (rb, w2) = ecall eng (MimerGetBinary stmt col (nat size)) w1
         in (if rcode rb \<ge> 0 then obj_set colName (JSBuffer (take (nat size) (rstr rb))) row
             else row, w2))
      else (obj_set colName (JSBuffer []) row, w1))"

definition fetch_string ::
  "engine \<Rightarrow> handle \<Rightarrow> int \<Rightarrow> string \<Rightarrow> row \<Rightarrow> 'a world_scheme \<Rightarrow> row \<times> 'a world_scheme" where
  "fetch_string eng stmt col colName row w =
     (let (rs, w1) = ecall eng (MimerGetString8 stmt col 256) w; size = rcode rs in
      if size > 0 \<and> size < 256 then (obj_set colName (JSString (rstr rs)) row, w1)
      else if size \<ge> 256 then
        (let (rb, w2) = ecall eng (MimerGetString8 stmt col (nat (size + 1))) w1
         in (if rcode rb \<ge> 0 then obj_set colName (JSString (rstr rb)) row else row, w2))
      else (obj_set colName (JSString []) row, w1))"

text \<open>
  The typed getters write their value through a pointer (\<open>rint\<close> or \<open>rnum\<close> of the reply);
  \<open>MimerGetBoolean\<close> returns it. A 64-bit value becomes a number by
  \<open>static_cast<double>\<close>, whose rounding is left out.
\<close>

definition fetch_column ::
  "mimerapi \<Rightarrow> engine \<Rightarrow> handle \<Rightarrow> int \<Rightarrow> string \<Rightarrow> int \<Rightarrow> row \<Rightarrow> 'a world_scheme
     \<Rightarrow> (row \<times> 'a world_scheme) option" where
  "fetch_column api eng stmt col colName colType row w =
     (let (rn, w1) = ecall eng (MimerIsNull stmt col) w in
      if rcode rn > 0 then Some (obj_set colName JSNull row, w1)
      else if MimerIsInt32 api colType then
        (let (r, w2) = ecall eng (MimerGetInt32 stmt col) w1
         in Some (if rcode r = 0 then obj_set colName (JSNumber (Finite (of_int (rint r)))) row
                  else row, w2))
      else if MimerIsInt64 api colType then
        (let (r, w2) = ecall eng (MimerGetInt64 stmt col) w1
         in Some (if rcode r = 0 then obj_set colName (JSNumber (Finite (of_int (rint r)))) row
                  else row, w2))
      else if MimerIsDouble api colType then
        (let (r, w2) = ecall eng (MimerGetDouble stmt col) w1
         in Some (if rcode r = 0 then obj_set colName (JSNumber (rnum r)) row else row, w2))
      else if MimerIsFloat api colType then
        (let (r, w2) = ecall eng (MimerGetFloat stmt col) w1
         in Some (if rcode r = 0 then obj_set colName (JSNumber (rnum r)) row else row, w2))
      else if MimerIsBoolean api colType then
        (let (r, w2) = ecall eng (MimerGetBoolean stmt col) w1
         in Some (obj_set colName (JSBoolean (rcode r > 0)) row, w2))
      else if MimerIsBlob api colType then Some (fetch_blob eng stmt col colName row w1)
      else if MimerIsNclob api colType then fetch_nclob eng stmt col colName row w1
      else if MimerIsBinary api colType then Some (fetch_binary eng stmt col colName row w1)
      else Some (fetch_string eng stmt col colName row w1))"

text \<open>
  The loop over the columns. \<open>colNames\<close> and \<open>colTypes\<close> are the vectors filled by
  \<open>CacheColumnMetadata\<close>, read at \<open>col - 1\<close>; every caller passes vectors of
  \<open>columnCount\<close> elements, so the reads are in range.
\<close>

function FetchSingleRow_loop ::
  "mimerapi \<Rightarrow> engine \<Rightarrow> handle \<Rightarrow> int \<Rightarrow> string list \<Rightarrow> int list \<Rightarrow> int \<Rightarrow> row
     \<Rightarrow> 'a world_scheme \<Rightarrow> (row \<times> 'a world_scheme) option" where
  "FetchSingleRow_loop api eng stmt columnCount colNames colTypes col row w =
     (if col \<le> columnCount then
        (case fetch_column api eng stmt (cast_int16 col) (colNames ! nat (col - 1))
                (colTypes ! nat (col - 1)) row w of
           None \<Rightarrow> None
         | Some (row', w') \<Rightarrow>
             FetchSingleRow_loop api eng stmt columnCount colNames colTypes (col + 1) row' w')
      else Some (row, w))"
  by pat_completeness auto
termination
  by (relation "measure (\<lambda>(api, eng, stmt, columnCount, colNames, colTypes, col, row, w).
                           nat (columnCount + 1 - col))")
     auto

declare FetchSingleRow_loop.simps [simp del]

definition FetchSingleRow ::
  "mimerapi \<Rightarrow> engine \<Rightarrow> handle \<Rightarrow> int \<Rightarrow> string list \<Rightarrow> int list \<Rightarrow> 'a world_scheme
     \<Rightarrow> (jsval \<times> 'a world_scheme) option" where
  "FetchSingleRow api eng stmt columnCount colNames colTypes w =
     (case FetchSingleRow_loop api eng stmt columnCount colNames colTypes 1 [] w of
        None \<Rightarrow> None
      | Some (row, w') \<Rightarrow> Some (JSObject row, w'))"

text \<open>
  \<open>FetchResults\<close>: \<open>while (MimerFetch(stmt) == MIMER_SUCCESS)\<close> runs as long as the
  engine reports rows.
\<close>

partial_function (option) FetchResults_loop ::
  "mimerapi \<Rightarrow> engine \<Rightarrow> handle \<Rightarrow> int \<Rightarrow> string list \<Rightarrow> int list \<Rightarrow> jsval list
     \<Rightarrow> 'a world_scheme \<Rightarrow> (jsval list \<times> 'a world_scheme) option" where
  "FetchResults_loop api eng stmt columnCount colNames colTypes rows w =
     (let rw = ecall eng (MimerFetch stmt) w in
      if rcode (fst rw) = const api ''MIMER_SUCCESS'' then
        (case FetchSingleRow api eng stmt columnCount colNames colTypes (snd rw) of
           None \<Rightarrow> None
         | Some rw' \<Rightarrow>
             FetchResults_loop api eng stmt columnCount colNames colTypes
               (rows @ [fst rw']) (snd rw'))
      else Some (rows, snd rw))"

declare FetchResults_loop.simps [code]

definition FetchResults ::
  "mimerapi \<Rightarrow> engine \<Rightarrow> handle \<Rightarrow> int \<Rightarrow> 'a world_scheme
     \<Rightarrow> (jsval list \<times> 'a world_scheme) option" where
  "FetchResults api eng stmt columnCount w =
     (let ((colNames, colTypes), w1) = CacheColumnMetadata eng stmt columnCount w
      in FetchResults_loop api eng stmt columnCount colNames colTypes [] w1)"

section \<open>The objects: connection.cc, statement.cc, resultset.cc\<close>

text \<open>
  \<open>MimerStmtWrapper\<close> and \<open>MimerResultSetWrapper\<close>, field by field. There is one
  \<open>MimerConnection\<close>, so a \<open>parentConnection_\<close> pointer is either null (\<open>False\<close>) or
  points to it (\<open>True\<close>).
\<close>

record stmt_wrapper =
  s_stmt :: handle
  s_columnCount :: int
  s_closed :: bool
  s_parentConnection :: bool

record rs_wrapper =
  r_stmt :: handle
  r_columnCount :: int
  r_colNames :: "string list"
  r_colTypes :: "int list"
  r_closed :: bool
  r_exhausted :: bool
  r_parentConnection :: bool

text \<open>
  The whole state: the engine history and pending exception, the fields of the
  connection, and the wrappers by address. The two \<open>std::set\<close>s of pointers are the
  ascending lists of their members.
\<close>

record system = world +
  session :: handle
  connected :: bool
  openStatements :: "nat list"
  openResultSets :: "nat list"
  statements :: "nat \<rightharpoonup> stmt_wrapper"
  resultSets :: "nat \<rightharpoonup> rs_wrapper"

definition set_insert :: "nat \<Rightarrow> nat list \<Rightarrow> nat list" where
  "set_insert p ps = (if p \<in> set ps then ps else insort p ps)"

definition set_erase :: "nat \<Rightarrow> nat list \<Rightarrow> nat list" where
  "set_erase p ps = removeAll p ps"

definition RegisterStatement :: "nat \<Rightarrow> system \<Rightarrow> system" where
  "RegisterStatement p sys = sys\<lparr>openStatements := set_insert p (openStatements sys)\<rparr>"

definition RegisterResultSet :: "nat \<Rightarrow> system \<Rightarrow> system" where
  "RegisterResultSet p sys = sys\<lparr>openResultSets := set_insert p (openResultSets sys)\<rparr>"

definition UnregisterStatement :: "nat \<Rightarrow> system \<Rightarrow> system" where
  "UnregisterStatement p sys = sys\<lparr>openStatements := set_erase p (openStatements sys)\<rparr>"

definition UnregisterResultSet :: "nat \<Rightarrow> system \<Rightarrow> system" where
  "UnregisterResultSet p sys = sys\<lparr>openResultSets := set_erase p (openResultSets sys)\<rparr>"

text \<open>Throwing a plain \<open>Napi::Error\<close> or \<open>Napi::TypeError\<close>.\<close>

definition throw :: "js_error \<Rightarrow> 'a world_scheme \<Rightarrow> 'a world_scheme" where
  "throw e w = w\<lparr>pending := Some e\<rparr>"

text \<open>
  What JavaScript sees of a native method: the exception if one is pending when the
  method returns, else the value returned.
\<close>

datatype outcome = Returned jsval | Thrown js_error

definition js_outcome :: "jsval \<times> 'a world_scheme \<Rightarrow> outcome" where
  "js_outcome r = (case pending (snd r) of Some e \<Rightarrow> Thrown e | None \<Rightarrow> Returned (fst r))"

text \<open>
  The state in which JavaScript makes its next call: the outcome has been delivered, so
  an exception that was pending has been thrown to the caller and is pending no more.
\<close>

definition delivered :: "'a world_scheme \<Rightarrow> 'a world_scheme" where
  "delivered w = w\<lparr>pending := None\<rparr>"

text \<open>
  The optional parameter array at position \<open>k\<close> of the arguments:
  \<open>info.Length() >= k + 1 && info[k].IsArray() && info[k].As<Napi::Array>().Length() > 0\<close>.
\<close>

fun params_at :: "jsval list \<Rightarrow> nat \<Rightarrow> jsval list option" where
  "params_at info k =
     (if length info \<ge> k + 1 then
        (case info ! k of
           JSArray params \<Rightarrow> (if length params > 0 then Some params else None)
         | _ \<Rightarrow> None)
      else None)"

text \<open>The argument at position \<open>k\<close> when it is there and \<open>IsString()\<close>.\<close>

fun string_at :: "jsval list \<Rightarrow> nat \<Rightarrow> string option" where
  "string_at info k =
     (if length info \<ge> k + 1 then (case info ! k of JSString str \<Rightarrow> Some str | _ \<Rightarrow> None)
      else None)"

subsection \<open>statement.cc\<close>

text \<open>
  The methods take \<open>this\<close>, the address of the wrapper. An address without a wrapper
  is not an object JavaScript can hold; the methods leave the state as it is there.
  \<open>MimerEndStatement(&stmt_)\<close> writes the handle back: \<open>rhandle\<close> of the reply.
\<close>

text \<open>
  The constructor as \<open>NewInstance\<close> runs it, with the session and the SQL text: the
  wrapper it leaves and the state. (Called from JavaScript it only raises a
  \<open>TypeError\<close>.)
\<close>

definition stmt_constructor :: "engine \<Rightarrow> handle \<Rightarrow> string \<Rightarrow> system \<Rightarrow> stmt_wrapper \<times> system" where
  "stmt_constructor eng sess sql sys =
     (let (rb, sys1) = ecall eng (MimerBeginStatement8 sess sql) sys;
          s = \<lparr>s_stmt = rhandle rb, s_columnCount = 0, s_closed = False,
               s_parentConnection = False\<rparr>
      in if rcode rb < 0
         then (s, ThrowMimerError (rcode rb) ''MimerBeginStatement8'' [] sys1)
         else (let (rc, sys2) = ecall eng (MimerColumnCount (rhandle rb)) sys1
               in (s\<lparr>s_columnCount := rcode rc\<rparr>, sys2)))"

definition stmt_release :: "engine \<Rightarrow> stmt_wrapper \<Rightarrow> system \<Rightarrow> stmt_wrapper \<times> system" where
  "stmt_release eng s sys =
     (if \<not> s_closed s \<and> s_stmt s \<noteq> MIMERNULLHANDLE then
        (let (r, sys1) = ecall eng (MimerEndStatement (s_stmt s)) sys
         in (s\<lparr>s_stmt := rhandle r\<rparr>, sys1))
      else (s, sys))"

definition stmt_Invalidate :: "engine \<Rightarrow> nat \<Rightarrow> system \<Rightarrow> system" where
  "stmt_Invalidate eng this sys =
     (case statements sys this of
        None \<Rightarrow> sys
      | Some s \<Rightarrow>
          (let (s1, sys1) = stmt_release eng s sys
           in sys1\<lparr>statements := (statements sys1)
                     (this \<mapsto> s1\<lparr>s_closed := True, s_parentConnection := False\<rparr>)\<rparr>))"

definition stmt_CloseInternal :: "engine \<Rightarrow> nat \<Rightarrow> system \<Rightarrow> system" where
  "stmt_CloseInternal eng this sys =
     (case statements sys this of
        None \<Rightarrow> sys
      | Some s \<Rightarrow>
          (let (s1, sys1) = stmt_release eng s sys;
               s2 = s1\<lparr>s_closed := True\<rparr>
           in if s_parentConnection s2
              then (UnregisterStatement this sys1)
                     \<lparr>statements := (statements sys1)(this \<mapsto> s2\<lparr>s_parentConnection := False\<rparr>)\<rparr>
              else sys1\<lparr>statements := (statements sys1)(this \<mapsto> s2)\<rparr>))"

text \<open>The destructor's body; it does not set \<open>closed_\<close>.\<close>

definition stmt_destructor :: "engine \<Rightarrow> nat \<Rightarrow> system \<Rightarrow> system" where
  "stmt_destructor eng this sys =
     (case statements sys this of
        None \<Rightarrow> sys
      | Some s \<Rightarrow>
          (if \<not> s_closed s \<and> s_stmt s \<noteq> MIMERNULLHANDLE then
             (let (r, sys1) = ecall eng (MimerEndStatement (s_stmt s)) sys;
                  s1 = s\<lparr>s_stmt := rhandle r\<rparr>
              in if s_parentConnection s1
                 then (UnregisterStatement this sys1)
                        \<lparr>statements := (statements sys1)(this \<mapsto> s1\<lparr>s_parentConnection := False\<rparr>)\<rparr>
                 else sys1\<lparr>statements := (statements sys1)(this \<mapsto> s1)\<rparr>)
           else sys))"

definition stmt_Close :: "engine \<Rightarrow> nat \<Rightarrow> system \<Rightarrow> jsval \<times> system" where
  "stmt_Close eng this sys = (JSBoolean True, stmt_CloseInternal eng this sys)"

definition stmt_Execute ::
  "mimerapi \<Rightarrow> engine \<Rightarrow> nat \<Rightarrow> jsval list \<Rightarrow> system \<Rightarrow> (jsval \<times> system) option" where
  "stmt_Execute api eng this info sys =
     (case statements sys this of
        None \<Rightarrow> Some (JSUndefined, sys)
      | Some s \<Rightarrow>
          if s_closed s then Some (JSUndefined, throw (PlainError ''Statement is closed'') sys)
          else
            (case (case params_at info 0 of
                     Some params \<Rightarrow>
                       map_option (\<lambda>sys1. (pending sys1 \<noteq> None, sys1))
                         (BindParameters api eng (s_stmt s) params sys)
                   | None \<Rightarrow> Some (False, sys)) of
               None \<Rightarrow> None
             | Some (failed, sys1) \<Rightarrow>
                 if failed then Some (JSUndefined, sys1)
                 else if s_columnCount s > 0 then
                   (let (flds, sys2) = BuildFieldsArray api eng (s_stmt s) (s_columnCount s) sys1;
                        (ro, sys3) = ecall eng (MimerOpenCursor (s_stmt s)) sys2
                    in if rcode ro < 0
                       then Some (JSUndefined, ThrowMimerError (rcode ro) ''MimerOpenCursor'' [] sys3)
                       else
                         (case FetchResults api eng (s_stmt s) (s_columnCount s) sys3 of
                            None \<Rightarrow> None
                          | Some (rows, sys4) \<Rightarrow>
                              (let (rc, sys5) = ecall eng (MimerCloseCursor (s_stmt s)) sys4
                               in Some (JSObject
                                          (obj_set ''rowCount'' (JSNumber (Finite (of_nat (length rows))))
                                          (obj_set ''rows'' (JSArray rows)
                                          (obj_set ''fields'' flds []))), sys5))))
                 else
                   (let (re, sys2) = ecall eng (MimerExecute (s_stmt s)) sys1
                    in if rcode re < 0
                       then Some (JSUndefined, ThrowMimerError (rcode re) ''MimerExecute'' [] sys2)
                       else Some (JSObject
                                    (obj_set ''rowCount'' (JSNumber (Finite (of_int (rcode re)))) []),
                                  sys2))))"

subsection \<open>resultset.cc\<close>

text \<open>The constructor as \<open>NewInstance\<close> runs it, with the statement handle and column count.\<close>

definition rs_constructor :: "engine \<Rightarrow> handle \<Rightarrow> int \<Rightarrow> system \<Rightarrow> rs_wrapper \<times> system" where
  "rs_constructor eng stmt columnCount sys =
     (let ((colNames, colTypes), sys1) = CacheColumnMetadata eng stmt columnCount sys
      in (\<lparr>r_stmt = stmt, r_columnCount = columnCount, r_colNames = colNames,
           r_colTypes = colTypes, r_closed = False, r_exhausted = False,
           r_parentConnection = False\<rparr>, sys1))"

text \<open>\<open>MimerCloseCursor(stmt_); MimerEndStatement(&stmt_);\<close> under the closed guard.\<close>

definition rs_release :: "engine \<Rightarrow> rs_wrapper \<Rightarrow> system \<Rightarrow> rs_wrapper \<times> system" where
  "rs_release eng rs sys =
     (if \<not> r_closed rs \<and> r_stmt rs \<noteq> MIMERNULLHANDLE then
        (let (rc, sys1) = ecall eng (MimerCloseCursor (r_stmt rs)) sys;
             (re, sys2) = ecall eng (MimerEndStatement (r_stmt rs)) sys1
         in (rs\<lparr>r_stmt := rhandle re\<rparr>, sys2))
      else (rs, sys))"

definition rs_Invalidate :: "engine \<Rightarrow> nat \<Rightarrow> system \<Rightarrow> system" where
  "rs_Invalidate eng this sys =
     (case resultSets sys this of
        None \<Rightarrow> sys
      | Some rs \<Rightarrow>
          (let (rs1, sys1) = rs_release eng rs sys
           in sys1\<lparr>resultSets := (resultSets sys1)
                     (this \<mapsto> rs1\<lparr>r_closed := True, r_parentConnection := False\<rparr>)\<rparr>))"

definition rs_CloseInternal :: "engine \<Rightarrow> nat \<Rightarrow> system \<Rightarrow> system" where
  "rs_CloseInternal eng this sys =
     (case resultSets sys this of
        None \<Rightarrow> sys
      | Some rs \<Rightarrow>
          (let (rs1, sys1) = rs_release eng rs sys;
               rs2 = rs1\<lparr>r_closed := True\<rparr>
           in if r_parentConnection rs2
              then (UnregisterResultSet this sys1)
                     \<lparr>resultSets := (resultSets sys1)(this \<mapsto> rs2\<lparr>r_parentConnection := False\<rparr>)\<rparr>
              else sys1\<lparr>resultSets := (resultSets sys1)(this \<mapsto> rs2)\<rparr>))"

definition rs_destructor :: "engine \<Rightarrow> nat \<Rightarrow> system \<Rightarrow> system" where
  "rs_destructor eng this sys = rs_CloseInternal eng this sys"

definition rs_Close :: "engine \<Rightarrow> nat \<Rightarrow> system \<Rightarrow> jsval \<times> system" where
  "rs_Close eng this sys = (JSBoolean True, rs_CloseInternal eng this sys)"

definition rs_IsClosed :: "nat \<Rightarrow> system \<Rightarrow> jsval \<times> system" where
  "rs_IsClosed this sys =
     (case resultSets sys this of
        None \<Rightarrow> (JSUndefined, sys)
      | Some rs \<Rightarrow> (JSBoolean (r_closed rs), sys))"

definition rs_FetchNext ::
  "mimerapi \<Rightarrow> engine \<Rightarrow> nat \<Rightarrow> system \<Rightarrow> (jsval \<times> system) option" where
  "rs_FetchNext api eng this sys =
     (case resultSets sys this of
        None \<Rightarrow> Some (JSUndefined, sys)
      | Some rs \<Rightarrow>
          if r_closed rs \<or> r_exhausted rs then Some (JSNull, sys)
          else
            (let (rf, sys1) = ecall eng (MimerFetch (r_stmt rs)) sys in
             if rcode rf = const api ''MIMER_SUCCESS''
             then FetchSingleRow api eng (r_stmt rs) (r_columnCount rs) (r_colNames rs)
                    (r_colTypes rs) sys1
             else Some (JSNull,
                        sys1\<lparr>resultSets := (resultSets sys1)(this \<mapsto> rs\<lparr>r_exhausted := True\<rparr>)\<rparr>)))"

definition rs_GetFields :: "mimerapi \<Rightarrow> engine \<Rightarrow> nat \<Rightarrow> system \<Rightarrow> jsval \<times> system" where
  "rs_GetFields api eng this sys =
     (case resultSets sys this of
        None \<Rightarrow> (JSUndefined, sys)
      | Some rs \<Rightarrow>
          if r_closed rs then (JSArray [], sys)
          else BuildFieldsArray api eng (r_stmt rs) (r_columnCount rs) sys)"

subsection \<open>connection.cc\<close>

definition GetErrorMessage :: "engine \<Rightarrow> system \<Rightarrow> string \<times> system" where
  "GetErrorMessage eng sys =
     (if session sys \<noteq> MIMERNULLHANDLE then
        (let (r, sys1) = ecall eng (MimerGetError8 (session sys)) sys
         in if rcode r > 0 then (rstr r, sys1) else (''Unknown error'', sys1))
      else (''Unknown error'', sys))"

definition CheckError :: "engine \<Rightarrow> int \<Rightarrow> string \<Rightarrow> system \<Rightarrow> system" where
  "CheckError eng rc operation sys =
     (if rc < 0 then
        (let (detail, sys1) = GetErrorMessage eng sys
         in ThrowMimerError rc operation detail sys1)
      else sys)"

text \<open>The constructor: no session, not connected, nothing registered.\<close>

definition conn_constructor :: "world \<Rightarrow> system" where
  "conn_constructor w =
     \<lparr>trace = trace w, pending = pending w, session = MIMERNULLHANDLE, connected = False,
      openStatements = [], openResultSets = [],
      statements = Map.empty, resultSets = Map.empty\<rparr>"

definition conn_Connect :: "engine \<Rightarrow> jsval list \<Rightarrow> system \<Rightarrow> jsval \<times> system" where
  "conn_Connect eng info sys =
     (if length info < 3
      then (JSUndefined, throw (TypeError ''Expected 3 arguments: dsn, user, password'') sys)
      else
        (case (string_at info 0, string_at info 1, string_at info 2) of
           (Some dsn, Some user, Some password) \<Rightarrow>
             (let (r, sys1) = ecall eng (MimerBeginSession8 dsn user password) sys;
                  sys2 = sys1\<lparr>session := rhandle r\<rparr>
              in if rcode r < 0
                 then (JSUndefined, CheckError eng (rcode r) ''MimerBeginSession8'' sys2)
                 else (JSBoolean True, sys2\<lparr>connected := True\<rparr>))
         | _ \<Rightarrow> (JSUndefined, throw (TypeError ''All arguments must be strings'') sys)))"

text \<open>The destructor's body: the same invalidation, then the session ended if connected.\<close>

definition conn_destructor :: "engine \<Rightarrow> system \<Rightarrow> system" where
  "conn_destructor eng sys =
     (let sys1 = fold (rs_Invalidate eng) (openResultSets sys) sys;
          sys2 = sys1\<lparr>openResultSets := []\<rparr>;
          sys3 = fold (stmt_Invalidate eng) (openStatements sys2) sys2;
          sys4 = sys3\<lparr>openStatements := []\<rparr>
      in if connected sys4 \<and> session sys4 \<noteq> MIMERNULLHANDLE
         then (let (r, sys5) = ecall eng (MimerEndSession (session sys4)) sys4
               in sys5\<lparr>session := rhandle r\<rparr>)
         else sys4)"

definition conn_Close :: "engine \<Rightarrow> system \<Rightarrow> jsval \<times> system" where
  "conn_Close eng sys =
     (if \<not> connected sys then (JSBoolean True, sys)
      else
        (let sys1 = fold (rs_Invalidate eng) (openResultSets sys) sys;
             sys2 = sys1\<lparr>openResultSets := []\<rparr>;
             sys3 = fold (stmt_Invalidate eng) (openStatements sys2) sys2;
             sys4 = sys3\<lparr>openStatements := []\<rparr>
         in if session sys4 \<noteq> MIMERNULLHANDLE then
              (let (r, sys5) = ecall eng (MimerEndSession (session sys4)) sys4;
                   sys6 = sys5\<lparr>session := rhandle r\<rparr>;
                   sys7 = (if rcode r < 0 then CheckError eng (rcode r) ''MimerEndSession'' sys6
                           else sys6)
               in (JSBoolean True, sys7\<lparr>connected := False\<rparr>))
            else (JSBoolean True, sys4)))"

text \<open>
  \<open>MimerConnection::Execute\<close>. \<open>stmt\<close> is the local handle that
  \<open>MimerBeginStatement8\<close> fills in.
\<close>

definition conn_Execute ::
  "mimerapi \<Rightarrow> engine \<Rightarrow> jsval list \<Rightarrow> system \<Rightarrow> (jsval \<times> system) option" where
  "conn_Execute api eng info sys =
     (if \<not> connected sys
      then Some (JSUndefined, throw (PlainError ''Not connected to database'') sys)
      else
        (case string_at info 0 of
           None \<Rightarrow>
             Some (JSUndefined, throw (TypeError ''Expected SQL string as first argument'') sys)
         | Some sql \<Rightarrow>
             (let (rb, sys1) = ecall eng (MimerBeginStatement8 (session sys) sql) sys;
                  stmt = rhandle rb
              in if rcode rb = const api ''MIMER_STATEMENT_CANNOT_BE_PREPARED'' then
                   (let (rx, sys2) = ecall eng (MimerExecuteStatement8 (session sys) sql) sys1
                    in if rcode rx < 0
                       then Some (JSUndefined,
                                  CheckError eng (rcode rx) ''MimerExecuteStatement8'' sys2)
                       else Some (JSObject (obj_set ''rowCount'' (JSNumber (Finite 0)) []), sys2))
                 else if rcode rb < 0
                 then Some (JSUndefined, CheckError eng (rcode rb) ''MimerBeginStatement8'' sys1)
                 else
                   (case (case params_at info 1 of
                            Some params \<Rightarrow>
                              map_option (\<lambda>sys2. (pending sys2 \<noteq> None, sys2))
                                (BindParameters api eng stmt params sys1)
                          | None \<Rightarrow> Some (False, sys1)) of
                      None \<Rightarrow> None
                    | Some (failed, sys2) \<Rightarrow>
                        if failed
                        then Some (JSUndefined, snd (ecall eng (MimerEndStatement stmt) sys2))
                        else
                          (let (rc, sys3) = ecall eng (MimerColumnCount stmt) sys2;
                               columnCount = rcode rc
                           in if columnCount > 0 then
                                (let (flds, sys4) = BuildFieldsArray api eng stmt columnCount sys3;
                                     (ro, sys5) = ecall eng (MimerOpenCursor stmt) sys4
                                 in if rcode ro < 0
                                    then Some (JSUndefined,
                                               snd (ecall eng (MimerEndStatement stmt)
                                                      (CheckError eng (rcode ro) ''MimerOpenCursor'' sys5)))
                                    else
                                      (case FetchResults api eng stmt columnCount sys5 of
                                         None \<Rightarrow> None
                                       | Some (rows, sys6) \<Rightarrow>
                                           Some (JSObject
                                                   (obj_set ''rowCount''
                                                      (JSNumber (Finite (of_nat (length rows))))
                                                   (obj_set ''rows'' (JSArray rows)
                                                   (obj_set ''fields'' flds []))),
                                                 snd (ecall eng (MimerEndStatement stmt) sys6))))
                              else
                                (let (re, sys4) = ecall eng (MimerExecute stmt) sys3
                                 in if rcode re < 0
                                    then Some (JSUndefined,
                                               snd (ecall eng (MimerEndStatement stmt)
                                                      (CheckError eng (rcode re) ''MimerExecute'' sys4)))
                                    else Some (JSObject
                                                 (obj_set ''rowCount''
                                                    (JSNumber (Finite (of_int (rcode re)))) []),
                                               snd (ecall eng (MimerEndStatement stmt) sys4))))))))"

definition conn_BeginTransaction :: "engine \<Rightarrow> system \<Rightarrow> jsval \<times> system" where
  "conn_BeginTransaction eng sys =
     (if \<not> connected sys
      then (JSUndefined, throw (PlainError ''Not connected to database'') sys)
      else
        (let (r, sys1) = ecall eng (MimerBeginTransaction (session sys)) sys
         in if rcode r < 0
            then (JSUndefined, CheckError eng (rcode r) ''MimerBeginTransaction'' sys1)
            else (JSBoolean True, sys1)))"

definition conn_Commit :: "engine \<Rightarrow> system \<Rightarrow> jsval \<times> system" where
  "conn_Commit eng sys =
     (if \<not> connected sys
      then (JSUndefined, throw (PlainError ''Not connected to database'') sys)
      else
        (let (r, sys1) = ecall eng (MimerEndTransaction (session sys) True) sys;
             sys2 = (if rcode r < 0
                     then CheckError eng (rcode r) ''MimerEndTransaction (commit)'' sys1
                     else sys1)
         in (JSBoolean True, sys2)))"

definition conn_Rollback :: "engine \<Rightarrow> system \<Rightarrow> jsval \<times> system" where
  "conn_Rollback eng sys =
     (if \<not> connected sys
      then (JSUndefined, throw (PlainError ''Not connected to database'') sys)
      else
        (let (r, sys1) = ecall eng (MimerEndTransaction (session sys) False) sys;
             sys2 = (if rcode r < 0
                     then CheckError eng (rcode r) ''MimerEndTransaction (rollback)'' sys1
                     else sys1)
         in (JSBoolean True, sys2)))"

definition conn_IsConnected :: "system \<Rightarrow> jsval \<times> system" where
  "conn_IsConnected sys = (JSBoolean (connected sys), sys)"

text \<open>
  \<open>Prepare\<close> and \<open>ExecuteQuery\<close> create a wrapper; \<open>p\<close> is the address the new object
  gets. A statement whose constructor raised is never handed to JavaScript: the host
  destroys it, which runs the body of its destructor on a wrapper without parent.
\<close>

definition conn_Prepare :: "engine \<Rightarrow> nat \<Rightarrow> jsval list \<Rightarrow> system \<Rightarrow> jsval \<times> system" where
  "conn_Prepare eng p info sys =
     (if \<not> connected sys
      then (JSUndefined, throw (PlainError ''Not connected to database'') sys)
      else
        (case string_at info 0 of
           None \<Rightarrow>
             (JSUndefined, throw (TypeError ''Expected SQL string as first argument'') sys)
         | Some sql \<Rightarrow>
             (let (s, sys1) = stmt_constructor eng (session sys) sql sys
              in if pending sys1 \<noteq> None then (JSUndefined, snd (stmt_release eng s sys1))
                 else (JSNative p,
                       sys1\<lparr>statements := (statements sys1)(p \<mapsto> s\<lparr>s_parentConnection := True\<rparr>),
                            openStatements := set_insert p (openStatements sys1)\<rparr>))))"

definition conn_ExecuteQuery ::
  "mimerapi \<Rightarrow> engine \<Rightarrow> nat \<Rightarrow> jsval list \<Rightarrow> system \<Rightarrow> (jsval \<times> system) option" where
  "conn_ExecuteQuery api eng p info sys =
     (if \<not> connected sys
      then Some (JSUndefined, throw (PlainError ''Not connected to database'') sys)
      else
        (case string_at info 0 of
           None \<Rightarrow>
             Some (JSUndefined, throw (TypeError ''Expected SQL string as first argument'') sys)
         | Some sql \<Rightarrow>
             (let (rb, sys1) = ecall eng (MimerBeginStatement8 (session sys) sql) sys;
                  stmt = rhandle rb
              in if rcode rb = const api ''MIMER_STATEMENT_CANNOT_BE_PREPARED''
                 then Some (JSUndefined,
                            throw (PlainError
                              ''queryCursor only supports SELECT statements (DDL cannot be prepared)'')
                              sys1)
                 else if rcode rb < 0
                 then Some (JSUndefined, CheckError eng (rcode rb) ''MimerBeginStatement8'' sys1)
                 else
                   (case (case params_at info 1 of
                            Some params \<Rightarrow>
                              map_option (\<lambda>sys2. (pending sys2 \<noteq> None, sys2))
                                (BindParameters api eng stmt params sys1)
                          | None \<Rightarrow> Some (False, sys1)) of
                      None \<Rightarrow> None
                    | Some (failed, sys2) \<Rightarrow>
                        if failed
                        then Some (JSUndefined, snd (ecall eng (MimerEndStatement stmt) sys2))
                        else
                          (let (rc, sys3) = ecall eng (MimerColumnCount stmt) sys2;
                               columnCount = rcode rc
                           in if columnCount \<le> 0
                              then Some (JSUndefined,
                                         throw (PlainError
                                           ''queryCursor only supports SELECT statements (DML has no result columns)'')
                                           (snd (ecall eng (MimerEndStatement stmt) sys3)))
                              else
                                (let (ro, sys4) = ecall eng (MimerOpenCursor stmt) sys3
                                 in if rcode ro < 0
                                    then Some (JSUndefined,
                                               snd (ecall eng (MimerEndStatement stmt)
                                                      (CheckError eng (rcode ro) ''MimerOpenCursor'' sys4)))
                                    else
                                      (let (rs, sys5) = rs_constructor eng stmt columnCount sys4
                                       in if pending sys5 \<noteq> None
                                          then Some (JSUndefined,
                                                     snd (ecall eng (MimerEndStatement stmt)
                                                            (snd (ecall eng (MimerCloseCursor stmt) sys5))))
                                          else Some (JSNative p,
                                                     sys5\<lparr>resultSets := (resultSets sys5)
                                                             (p \<mapsto> rs\<lparr>r_parentConnection := True\<rparr>),
                                                          openResultSets :=
                                                            set_insert p (openResultSets sys5)\<rparr>))))))))"

section \<open>Notions used to state the properties\<close>

text \<open>The calls a function added to the history.\<close>

definition new_calls :: "'a world_scheme \<Rightarrow> 'b world_scheme \<Rightarrow> call list" where
  "new_calls w w' = drop (length (trace w)) (trace w')"

text \<open>
  The type codes that the nullability rule names besides the negative ones: the
  \<open>NULLABLE\<close> codes of the native types.
\<close>

definition native_nullable_codes :: "mimerapi \<Rightarrow> int set" where
  "native_nullable_codes api =
     {const api ''MIMER_NATIVE_SMALLINT_NULLABLE'',
      const api ''MIMER_NATIVE_INTEGER_NULLABLE'',
      const api ''MIMER_NATIVE_BIGINT_NULLABLE'',
      const api ''MIMER_NATIVE_REAL_NULLABLE'',
      const api ''MIMER_NATIVE_DOUBLE_NULLABLE''}"

text \<open>A field descriptor whose nullable flag follows the rule, for a name and a raw code.\<close>

definition field_of :: "mimerapi \<Rightarrow> string \<Rightarrow> int \<Rightarrow> jsval" where
  "field_of api nameBuf rawType =
     JSObject
       [(''name'', JSString nameBuf),
        (''dataTypeCode'', JSNumber (Finite (of_int rawType))),
        (''dataTypeName'', JSString (MimerTypeName api \<bar>rawType\<bar>)),
        (''nullable'', JSBoolean (rawType < 0 \<or> rawType \<in> native_nullable_codes api))]"

text \<open>
  The calls that read the metadata of the columns \<open>col, ..., c - 1\<close> in turn, and the
  name and type code the engine reports for column \<open>c\<close> when the columns before it have
  been read, \<open>tr\<close> being the history before the first of them.
\<close>

definition metadata_calls :: "handle \<Rightarrow> int \<Rightarrow> int \<Rightarrow> call list" where
  "metadata_calls stmt col c =
     concat (map (\<lambda>k. [MimerColumnName8 stmt (cast_int16 k), MimerColumnType stmt (cast_int16 k)])
               [col..c - 1])"

definition reported_name :: "engine \<Rightarrow> call list \<Rightarrow> handle \<Rightarrow> int \<Rightarrow> string" where
  "reported_name eng tr stmt c =
     rstr (eng (tr @ metadata_calls stmt 1 c) (MimerColumnName8 stmt (cast_int16 c)))"

definition reported_type :: "engine \<Rightarrow> call list \<Rightarrow> handle \<Rightarrow> int \<Rightarrow> int" where
  "reported_type eng tr stmt c =
     rcode (eng (tr @ metadata_calls stmt 1 c @ [MimerColumnName8 stmt (cast_int16 c)])
              (MimerColumnType stmt (cast_int16 c)))"

text \<open>
  UTF-8: a continuation byte is \<open>10xxxxxx\<close>; a lead byte announces the length of its
  sequence (the classification of \<open>Utf8CharCount\<close>); a string is made of whole code
  points when every lead byte is followed by its continuation bytes.
\<close>

definition is_cont :: "char \<Rightarrow> bool" where
  "is_cont c = (uchar c AND 0xC0 = 0x80)"

definition seq_len :: "char \<Rightarrow> nat" where
  "seq_len c =
     (if uchar c < 0x80 then 1
      else if uchar c AND 0xE0 = 0xC0 then 2
      else if uchar c AND 0xF0 = 0xE0 then 3
      else 4)"

function utf8_wf :: "string \<Rightarrow> bool" where
  "utf8_wf [] = True"
| "utf8_wf (c # cs) =
     (\<not> is_cont c \<and> seq_len c - 1 \<le> length cs
      \<and> list_all is_cont (take (seq_len c - 1) cs)
      \<and> utf8_wf (drop (seq_len c - 1) cs))"
  by pat_completeness auto
termination
  by (relation "measure length") auto

section \<open>A sample header and a sample engine\<close>

text \<open>
  Concrete inputs on which the theorems below are exercised: a header with sample
  values for the constants the code reads, and an engine that serves one table with the
  columns \<open>id\<close> (not null) and \<open>name\<close> (nullable) and the single row \<open>(42, Ann)\<close>; it
  hands out the session handle 5 and the statement handles 7, 8, ... in turn.
\<close>

definition sample_const :: "string \<Rightarrow> int" where
  "sample_const m =
     (case map_of
       [(''MIMER_SUCCESS'', 0), (''MIMER_STATEMENT_CANNOT_BE_PREPARED'', - 24005),
        (''MIMER_NATIVE_SMALLINT_NULLABLE'', 30), (''MIMER_NATIVE_INTEGER_NULLABLE'', 32),
        (''MIMER_NATIVE_BIGINT_NULLABLE'', 34), (''MIMER_NATIVE_REAL_NULLABLE'', 36),
        (''MIMER_NATIVE_DOUBLE_NULLABLE'', 38), (''MIMER_NATIVE_SMALLINT'', 29),
        (''MIMER_NATIVE_INTEGER'', 31), (''MIMER_NATIVE_BIGINT'', 33),
        (''MIMER_NATIVE_REAL'', 35), (''MIMER_NATIVE_DOUBLE'', 37), (''MIMER_CHARACTER'', 1),
        (''MIMER_DECIMAL'', 2), (''MIMER_INTEGER'', 3), (''MIMER_FLOAT'', 4),
        (''MIMER_T_INTEGER'', 6), (''MIMER_T_SMALLINT'', 7), (''MIMER_T_FLOAT'', 8),
        (''MIMER_T_REAL'', 9), (''MIMER_T_DOUBLE'', 10), (''MIMER_CHARACTER_VARYING'', 11),
        (''MIMER_DATE'', 12), (''MIMER_TIME'', 13), (''MIMER_TIMESTAMP'', 14),
        (''MIMER_INTERVAL_YEAR'', 15), (''MIMER_INTERVAL_MINUTE_TO_SECOND'', 27),
        (''MIMER_UNSIGNED_INTEGER'', 28), (''MIMER_NCHAR'', 39), (''MIMER_NCHAR_VARYING'', 40),
        (''MIMER_UUID'', 41), (''MIMER_BOOLEAN'', 42), (''MIMER_NUMERIC'', 43),
        (''MIMER_T_UNSIGNED_INTEGER'', 44), (''MIMER_T_UNSIGNED_SMALLINT'', 45),
        (''MIMER_T_BIGINT'', 46), (''MIMER_T_UNSIGNED_BIGINT'', 47), (''MIMER_BINARY'', 48),
        (''MIMER_BINARY_VARYING'', 49), (''MIMER_NATIVE_BLOB'', 50),
        (''MIMER_NATIVE_BLOB_LOCATOR'', 51), (''MIMER_NATIVE_CLOB'', 52),
        (''MIMER_NATIVE_CLOB_LOCATOR'', 53), (''MIMER_NATIVE_NCLOB'', 54),
        (''MIMER_NATIVE_NCLOB_LOCATOR'', 55), (''MIMER_BLOB'', 57), (''MIMER_CLOB'', 58),
        (''MIMER_NCLOB'', 59), (''MIMER_BLOB_LOCATOR'', 60), (''MIMER_CLOB_LOCATOR'', 61),
        (''MIMER_NCLOB_LOCATOR'', 62), (''MIMER_UTF8'', 63)] m of
        Some code \<Rightarrow> code
      | None \<Rightarrow> 0)"

definition sample_api :: mimerapi where
  "sample_api =
     \<lparr>const = sample_const,
      ToString = (\<lambda>v. case v of
                         JSSymbol d \<Rightarrow> Inl (TypeError ''Cannot convert a Symbol value to a string'')
                       | JSOther str \<Rightarrow> Inr str
                       | _ \<Rightarrow> Inr ''[object Object]''),
      MimerIsInt32 = (\<lambda>t. \<bar>t\<bar> = 31 \<or> \<bar>t\<bar> = 32),
      MimerIsInt64 = (\<lambda>t. \<bar>t\<bar> = 33 \<or> \<bar>t\<bar> = 34),
      MimerIsDouble = (\<lambda>t. \<bar>t\<bar> = 37 \<or> \<bar>t\<bar> = 38),
      MimerIsFloat = (\<lambda>t. \<bar>t\<bar> = 35 \<or> \<bar>t\<bar> = 36),
      MimerIsBoolean = (\<lambda>t. \<bar>t\<bar> = 42),
      MimerIsBlob = (\<lambda>t. \<bar>t\<bar> = 57 \<or> \<bar>t\<bar> = 60),
      MimerIsNclob = (\<lambda>t. \<bar>t\<bar> = 58 \<or> \<bar>t\<bar> = 59 \<or> \<bar>t\<bar> = 61 \<or> \<bar>t\<bar> = 62),
      MimerIsBinary = (\<lambda>t. \<bar>t\<bar> = 48 \<or> \<bar>t\<bar> = 49)\<rparr>"

fun is_fetch :: "call \<Rightarrow> bool" where
  "is_fetch (MimerFetch h) = True"
| "is_fetch _ = False"

fun is_begin_statement :: "call \<Rightarrow> bool" where
  "is_begin_statement (MimerBeginStatement8 h sql) = True"
| "is_begin_statement _ = False"

definition sample_rcode :: "call list \<Rightarrow> call \<Rightarrow> int" where
  "sample_rcode tr c =
     (case c of
        MimerParameterCount h \<Rightarrow> 1
      | MimerColumnCount h \<Rightarrow> 2
      | MimerColumnType h col \<Rightarrow> (if col = 1 then 31 else - 63)
      | MimerFetch h \<Rightarrow> (if filter is_fetch tr = [] then 0 else 100)
      | MimerGetString8 h col n \<Rightarrow> 3
      | _ \<Rightarrow> 0)"

definition sample_rstr :: "call \<Rightarrow> string" where
  "sample_rstr c =
     (case c of
        MimerColumnName8 h col \<Rightarrow> (if col = 1 then ''id'' else ''name'')
      | MimerGetString8 h col n \<Rightarrow> ''Ann''
      | _ \<Rightarrow> [])"

definition sample_engine :: engine where
  "sample_engine tr c =
     \<lparr>rcode = sample_rcode tr c,
      rhandle = (case c of
                   MimerBeginSession8 dsn user password \<Rightarrow> 5
                 | MimerBeginStatement8 h sql \<Rightarrow> 7 + length (filter is_begin_statement tr)
                 | MimerSetLob h i n \<Rightarrow> 9
                 | _ \<Rightarrow> 0),
      rsize = 0,
      rint = 42,
      rnum = Finite 0,
      rstr = sample_rstr c\<rparr>"

text \<open>The same engine, except that it answers the call \<open>c0\<close> with the status \<open>code\<close>.\<close>

definition failing_at :: "call \<Rightarrow> int \<Rightarrow> engine \<Rightarrow> engine" where
  "failing_at c0 code eng tr c = (if c = c0 then (eng tr c)\<lparr>rcode := code\<rparr> else eng tr c)"

definition w0 :: world where
  "w0 = \<lparr>trace = [], pending = None\<rparr>"

text \<open>
  The chunks of a character large-object write, read against the bytes \<open>rest\<close> left
  unwritten after them: each chunk is non-empty, is itself made of whole code points, is
  no longer than the write-chunk size, and ends at the nearest code-point boundary at or
  before that size: no position after its end, up to the size, starts a code point.
\<close>

definition nearest_boundary :: "string \<Rightarrow> string \<Rightarrow> bool" where
  "nearest_boundary c after =
     list_all (\<lambda>k. \<not> utf8_wf (drop k (c @ after)))
       [Suc (length c) ..< Suc (min LOB_WRITE_CHUNK (length (c @ after)))]"

fun boundary_chunks :: "string list \<Rightarrow> string \<Rightarrow> bool" where
  "boundary_chunks [] rest = True"
| "boundary_chunks (c # cs) rest =
     (c \<noteq> [] \<and> utf8_wf c \<and> length c \<le> LOB_WRITE_CHUNK
      \<and> nearest_boundary c (concat cs @ rest) \<and> boundary_chunks cs rest)"

text \<open>A text of \<open>LOB_WRITE_CHUNK + 1\<close> bytes whose last code point straddles the chunk size.\<close>

definition straddling_text :: string where
  "straddling_text = replicate 2097151 (CHR ''a'') @ [CHR 0xC3, CHR 0xA9]"

text \<open>
  The statuses of a run of chunk writes against the engine's replies, from the trace
  \<open>tr\<close> and the status \<open>rc\<close> before the first write: a chunk is written only while
  the status so far is not negative, the status after it is the engine's reply to that
  write, and the status at the end is \<open>rc'\<close>.
\<close>

fun chunk_statuses :: "engine \<Rightarrow> handle \<Rightarrow> call list \<Rightarrow> int \<Rightarrow> string list \<Rightarrow> int \<Rightarrow> bool" where
  "chunk_statuses eng lob tr rc [] rc' = (rc' = rc)"
| "chunk_statuses eng lob tr rc (c # cs) rc' =
     (0 \<le> rc
      \<and> chunk_statuses eng lob (tr @ [MimerSetNclobData8 lob c])
            (rcode (eng tr (MimerSetNclobData8 lob c))) cs rc')"

text \<open>
  The sample engine with parameter 1 of statement 7 a character large object, and the
  same engine refusing the first chunk of the straddling text.
\<close>

definition nclob_engine :: engine where
  "nclob_engine = failing_at (MimerParameterType 7 1) 59 sample_engine"

definition nclob_refusing_engine :: engine where
  "nclob_refusing_engine =
     failing_at (MimerSetNclobData8 9 (replicate 2097151 (CHR ''a''))) (- 1) nclob_engine"

text \<open>
  The typed getter that the dispatch of \<open>FetchSingleRow\<close> picks for a column type, in its
  order of precedence: 32-bit integer, 64-bit integer, double, float.
\<close>

definition typed_getter :: "mimerapi \<Rightarrow> int \<Rightarrow> handle \<Rightarrow> int \<Rightarrow> call option" where
  "typed_getter api colType stmt col =
     (if MimerIsInt32 api colType then Some (MimerGetInt32 stmt col)
      else if MimerIsInt64 api colType then Some (MimerGetInt64 stmt col)
      else if MimerIsDouble api colType then Some (MimerGetDouble stmt col)
      else if MimerIsFloat api colType then Some (MimerGetFloat stmt col)
      else None)"

text \<open>The branch that the dispatch of \<open>FetchSingleRow\<close> takes for a column type.\<close>

datatype getter =
  GInt32 | GInt64 | GDouble | GFloat | GBoolean | GBlob | GNclob | GBinary | GString

definition column_getter :: "mimerapi \<Rightarrow> int \<Rightarrow> getter" where
  "column_getter api colType =
     (if MimerIsInt32 api colType then GInt32
      else if MimerIsInt64 api colType then GInt64
      else if MimerIsDouble api colType then GDouble
      else if MimerIsFloat api colType then GFloat
      else if MimerIsBoolean api colType then GBoolean
      else if MimerIsBlob api colType then GBlob
      else if MimerIsNclob api colType then GNclob
      else if MimerIsBinary api colType then GBinary
      else GString)"

text \<open>
  The query for the declared parameter count, with which the count check begins. Between
  two states no such query was made when the history only grew and none of the calls
  added is one.
\<close>

fun is_parameter_count :: "call \<Rightarrow> bool" where
  "is_parameter_count (MimerParameterCount h) = True"
| "is_parameter_count _ = False"

definition no_count_call :: "'a world_scheme \<Rightarrow> 'b world_scheme \<Rightarrow> bool" where
  "no_count_call w w' =
     (take (length (trace w)) (trace w') = trace w
      \<and> \<not> list_ex is_parameter_count (new_calls w w'))"

text \<open>The two errors \<open>BindParameters\<close> raises, by their fields.\<close>

definition count_mismatch_error :: "int \<Rightarrow> int \<Rightarrow> js_error" where
  "count_mismatch_error expected actual =
     MimerError
       (mimer_message 0 ''BindParameters''
          (''statement expects '' @ show_int expected @ '' but '' @ show_int actual
             @ '' were provided''))
       0 ''BindParameters''"

definition bind_failure_error :: "int \<Rightarrow> int \<Rightarrow> js_error" where
  "bind_failure_error index code =
     MimerError
       (mimer_message code ''BindParameters'' (''failed to bind parameter '' @ show_int index))
       code ''BindParameters''"

text \<open>A connected session with nothing registered, on the session handle 5.\<close>

definition idle_session :: system where
  "idle_session =
     \<lparr>trace = [], pending = None, session = 5, connected = True,
      openStatements = [], openResultSets = [],
      statements = Map.empty, resultSets = Map.empty\<rparr>"

text \<open>The sample engine for a statement without result columns (an \<open>UPDATE\<close>).\<close>

definition dml_engine :: engine where
  "dml_engine = failing_at (MimerColumnCount 7) 0 sample_engine"

text \<open>Engines that refuse one step of a direct execution with the status \<open>- 1\<close>.\<close>

definition open_fails_engine :: engine where
  "open_fails_engine = failing_at (MimerOpenCursor 7) (- 1) sample_engine"

definition execute_fails_engine :: engine where
  "execute_fails_engine = failing_at (MimerExecute 7) (- 1) dml_engine"

definition bind_fails_engine :: engine where
  "bind_fails_engine = failing_at (MimerSetInt32 7 1 42) (- 1) sample_engine"

text \<open>
  The state in which \<open>Close\<close> ends the session: every registered result set and
  statement invalidated and both registries cleared.
\<close>

definition after_invalidation :: "engine \<Rightarrow> system \<Rightarrow> system" where
  "after_invalidation eng sys =
     (fold (stmt_Invalidate eng) (openStatements sys)
        ((fold (rs_Invalidate eng) (openResultSets sys) sys)\<lparr>openResultSets := []\<rparr>))
     \<lparr>openStatements := []\<rparr>"

text \<open>
  Calls that release a statement or cursor handle, and the order the teardown promises:
  none of them after the call that ends the session.
\<close>

fun is_stmt_release :: "call \<Rightarrow> bool" where
  "is_stmt_release (MimerEndStatement h) = True"
| "is_stmt_release (MimerCloseCursor h) = True"
| "is_stmt_release _ = False"

fun is_end_session :: "call \<Rightarrow> bool" where
  "is_end_session (MimerEndSession h) = True"
| "is_end_session _ = False"

definition released_before_session_end :: "call list \<Rightarrow> bool" where
  "released_before_session_end cs =
     (\<not> list_ex is_stmt_release (dropWhile (\<lambda>c. \<not> is_end_session c) cs))"

text \<open>
  A session with the open statement 1 (handle 7, registered) and the open result set 2
  (handle 8, registered), and an engine that refuses to end the session.
\<close>

definition busy_session :: system where
  "busy_session =
     \<lparr>trace = [], pending = None, session = 5, connected = True,
      openStatements = [1], openResultSets = [2],
      statements = [1 \<mapsto> \<lparr>s_stmt = 7, s_columnCount = 2, s_closed = False,
                            s_parentConnection = True\<rparr>],
      resultSets = [2 \<mapsto> \<lparr>r_stmt = 8, r_columnCount = 2, r_colNames = [''id'', ''name''],
                            r_colTypes = [31, - 63], r_closed = False, r_exhausted = False,
                            r_parentConnection = True\<rparr>]\<rparr>"

definition end_session_fails_engine :: engine where
  "end_session_fails_engine = failing_at (MimerEndSession 5) (- 1) sample_engine"

text \<open>What \<open>Close\<close> does after the invalidation: the end of the session.\<close>

definition close_tail :: "engine \<Rightarrow> system \<Rightarrow> system" where
  "close_tail eng sys4 =
     (if session sys4 \<noteq> MIMERNULLHANDLE then
        (let (r, sys5) = ecall eng (MimerEndSession (session sys4)) sys4;
             sys6 = sys5\<lparr>session := rhandle r\<rparr>;
             sys7 = (if rcode r < 0 then CheckError eng (rcode r) ''MimerEndSession'' sys6
                     else sys6)
         in sys7\<lparr>connected := False\<rparr>)
      else sys4)"

text \<open>
  The calls that end the life of a wrapper, in any order and number: \<open>close()\<close>, the
  invalidation by the connection, the destructor. A destructor ends the object, so in a
  sequence of calls on one object it can only be the last.
\<close>

datatype lifecycle_op = OpClose | OpInvalidate | OpDestructor

fun stmt_op :: "engine \<Rightarrow> nat \<Rightarrow> lifecycle_op \<Rightarrow> system \<Rightarrow> system" where
  "stmt_op eng this OpClose sys = snd (stmt_Close eng this sys)"
| "stmt_op eng this OpInvalidate sys = stmt_Invalidate eng this sys"
| "stmt_op eng this OpDestructor sys = stmt_destructor eng this sys"

fun rs_op :: "engine \<Rightarrow> nat \<Rightarrow> lifecycle_op \<Rightarrow> system \<Rightarrow> system" where
  "rs_op eng this OpClose sys = snd (rs_Close eng this sys)"
| "rs_op eng this OpInvalidate sys = rs_Invalidate eng this sys"
| "rs_op eng this OpDestructor sys = rs_destructor eng this sys"

definition destructor_last :: "lifecycle_op list \<Rightarrow> bool" where
  "destructor_last ops = (OpDestructor \<notin> set (butlast ops))"

fun is_end_statement :: "call \<Rightarrow> bool" where
  "is_end_statement (MimerEndStatement h) = True"
| "is_end_statement _ = False"

fun is_close_cursor :: "call \<Rightarrow> bool" where
  "is_close_cursor (MimerCloseCursor h) = True"
| "is_close_cursor _ = False"

text \<open>
  The calls JavaScript and the connection can make on a result set, and the state after
  a sequence of them (\<open>None\<close> if one of them does not return).
\<close>

datatype cursor_op = CFetchNext | CGetFields | CClose | CIsClosed | CInvalidate

fun run_cursor_op :: "mimerapi \<Rightarrow> engine \<Rightarrow> nat \<Rightarrow> cursor_op \<Rightarrow> system \<Rightarrow> system option" where
  "run_cursor_op api eng this CFetchNext sys = map_option snd (rs_FetchNext api eng this sys)"
| "run_cursor_op api eng this CGetFields sys = Some (snd (rs_GetFields api eng this sys))"
| "run_cursor_op api eng this CClose sys = Some (snd (rs_Close eng this sys))"
| "run_cursor_op api eng this CIsClosed sys = Some (snd (rs_IsClosed this sys))"
| "run_cursor_op api eng this CInvalidate sys = Some (rs_Invalidate eng this sys)"

fun run_cursor_ops :: "mimerapi \<Rightarrow> engine \<Rightarrow> nat \<Rightarrow> cursor_op list \<Rightarrow> system \<Rightarrow> system option" where
  "run_cursor_ops api eng this [] sys = Some sys"
| "run_cursor_ops api eng this (c # cs) sys =
     (case run_cursor_op api eng this c sys of
        None \<Rightarrow> None
      | Some sys' \<Rightarrow> run_cursor_ops api eng this cs sys')"

text \<open>The sample engine with an empty table: every fetch reports the end of the data.\<close>

definition no_rows_engine :: engine where
  "no_rows_engine = failing_at (MimerFetch 8) 100 sample_engine"

text \<open>
  A cursor that has nothing more to give: closed or exhausted. Between two states, the
  flags of a result set are kept when neither went back from true to false.
\<close>

definition cursor_done :: "nat \<Rightarrow> system \<Rightarrow> bool" where
  "cursor_done p sys =
     (case resultSets sys p of None \<Rightarrow> False | Some rs \<Rightarrow> r_closed rs \<or> r_exhausted rs)"

definition flags_kept :: "nat \<Rightarrow> system \<Rightarrow> system \<Rightarrow> bool" where
  "flags_kept p a b =
     (case resultSets a p of
        None \<Rightarrow> False
      | Some ra \<Rightarrow>
          (case resultSets b p of
             None \<Rightarrow> False
           | Some rb \<Rightarrow> (if r_closed ra then r_closed rb else True)
                        \<and> (if r_exhausted ra then r_exhausted rb else True)))"


section \<open>The sample session\<close>

text \<open>
  The sample states are states of the program: against the sample engine, \<open>Connect\<close> on a
  fresh connection gives the idle session, and \<open>Prepare\<close> followed by \<open>ExecuteQuery\<close> gives
  the busy one, each up to the history of calls made on the way.
\<close>

lemma sample_connect:
  "conn_Connect sample_engine [JSString ''db'', JSString ''SYSADM'', JSString ''pw'']
     (conn_constructor w0)
   = (JSBoolean True, idle_session\<lparr>trace := [MimerBeginSession8 ''db'' ''SYSADM'' ''pw'']\<rparr>)"
  by (simp add: conn_Connect_def conn_constructor_def w0_def idle_session_def ecall_def
      sample_engine_def sample_rcode_def)

lemma sample_prepare:
  "conn_Prepare sample_engine 1 [JSString ''SELECT id, name FROM t''] idle_session
   = (JSNative 1,
      idle_session\<lparr>trace := [MimerBeginStatement8 5 ''SELECT id, name FROM t'', MimerColumnCount 7],
        statements := [1 \<mapsto> \<lparr>s_stmt = 7, s_columnCount = 2, s_closed = False,
                            s_parentConnection = True\<rparr>],
        openStatements := [1]\<rparr>)"
  by (simp add: conn_Prepare_def stmt_constructor_def idle_session_def ecall_def
      sample_engine_def sample_rcode_def set_insert_def)

lemma sample_query:
  "conn_ExecuteQuery sample_api sample_engine 2 [JSString ''SELECT id, name FROM t'']
     (idle_session\<lparr>trace := [MimerBeginStatement8 5 ''SELECT id, name FROM t'', MimerColumnCount 7],
        statements := [1 \<mapsto> \<lparr>s_stmt = 7, s_columnCount = 2, s_closed = False,
                            s_parentConnection = True\<rparr>],
        openStatements := [1]\<rparr>)
   = Some (JSNative 2,
       busy_session\<lparr>trace :=
         [MimerBeginStatement8 5 ''SELECT id, name FROM t'', MimerColumnCount 7,
          MimerBeginStatement8 5 ''SELECT id, name FROM t'', MimerColumnCount 8,
          MimerOpenCursor 8, MimerColumnName8 8 1, MimerColumnType 8 1,
          MimerColumnName8 8 2, MimerColumnType 8 2]\<rparr>)"
  by (simp add: conn_ExecuteQuery_def rs_constructor_def idle_session_def busy_session_def
      ecall_def sample_engine_def sample_rcode_def sample_rstr_def set_insert_def
      sample_api_def sample_const_def CacheColumnMetadata_def CacheColumnMetadata_loop.simps
      cast_int16_def Let_def)

text \<open>The sample header is a possible one: the labels of the \<open>switch\<close> are distinct.\<close>

lemma sample_header_distinct: "distinct (map (\<lambda>(macro, name). sample_const macro) type_name_cases)"
  by code_simp

lemma sample_type_names:
  "MimerTypeName sample_api 31 = ''INTEGER''"
  "MimerTypeName sample_api 32 = ''INTEGER''"
  "MimerTypeName sample_api 63 = ''NVARCHAR''"
  by code_simp+

lemma sample_nullable_codes: "native_nullable_codes sample_api = {30, 32, 34, 36, 38}"
  by (simp add: native_nullable_codes_def sample_api_def sample_const_def)
section \<open>Field metadata: the nullable flag\<close>

lemma field_nullable_iff:
  "field_nullable api rawType \<longleftrightarrow> rawType < 0 \<or> rawType \<in> native_nullable_codes api"
  by (auto simp: field_nullable_def native_nullable_codes_def Let_def)

lemma build_field_eq: "build_field api nameBuf rawType = field_of api nameBuf rawType"
  by (simp add: build_field_def field_of_def field_nullable_iff Let_def abs_if)

lemma metadata_calls_empty [simp]: "metadata_calls stmt col col = []"
  by (simp add: metadata_calls_def)

lemma metadata_calls_snoc:
  "col \<le> c \<Longrightarrow>
   metadata_calls stmt col (c + 1) =
     metadata_calls stmt col c
       @ [MimerColumnName8 stmt (cast_int16 c), MimerColumnType stmt (cast_int16 c)]"
  by (simp add: metadata_calls_def upto_rec2)

lemma BuildFieldsArray_loop_exact:
  "trace w = tr @ metadata_calls stmt 1 col \<Longrightarrow> 1 \<le> col \<Longrightarrow>
   BuildFieldsArray_loop api eng stmt n col flds w =
     (flds @ map (\<lambda>c. field_of api (reported_name eng tr stmt c) (reported_type eng tr stmt c))
               [col..n],
      w\<lparr>trace := tr @ metadata_calls stmt 1 (max col (n + 1))\<rparr>)"
proof (induction api eng stmt n col flds w rule: BuildFieldsArray_loop.induct)
  case (1 api eng stmt columnCount col flds w)
  show ?case
  proof (cases "col \<le> columnCount")
    case False
    then have "[col..columnCount] = []" "max col (columnCount + 1) = col" by simp_all
    with False "1.prems" show ?thesis
      by (subst BuildFieldsArray_loop.simps) simp
  next
    case True
    define rn where "rn = eng (trace w) (MimerColumnName8 stmt (cast_int16 col))"
    define w1 where "w1 = w\<lparr>trace := trace w @ [MimerColumnName8 stmt (cast_int16 col)]\<rparr>"
    define rt where "rt = eng (trace w1) (MimerColumnType stmt (cast_int16 col))"
    define w2 where "w2 = w1\<lparr>trace := trace w1 @ [MimerColumnType stmt (cast_int16 col)]\<rparr>"
    have c1: "ecall eng (MimerColumnName8 stmt (cast_int16 col)) w = (rn, w1)"
      by (simp add: ecall_def rn_def w1_def)
    have c2: "ecall eng (MimerColumnType stmt (cast_int16 col)) w1 = (rt, w2)"
      by (simp add: ecall_def rt_def w2_def)
    have t2: "trace w2 = tr @ metadata_calls stmt 1 (col + 1)"
      using "1.prems" by (simp add: w2_def w1_def metadata_calls_snoc)
    have le: "1 \<le> col + 1" using "1.prems"(2) by simp
    note ih = "1.IH"[OF True c1[symmetric] refl c2[symmetric] refl t2 le]
    have nm: "rstr rn = reported_name eng tr stmt col"
      using "1.prems"(1) by (simp add: rn_def reported_name_def)
    have ty: "rcode rt = reported_type eng tr stmt col"
      using "1.prems"(1) by (simp add: rt_def w1_def reported_type_def)
    have up: "[col..columnCount] = col # [col + 1..columnCount]"
      using True by (simp add: upto_rec1)
    have mx: "max (col + 1) (columnCount + 1) = max col (columnCount + 1)"
      using True by simp
    have w2w: "w2\<lparr>trace := cs\<rparr> = w\<lparr>trace := cs\<rparr>" for cs
      by (simp add: w2_def w1_def)
    show ?thesis
      using True c1 c2 ih
      by (subst BuildFieldsArray_loop.simps)
         (simp add: build_field_eq nm ty up mx w2w)
  qed
qed

text \<open>
  C6. The array that \<open>BuildFieldsArray\<close> returns has one field descriptor for every column
  \<open>1, ..., columnCount\<close>, in order, built from the name and the raw type code that the
  engine reports for that column: its \<open>dataTypeCode\<close> is the raw code, and its \<open>nullable\<close>
  flag is true exactly when the raw code is negative or is one of the native \<open>NULLABLE\<close>
  codes, and false for every other code. The engine is asked for the name and the type of
  each column in turn and for nothing else.
\<close>

theorem BuildFieldsArray_nullable:
  "BuildFieldsArray api eng stmt columnCount w =
     (JSArray (map (\<lambda>c. field_of api (reported_name eng (trace w) stmt c)
                                    (reported_type eng (trace w) stmt c))
                 [1..columnCount]),
      w\<lparr>trace := trace w @ metadata_calls stmt 1 (max 1 (columnCount + 1))\<rparr>)"
  using BuildFieldsArray_loop_exact[of w "trace w" stmt 1 api eng columnCount "[]"]
  by (simp add: BuildFieldsArray_def)

theorem BuildFieldsArray_nullable_witness:
  "BuildFieldsArray sample_api sample_engine 7 2 w0 =
     (JSArray
        [JSObject [(''name'', JSString ''id''), (''dataTypeCode'', JSNumber (Finite 31)),
                   (''dataTypeName'', JSString ''INTEGER''), (''nullable'', JSBoolean False)],
         JSObject [(''name'', JSString ''name''), (''dataTypeCode'', JSNumber (Finite (- 63))),
                   (''dataTypeName'', JSString ''NVARCHAR''), (''nullable'', JSBoolean True)]],
      \<lparr>trace = [MimerColumnName8 7 1, MimerColumnType 7 1,
                MimerColumnName8 7 2, MimerColumnType 7 2],
       pending = None\<rparr>)
   \<and> field_of sample_api ''qty'' 32 =
       JSObject [(''name'', JSString ''qty''), (''dataTypeCode'', JSNumber (Finite 32)),
                 (''dataTypeName'', JSString ''INTEGER''), (''nullable'', JSBoolean True)]"
proof -
  have up: "[1..2::int] = [1, 2]" by (simp add: upto_rec1)
  have calls: "metadata_calls 7 1 1 = []"
    "metadata_calls 7 1 2 = [MimerColumnName8 7 1, MimerColumnType 7 1]"
    "metadata_calls 7 1 3 = [MimerColumnName8 7 1, MimerColumnType 7 1,
                             MimerColumnName8 7 2, MimerColumnType 7 2]"
    by (simp_all add: metadata_calls_def cast_int16_def up)
  have rep: "reported_name sample_engine [] 7 1 = ''id''"
    "reported_type sample_engine [] 7 1 = 31"
    "reported_name sample_engine [] 7 2 = ''name''"
    "reported_type sample_engine [] 7 2 = - 63"
    by (simp_all add: reported_name_def reported_type_def calls cast_int16_def
          sample_engine_def sample_rcode_def sample_rstr_def)
  have f1: "field_of sample_api ''id'' 31 =
       JSObject [(''name'', JSString ''id''), (''dataTypeCode'', JSNumber (Finite 31)),
                 (''dataTypeName'', JSString ''INTEGER''), (''nullable'', JSBoolean False)]"
    by (simp add: field_of_def sample_nullable_codes sample_type_names)
  have f2: "field_of sample_api ''name'' (- 63) =
       JSObject [(''name'', JSString ''name''), (''dataTypeCode'', JSNumber (Finite (- 63))),
                 (''dataTypeName'', JSString ''NVARCHAR''), (''nullable'', JSBoolean True)]"
    by (simp add: field_of_def sample_nullable_codes sample_type_names)
  have f3: "field_of sample_api ''qty'' 32 =
       JSObject [(''name'', JSString ''qty''), (''dataTypeCode'', JSNumber (Finite 32)),
                 (''dataTypeName'', JSString ''INTEGER''), (''nullable'', JSBoolean True)]"
    by (simp add: field_of_def sample_nullable_codes sample_type_names)
  have run: "BuildFieldsArray sample_api sample_engine 7 2 w0 =
     (JSArray
        [JSObject [(''name'', JSString ''id''), (''dataTypeCode'', JSNumber (Finite 31)),
                   (''dataTypeName'', JSString ''INTEGER''), (''nullable'', JSBoolean False)],
         JSObject [(''name'', JSString ''name''), (''dataTypeCode'', JSNumber (Finite (- 63))),
                   (''dataTypeName'', JSString ''NVARCHAR''), (''nullable'', JSBoolean True)]],
      \<lparr>trace = [MimerColumnName8 7 1, MimerColumnType 7 1,
                MimerColumnName8 7 2, MimerColumnType 7 2],
       pending = None\<rparr>)"
    using BuildFieldsArray_nullable[of sample_api sample_engine 7 2 w0]
    by (simp add: w0_def up rep calls f1 f2)
  from run f3 show ?thesis by (intro conjI)
qed
section \<open>Binding numbers\<close>





section \<open>Writing a character large object\<close>

lemma seq_len_bounds: "1 \<le> seq_len c" "seq_len c \<le> 4"
  by (simp_all add: seq_len_def)

lemma utf8_wf_split:
  "utf8_wf xs \<Longrightarrow> p \<le> length xs \<Longrightarrow> p = length xs \<or> \<not> is_cont (xs ! p) \<Longrightarrow>
   utf8_wf (take p xs) \<and> utf8_wf (drop p xs)"
proof (induction xs arbitrary: p rule: utf8_wf.induct)
  case 1
  then show ?case by simp
next
  case (2 c cs)
  define n where "n = seq_len c - 1"
  from "2.prems"(1) have nc: "\<not> is_cont c" and nl: "n \<le> length cs"
    and conts: "list_all is_cont (take n cs)" and wfr: "utf8_wf (drop n cs)"
    by (simp_all add: n_def)
  show ?case
  proof (cases "p = 0")
    case True
    with "2.prems"(1) show ?thesis by simp
  next
    case False
    then obtain q where p: "p = Suc q" by (cases p) auto
    show ?thesis
    proof (cases "q < n")
      case True
      with nl have "q < length cs" by simp
      with p "2.prems"(3) have "\<not> is_cont (cs ! q)" by auto
      moreover from True nl conts have "is_cont (cs ! q)"
        by (simp add: list_all_length)
      ultimately show ?thesis by simp
    next
      case False
      define p' where "p' = q - n"
      have q: "q = n + p'" using False by (simp add: p'_def)
      have le: "p' \<le> length (drop n cs)" using "2.prems"(2) p q by simp
      have bd: "p' = length (drop n cs) \<or> \<not> is_cont (drop n cs ! p')"
      proof (cases "p = length (c # cs)")
        case True
        then show ?thesis using p q nl by auto
      next
        case False
        with "2.prems"(3) have "\<not> is_cont ((c # cs) ! p)" by simp
        moreover have "(c # cs) ! p = drop n cs ! p'"
          using p q nl "2.prems"(2) False by (simp add: add.commute)
        ultimately show ?thesis by simp
      qed
      from "2.IH"[OF wfr[unfolded n_def] le[unfolded n_def] bd[unfolded n_def]]
      have ih: "utf8_wf (take p' (drop n cs))" "utf8_wf (drop p' (drop n cs))"
        by (simp_all add: n_def)
      define ys where "ys = take n cs @ take p' (drop n cs)"
      have t: "take p (c # cs) = c # ys"
        using p q by (simp add: take_add ys_def)
      have d: "drop p (c # cs) = drop p' (drop n cs)"
        using p q by (simp add: add.commute)
      have ly: "n \<le> length ys" using nl by (simp add: ys_def)
      have ty: "take n ys = take n cs" using nl by (simp add: ys_def)
      have dy: "drop n ys = take p' (drop n cs)" using nl by (simp add: ys_def)
      have "utf8_wf (c # ys)"
        unfolding utf8_wf.simps n_def[symmetric] using nc ly ty dy conts ih(1) by simp
      with t d ih(2) show ?thesis by simp
    qed
  qed
qed

lemma utf8_wf_head: "utf8_wf xs \<Longrightarrow> xs \<noteq> [] \<Longrightarrow> \<not> is_cont (xs ! 0)"
  by (cases xs) auto

lemma utf8_wf_progress:
  assumes "utf8_wf xs" "4 < length xs"
  shows "\<exists>k. 1 \<le> k \<and> k \<le> 4 \<and> \<not> is_cont (xs ! k)"
proof -
  from assms obtain c cs where xs: "xs = c # cs" by (cases xs) auto
  define n where "n = seq_len c - 1"
  have n3: "n \<le> 3" using seq_len_bounds[of c] by (simp add: n_def)
  from assms(1) have wfr: "utf8_wf (drop n cs)" by (simp add: xs n_def)
  have ne: "drop n cs \<noteq> []" using assms(2) n3 by (simp add: xs)
  from utf8_wf_head[OF wfr ne] have "\<not> is_cont (cs ! n)"
    using ne by (simp add: hd_drop_conv_nth)
  then have "\<not> is_cont (xs ! Suc n)" by (simp add: xs)
  with n3 show ?thesis by (intro exI[of _ "Suc n"]) simp
qed

lemma shrink_chunk_le: "shrink_chunk data offset remaining chunk \<le> chunk"
  by (induction data offset remaining chunk rule: shrink_chunk.induct)
     (subst shrink_chunk.simps, auto simp: le_diff_conv)

lemma shrink_chunk_stop:
  "shrink_chunk data offset remaining chunk = c' \<Longrightarrow>
   c' = 0 \<or> \<not> c' < remaining \<or> \<not> is_cont (data ! (offset + c'))"
  by (induction data offset remaining chunk rule: shrink_chunk.induct)
     (subst (asm) (2) shrink_chunk.simps, auto simp: is_cont_def split: if_splits)

lemma shrink_chunk_skipped:
  "shrink_chunk data offset remaining chunk < k \<Longrightarrow> k \<le> chunk \<Longrightarrow>
   k < remaining \<and> is_cont (data ! (offset + k))"
proof (induction data offset remaining chunk rule: shrink_chunk.induct)
  case (1 data offset remaining chunk)
  show ?case
  proof (cases "chunk > 0 \<and> chunk < remaining \<and> uchar (data ! (offset + chunk)) AND 0xC0 = 0x80")
    case True
    then have eq: "shrink_chunk data offset remaining chunk = shrink_chunk data offset remaining (chunk - 1)"
      by (subst shrink_chunk.simps) simp
    show ?thesis
    proof (cases "k = chunk")
      case True
      with \<open>chunk > 0 \<and> chunk < remaining \<and> uchar (data ! (offset + chunk)) AND 0xC0 = 0x80\<close>
      show ?thesis by (simp add: is_cont_def)
    next
      case False
      with "1.prems" have "k \<le> chunk - 1" by simp
      with "1.IH"[OF True] "1.prems"(1) eq show ?thesis by simp
    qed
  next
    case False
    then have "shrink_chunk data offset remaining chunk = chunk"
      by (subst shrink_chunk.simps) auto
    with "1.prems" show ?thesis by simp
  qed
qed


lemma utf8_wf_cont_head: "xs \<noteq> [] \<Longrightarrow> is_cont (xs ! 0) \<Longrightarrow> \<not> utf8_wf xs"
  using utf8_wf_head by blast

lemma next_chunk_props:
  assumes wf: "utf8_wf (drop offset data)"
    and len: "offset + remaining = length data"
    and pos: "remaining > 0"
  defines "c' \<equiv> shrink_chunk data offset remaining
                   (if remaining < LOB_WRITE_CHUNK then remaining else LOB_WRITE_CHUNK)"
  shows "0 < c'" and "c' \<le> remaining" and "c' \<le> LOB_WRITE_CHUNK"
    and "utf8_wf (take c' (drop offset data))" and "utf8_wf (drop (offset + c') data)"
    and "\<And>k. c' < k \<Longrightarrow> k \<le> LOB_WRITE_CHUNK \<Longrightarrow> k \<le> remaining
            \<Longrightarrow> \<not> utf8_wf (drop (offset + k) data)"
proof -
  define rest where "rest = drop offset data"
  have lrest: "length rest = remaining" using len by (simp add: rest_def)
  define chunk0 where "chunk0 = (if remaining < LOB_WRITE_CHUNK then remaining else LOB_WRITE_CHUNK)"
  have c'le: "c' \<le> chunk0" unfolding c'_def chunk0_def by (rule shrink_chunk_le)
  have c0le: "chunk0 \<le> remaining" by (simp add: chunk0_def)
  have c0le': "chunk0 \<le> LOB_WRITE_CHUNK" by (simp add: chunk0_def)
  have nth: "\<And>i. i < remaining \<Longrightarrow> rest ! i = data ! (offset + i)"
    using len by (simp add: rest_def)
  have all: "0 < c' \<and> utf8_wf (take c' rest) \<and> utf8_wf (drop c' rest)"
  proof (cases "chunk0 < remaining")
    case False
    then have "c' = chunk0" unfolding c'_def chunk0_def
      by (subst shrink_chunk.simps) simp
    with False c0le have "c' = remaining" by simp
    with wf pos lrest show ?thesis by (simp add: rest_def)
  next
    case True
    then have ch: "chunk0 = LOB_WRITE_CHUNK" by (simp add: chunk0_def split: if_splits)
    then have big: "4 < length rest" using True lrest by (simp add: LOB_WRITE_CHUNK_def)
    from utf8_wf_progress[OF wf[folded rest_def] big]
    obtain k where k: "1 \<le> k" "k \<le> 4" "\<not> is_cont (rest ! k)" by blast
    have kc: "k \<le> c'"
    proof (rule ccontr)
      assume "\<not> k \<le> c'"
      then have "shrink_chunk data offset remaining chunk0 < k"
        by (simp add: c'_def chunk0_def)
      moreover have "k \<le> chunk0" using k(2) ch by (simp add: LOB_WRITE_CHUNK_def)
      ultimately have "k < remaining \<and> is_cont (data ! (offset + k))"
        by (rule shrink_chunk_skipped)
      with k(3) nth show False by simp
    qed
    have lt: "c' < remaining" using c'le True by simp
    have "c' = 0 \<or> \<not> c' < remaining \<or> \<not> is_cont (data ! (offset + c'))"
      by (rule shrink_chunk_stop) (simp add: c'_def)
    with kc k(1) lt have "\<not> is_cont (rest ! c')" by (simp add: nth)
    with utf8_wf_split[OF wf[folded rest_def], of c'] lt lrest kc k(1)
    show ?thesis by simp
  qed
  from all show "0 < c'" by simp
  from c'le c0le show "c' \<le> remaining" by simp
  from c'le c0le' show "c' \<le> LOB_WRITE_CHUNK" by simp
  from all show "utf8_wf (take c' (drop offset data))" by (simp add: rest_def)
  from all show "utf8_wf (drop (offset + c') data)" by (simp add: rest_def add.commute)
  show "\<not> utf8_wf (drop (offset + k) data)"
    if "c' < k" "k \<le> LOB_WRITE_CHUNK" "k \<le> remaining" for k
  proof -
    have "k \<le> chunk0" using that by (simp add: chunk0_def)
    moreover have "shrink_chunk data offset remaining chunk0 < k"
      using that(1) by (simp add: c'_def chunk0_def)
    ultimately have sk: "k < remaining \<and> is_cont (data ! (offset + k))"
      by (intro shrink_chunk_skipped)
    then have ne: "drop (offset + k) data \<noteq> []" using len by simp
    have "drop (offset + k) data ! 0 = data ! (offset + k)"
      using sk len by simp
    with sk have "is_cont (drop (offset + k) data ! 0)" by simp
    with ne show ?thesis by (rule utf8_wf_cont_head)
  qed
qed

lemma nclob_write_loop_chunks:
  "offset + remaining = length data \<Longrightarrow> utf8_wf (drop offset data) \<Longrightarrow>
   \<exists>rc' w' chunks rest.
      nclob_write_loop eng lobHandle data offset remaining rc w = Some (rc', w')
      \<and> trace w' = trace w @ map (MimerSetNclobData8 lobHandle) chunks
      \<and> pending w' = pending w
      \<and> boundary_chunks chunks rest
      \<and> drop offset data = concat chunks @ rest
      \<and> utf8_wf rest
      \<and> chunk_statuses eng lobHandle (trace w) rc chunks rc'
      \<and> (rest \<noteq> [] \<longrightarrow> rc' < 0)"
proof (induction remaining arbitrary: offset rc w rule: less_induct)
  case (less remaining)
  show ?case
  proof (cases "remaining > 0 \<and> rc \<ge> 0")
    case False
    then have "nclob_write_loop eng lobHandle data offset remaining rc w = Some (rc, w)"
      by (subst nclob_write_loop.simps) auto
    moreover have "drop offset data \<noteq> [] \<Longrightarrow> rc < 0"
      using False less.prems(1) by auto
    ultimately show ?thesis using less.prems(2)
      by (intro exI[of _ rc] exI[of _ w] exI[of _ "[]"] exI[of _ "drop offset data"]) auto
  next
    case True
    define c' where "c' = shrink_chunk data offset remaining
                   (if remaining < LOB_WRITE_CHUNK then remaining else LOB_WRITE_CHUNK)"
    define ch where "ch = take c' (drop offset data)"
    define rw where "rw = ecall eng (MimerSetNclobData8 lobHandle ch) w"
    from True have pos: "remaining > 0" by simp
    note props = next_chunk_props[OF less.prems(2) less.prems(1) pos, folded c'_def]
    have unf: "nclob_write_loop eng lobHandle data offset remaining rc w =
               nclob_write_loop eng lobHandle data (offset + c') (remaining - c') (rcode (fst rw)) (snd rw)"
      using True by (subst nclob_write_loop.simps) (simp add: Let_def c'_def ch_def rw_def)
    have lt: "remaining - c' < remaining" using props(1) pos by simp
    have len': "offset + c' + (remaining - c') = length data"
      using less.prems(1) props(2) by simp
    from less.IH[OF lt len' props(5), of "rcode (fst rw)" "snd rw"]
    obtain rc' w' chunks rest where ih:
      "nclob_write_loop eng lobHandle data (offset + c') (remaining - c') (rcode (fst rw)) (snd rw) = Some (rc', w')"
      "trace w' = trace (snd rw) @ map (MimerSetNclobData8 lobHandle) chunks"
      "pending w' = pending (snd rw)"
      "boundary_chunks chunks rest"
      "drop (offset + c') data = concat chunks @ rest"
      "utf8_wf rest"
      "chunk_statuses eng lobHandle (trace (snd rw)) (rcode (fst rw)) chunks rc'"
      "rest \<noteq> [] \<longrightarrow> rc' < 0"
      by blast
    have tr: "trace (snd rw) = trace w @ [MimerSetNclobData8 lobHandle ch]"
      and pd: "pending (snd rw) = pending w"
      and rp: "fst rw = eng (trace w) (MimerSetNclobData8 lobHandle ch)"
      by (simp_all add: rw_def ecall_def)
    have lch: "length ch = c'" using props(2) less.prems(1) by (simp add: ch_def)
    have chne: "ch \<noteq> []" using props(1) lch by auto
    have split: "drop offset data = ch @ drop (offset + c') data"
      by (simp add: ch_def add.commute flip: drop_drop)
    have near: "nearest_boundary ch (concat chunks @ rest)"
      unfolding nearest_boundary_def list_all_iff
    proof
      fix k
      assume kin: "k \<in> set [Suc (length ch) ..< Suc (min LOB_WRITE_CHUNK (length (ch @ concat chunks @ rest)))]"
      have Lr: "length (ch @ concat chunks @ rest) = remaining"
        using split ih(5) less.prems(1)
        by (metis add_diff_cancel_left' length_drop)
      from kin[unfolded Lr]
      have "Suc (length ch) \<le> k \<and> k < Suc (min LOB_WRITE_CHUNK remaining)"
        by (simp only: set_upt atLeastLessThan_iff)
      with lch have k: "c' < k" "k \<le> LOB_WRITE_CHUNK" "k \<le> remaining"
        by auto
      have "drop k (ch @ concat chunks @ rest) = drop (offset + k) data"
        using split ih(5) by (metis add.commute drop_drop)
      with props(6)[OF k] show "\<not> utf8_wf (drop k (ch @ concat chunks @ rest))" by simp
    qed
    have r1: "nclob_write_loop eng lobHandle data offset remaining rc w = Some (rc', w')"
      using unf ih(1) by simp
    have r2: "trace w' = trace w @ map (MimerSetNclobData8 lobHandle) (ch # chunks)"
      using ih(2) tr by simp
    have r3: "pending w' = pending w" using ih(3) pd by simp
    have r4: "boundary_chunks (ch # chunks) rest"
      using ih(4) chne props(3) props(4) near lch by (simp add: ch_def)
    have r5: "drop offset data = concat (ch # chunks) @ rest"
      using split ih(5) by simp
    have r7: "chunk_statuses eng lobHandle (trace w) rc (ch # chunks) rc'"
      using ih(7) True by (simp add: tr rp)
    from r1 r2 r3 r4 r5 ih(6) r7 ih(8) show ?thesis by blast
  qed
qed

lemma chunk_statuses_accepted:
  "chunk_statuses eng lob tr rc chunks rc' \<Longrightarrow> 0 \<le> rc
   \<Longrightarrow> (\<And>tr c. 0 \<le> rcode (eng tr (MimerSetNclobData8 lob c))) \<Longrightarrow> 0 \<le> rc'"
  by (induction chunks arbitrary: tr rc) auto

lemma Utf8CharCount_ascii_run:
  "Utf8CharCount (replicate n (CHR ''a'') @ ys) = n + Utf8CharCount ys"
proof (induction n)
  case 0
  show ?case by simp
next
  case (Suc n)
  have "Utf8CharCount (CHR ''a'' # (replicate n (CHR ''a'') @ ys))
          = Suc (Utf8CharCount (replicate n (CHR ''a'') @ ys))"
    by (subst Utf8CharCount.simps) (simp add: uchar_def)
  with Suc show ?case by simp
qed

lemma straddling_text_count: "Utf8CharCount straddling_text = 2097152"
proof -
  have "Utf8CharCount [CHR 0xC3, CHR 0xA9] = 1"
    by (simp add: Utf8CharCount.simps uchar_def)
  then show ?thesis
    by (simp add: straddling_text_def Utf8CharCount_ascii_run)
qed

lemmas straddling_text_count' = straddling_text_count[unfolded straddling_text_def]

lemma utf8_wf_ascii_run: "utf8_wf (replicate n (CHR ''a'') @ ys) = utf8_wf ys"
  by (induction n) (simp_all add: is_cont_def seq_len_def uchar_def)

lemma straddling_text_wf: "utf8_wf straddling_text"
  by (simp add: straddling_text_def utf8_wf_ascii_run is_cont_def seq_len_def uchar_def)

lemma straddling_text_bound:
  "bind_value sample_api nclob_engine 7 1 (JSString straddling_text) w0 =
   Some (0, \<lparr>trace = [MimerParameterType 7 1, MimerSetLob 7 1 2097152,
                      MimerSetNclobData8 9 (replicate 2097151 (CHR ''a'')),
                      MimerSetNclobData8 9 [CHR 0xC3, CHR 0xA9]],
            pending = None\<rparr>)"
  by (simp add: bind_string_def straddling_text_count)
     (simp add: straddling_text_def straddling_text_count' nclob_write_loop.simps shrink_chunk.simps
        LOB_WRITE_CHUNK_def ecall_def w0_def nclob_engine_def failing_at_def sample_engine_def
        sample_rcode_def sample_api_def uchar_def nth_append Let_def)

lemma straddling_text_refused:
  "bind_value sample_api nclob_refusing_engine 7 1 (JSString straddling_text) w0 =
   Some (- 1, \<lparr>trace = [MimerParameterType 7 1, MimerSetLob 7 1 2097152,
                        MimerSetNclobData8 9 (replicate 2097151 (CHR ''a''))],
              pending = None\<rparr>)"
  by (simp add: bind_string_def straddling_text_count)
     (simp add: straddling_text_def straddling_text_count' nclob_write_loop.simps shrink_chunk.simps
        LOB_WRITE_CHUNK_def ecall_def w0_def nclob_refusing_engine_def nclob_engine_def
        failing_at_def sample_engine_def sample_rcode_def sample_api_def uchar_def nth_append
        Let_def)

lemma nclob_engine_opens:
  "MimerIsNclob sample_api (rcode (nclob_engine (trace w0) (MimerParameterType 7 1)))"
  "rcode (nclob_engine (trace w0 @ [MimerParameterType 7 1])
            (MimerSetLob 7 1 (Utf8CharCount straddling_text))) = 0"
  "rhandle (nclob_engine (trace w0 @ [MimerParameterType 7 1])
            (MimerSetLob 7 1 (Utf8CharCount straddling_text))) = 9"
  "0 \<le> rcode (nclob_engine tr (MimerSetNclobData8 lob c))"
  by (simp_all add: straddling_text_count nclob_engine_def failing_at_def sample_engine_def
        sample_rcode_def sample_api_def w0_def)

lemma nclob_refusing_engine_opens:
  "MimerIsNclob sample_api (rcode (nclob_refusing_engine (trace w0) (MimerParameterType 7 1)))"
  "rcode (nclob_refusing_engine (trace w0 @ [MimerParameterType 7 1])
            (MimerSetLob 7 1 (Utf8CharCount straddling_text))) = 0"
  "rcode (nclob_refusing_engine [MimerParameterType 7 1, MimerSetLob 7 1 2097152]
            (MimerSetNclobData8 9 (replicate 2097151 (CHR ''a'')))) = - 1"
  by (simp_all add: straddling_text_count nclob_refusing_engine_def nclob_engine_def
        failing_at_def sample_engine_def sample_rcode_def sample_api_def w0_def)

lemma straddling_text_chunks:
  "boundary_chunks [replicate 2097151 (CHR ''a''), [CHR 0xC3, CHR 0xA9]] []"
proof -
  have a: "utf8_wf (replicate 2097151 (CHR ''a''))"
    using utf8_wf_ascii_run[of 2097151 "[]"] by simp
  have b: "utf8_wf [CHR 0xC3, CHR 0xA9]" "\<not> utf8_wf [CHR 0xA9]"
    by (simp_all add: is_cont_def seq_len_def uchar_def)
  have c: "drop 2097152 (replicate 2097151 (CHR ''a'') @ [CHR 0xC3, CHR 0xA9]) = [CHR 0xA9]"
    by simp
  have d: "[Suc (length (replicate 2097151 (CHR ''a''))) ..<
             Suc (min LOB_WRITE_CHUNK
                    (length (replicate 2097151 (CHR ''a'') @ concat [[CHR 0xC3, CHR 0xA9]] @ [])))]
           = [2097152]"
    by (simp add: LOB_WRITE_CHUNK_def upt_rec)
  have e: "nearest_boundary (replicate 2097151 (CHR ''a'')) (concat [[CHR 0xC3, CHR 0xA9]] @ [])"
    unfolding nearest_boundary_def d using b(2) c by simp
  have f: "nearest_boundary [CHR 0xC3, CHR 0xA9] (concat [] @ [])"
    by (simp add: nearest_boundary_def)
  from a b(1) e f show ?thesis by (simp add: LOB_WRITE_CHUNK_def)
qed

text \<open>
  C8, as the code has it. Binding a text made of whole UTF-8 code points to a character
  large-object parameter returns. When the engine does not open the large object with
  status 0, nothing is written and that status is the result. Otherwise what is passed
  to the engine is a sequence of chunks each of which ends on a code-point boundary,
  namely the nearest one at or before the write-chunk size, the bytes cut off going to
  the next chunk; a chunk is written only while no earlier chunk was refused, the result
  being the engine's reply to the last chunk written; the chunks written are, in order, a
  prefix of the text; when the result is not negative their concatenation is the text;
  and when the engine refuses no chunk the result is not negative and the concatenation
  of the chunks written is the text.
\<close>

theorem bind_string_nclob_chunks:
  "utf8_wf str \<Longrightarrow>
   MimerIsNclob api (rcode (eng (trace w) (MimerParameterType stmt i))) \<Longrightarrow>
   rl = eng (trace w @ [MimerParameterType stmt i]) (MimerSetLob stmt i (Utf8CharCount str)) \<Longrightarrow>
   \<exists>rc' w' chunks rest.
      bind_value api eng stmt i (JSString str) w = Some (rc', w')
      \<and> trace w' = trace w @ [MimerParameterType stmt i, MimerSetLob stmt i (Utf8CharCount str)]
                       @ map (MimerSetNclobData8 (rhandle rl)) chunks
      \<and> pending w' = pending w
      \<and> boundary_chunks chunks rest
      \<and> str = concat chunks @ rest
      \<and> (if rcode rl = 0
         then chunk_statuses eng (rhandle rl)
                (trace w @ [MimerParameterType stmt i, MimerSetLob stmt i (Utf8CharCount str)])
                0 chunks rc'
         else chunks = [] \<and> rc' = rcode rl)
      \<and> (rcode rl = 0 \<and> 0 \<le> rc' \<longrightarrow> concat chunks = str)
      \<and> (rcode rl = 0 \<and> (\<forall>tr c. 0 \<le> rcode (eng tr (MimerSetNclobData8 (rhandle rl) c)))
           \<longrightarrow> 0 \<le> rc' \<and> concat chunks = str)"
proof -
  assume wf: "utf8_wf str"
    and ty: "MimerIsNclob api (rcode (eng (trace w) (MimerParameterType stmt i)))"
    and rl: "rl = eng (trace w @ [MimerParameterType stmt i])
                    (MimerSetLob stmt i (Utf8CharCount str))"
  define w2 where "w2 = w\<lparr>trace := trace w @ [MimerParameterType stmt i,
                                              MimerSetLob stmt i (Utf8CharCount str)]\<rparr>"
  show ?thesis
  proof (cases "rcode rl = 0")
    case False
    have "bind_value api eng stmt i (JSString str) w = Some (rcode rl, w2)"
      using ty False rl by (simp add: bind_string_def ecall_def w2_def)
    with False show ?thesis
      by (intro exI[of _ "rcode rl"] exI[of _ w2] exI[of _ "[]"] exI[of _ str])
         (simp add: w2_def)
  next
    case True
    have b: "bind_value api eng stmt i (JSString str) w =
               nclob_write_loop eng (rhandle rl) str 0 (length str) 0 w2"
      using ty True rl by (simp add: bind_string_def ecall_def w2_def)
    have "\<exists>rc' w' chunks rest.
      nclob_write_loop eng (rhandle rl) str 0 (length str) 0 w2 = Some (rc', w')
      \<and> trace w' = trace w2 @ map (MimerSetNclobData8 (rhandle rl)) chunks
      \<and> pending w' = pending w2
      \<and> boundary_chunks chunks rest \<and> str = concat chunks @ rest
      \<and> chunk_statuses eng (rhandle rl) (trace w2) 0 chunks rc'
      \<and> (rest \<noteq> [] \<longrightarrow> rc' < 0)"
      using nclob_write_loop_chunks[of 0 "length str" str eng "rhandle rl" 0 w2] wf
      by simp blast
    then obtain rc' w' chunks rest where r:
      "nclob_write_loop eng (rhandle rl) str 0 (length str) 0 w2 = Some (rc', w')"
      "trace w' = trace w2 @ map (MimerSetNclobData8 (rhandle rl)) chunks"
      "pending w' = pending w2"
      "boundary_chunks chunks rest" "str = concat chunks @ rest"
      "chunk_statuses eng (rhandle rl) (trace w2) 0 chunks rc'"
      "rest \<noteq> [] \<longrightarrow> rc' < 0"
      by blast
    have acc: "0 \<le> rc'" if "\<forall>tr c. 0 \<le> rcode (eng tr (MimerSetNclobData8 (rhandle rl) c))"
      using chunk_statuses_accepted[OF r(6)] that by simp
    have cc: "concat chunks = str" if "0 \<le> rc'"
      using r(5) r(7) that by auto
    from r acc cc True show ?thesis
      unfolding b
      by (intro exI[of _ rc'] exI[of _ w'] exI[of _ chunks] exI[of _ rest])
         (simp add: w2_def)
  qed
qed

text \<open>
  Against the concatenation of the written chunks being the text in every write: the loop
  is guarded by the status of the last write, so with an engine that refuses the first
  chunk of the straddling text that one chunk is all that is written, and it is not the
  text.
\<close>

theorem nclob_refused_chunk_counterexample:
  "utf8_wf straddling_text
   \<and> MimerIsNclob sample_api (rcode (nclob_refusing_engine (trace w0) (MimerParameterType 7 1)))
   \<and> rcode (nclob_refusing_engine (trace w0 @ [MimerParameterType 7 1])
              (MimerSetLob 7 1 (Utf8CharCount straddling_text))) = 0
   \<and> rcode (nclob_refusing_engine [MimerParameterType 7 1, MimerSetLob 7 1 2097152]
              (MimerSetNclobData8 9 (replicate 2097151 (CHR ''a'')))) = - 1
   \<and> bind_value sample_api nclob_refusing_engine 7 1 (JSString straddling_text) w0 =
       Some (- 1, \<lparr>trace = [MimerParameterType 7 1, MimerSetLob 7 1 2097152]
                            @ map (MimerSetNclobData8 9) [replicate 2097151 (CHR ''a'')],
                  pending = None\<rparr>)
   \<and> concat [replicate 2097151 (CHR ''a'')] \<noteq> straddling_text"
proof -
  have "concat [replicate 2097151 (CHR ''a'')] \<noteq> straddling_text"
    by (simp add: straddling_text_def)
  with straddling_text_wf nclob_refusing_engine_opens straddling_text_refused
  show ?thesis by simp
qed

theorem bind_string_nclob_chunks_witness:
  "utf8_wf straddling_text
   \<and> length straddling_text = LOB_WRITE_CHUNK + 1
   \<and> MimerIsNclob sample_api (rcode (nclob_engine (trace w0) (MimerParameterType 7 1)))
   \<and> rcode (nclob_engine (trace w0 @ [MimerParameterType 7 1])
              (MimerSetLob 7 1 (Utf8CharCount straddling_text))) = 0
   \<and> bind_value sample_api nclob_engine 7 1 (JSString straddling_text) w0 =
       Some (0, \<lparr>trace = [MimerParameterType 7 1, MimerSetLob 7 1 2097152,
                          MimerSetNclobData8 9 (replicate 2097151 (CHR ''a'')),
                          MimerSetNclobData8 9 [CHR 0xC3, CHR 0xA9]],
                pending = None\<rparr>)
   \<and> boundary_chunks [replicate 2097151 (CHR ''a''), [CHR 0xC3, CHR 0xA9]] []
   \<and> chunk_statuses nclob_engine 9 [MimerParameterType 7 1, MimerSetLob 7 1 2097152] 0
       [replicate 2097151 (CHR ''a''), [CHR 0xC3, CHR 0xA9]] 0
   \<and> concat [replicate 2097151 (CHR ''a''), [CHR 0xC3, CHR 0xA9]] = straddling_text"
proof -
  from bind_string_nclob_chunks[where api = sample_api and eng = nclob_engine and w = w0
         and stmt = 7 and i = 1 and str = straddling_text,
         OF straddling_text_wf nclob_engine_opens(1) refl]
  obtain chunks rest where r:
    "trace \<lparr>trace = [MimerParameterType 7 1, MimerSetLob 7 1 2097152,
                     MimerSetNclobData8 9 (replicate 2097151 (CHR ''a'')),
                     MimerSetNclobData8 9 [CHR 0xC3, CHR 0xA9]],
            pending = None\<rparr>
       = trace w0 @ [MimerParameterType 7 1, MimerSetLob 7 1 (Utf8CharCount straddling_text)]
           @ map (MimerSetNclobData8 9) chunks"
    "boundary_chunks chunks rest"
    "chunk_statuses nclob_engine 9
       (trace w0 @ [MimerParameterType 7 1, MimerSetLob 7 1 (Utf8CharCount straddling_text)])
       0 chunks 0"
    "concat chunks = straddling_text"
    unfolding straddling_text_bound nclob_engine_opens by auto
  from r(1) have ch: "chunks = [replicate 2097151 (CHR ''a''), [CHR 0xC3, CHR 0xA9]]"
    by (auto simp: w0_def straddling_text_count map_eq_Cons_conv)
  have l: "length straddling_text = LOB_WRITE_CHUNK + 1"
    by (simp add: straddling_text_def LOB_WRITE_CHUNK_def)
  from r(3) have st: "chunk_statuses nclob_engine 9 [MimerParameterType 7 1, MimerSetLob 7 1 2097152] 0
       [replicate 2097151 (CHR ''a''), [CHR 0xC3, CHR 0xA9]] 0"
    unfolding ch by (simp only: w0_def straddling_text_count world.simps append_Nil)
  from r(4) have cc: "concat [replicate 2097151 (CHR ''a''), [CHR 0xC3, CHR 0xA9]] = straddling_text"
    unfolding ch .
  from straddling_text_wf l nclob_engine_opens(1,2) straddling_text_bound straddling_text_chunks
    st cc
  show ?thesis by (intro conjI)
qed

section \<open>Row marshalling and engine statuses\<close>

lemma ecall_pending [simp]: "pending (snd (ecall eng c w)) = pending w"
  by (simp add: ecall_def)

lemma ecall_trace [simp]: "trace (snd (ecall eng c w)) = trace w @ [c]"
  by (simp add: ecall_def)

lemma ecall_eq: "ecall eng c w = (r, w') \<Longrightarrow> pending w' = pending w \<and> trace w' = trace w @ [c]"
  by (auto simp: ecall_def)

lemma blob_read_loop_pending:
  "blob_read_loop eng lobHandle offset remaining buf rc w = (res, w') \<Longrightarrow> pending w' = pending w"
proof (induction eng lobHandle offset remaining buf rc w rule: blob_read_loop.induct)
  case (1 eng lobHandle offset remaining buf rc w)
  show ?case
  proof (cases "remaining > 0")
    case False
    with "1.prems" show ?thesis by (subst (asm) blob_read_loop.simps) simp
  next
    case True
    define chunk where "chunk = (if remaining < LOB_READ_CHUNK then remaining else LOB_READ_CHUNK)"
    define rw where "rw = ecall eng (MimerGetBlobData lobHandle chunk) w"
    show ?thesis
    proof (cases "rcode (fst rw) < 0")
      case neg: True
      with "1.prems" True have "w' = snd rw"
        by (subst (asm) blob_read_loop.simps) (simp add: Let_def chunk_def rw_def)
      then show ?thesis by (simp add: rw_def)
    next
      case nonneg: False
      with "1.prems" True
      have "blob_read_loop eng lobHandle (offset + chunk) (remaining - chunk)
              (buf @ take chunk (rstr (fst rw))) (rcode (fst rw)) (snd rw) = (res, w')"
        by (subst (asm) blob_read_loop.simps) (simp add: Let_def chunk_def rw_def)
      from "1.IH"[OF True chunk_def rw_def nonneg this] show ?thesis
        by (simp add: rw_def)
    qed
  qed
qed

lemma nclob_read_loop_pending_snd:
  assumes "nclob_read_loop eng lobHandle result w = Some y"
  shows "pending (snd y) = pending w"
  using assms
proof (induction rule: nclob_read_loop.raw_induct[rotated 1, consumes 1])
  case (1 f eng lobHandle result w y)
  then show ?case by (auto simp: Let_def split: if_splits)
qed

lemma nclob_read_loop_pending:
  "nclob_read_loop eng lobHandle result w = Some (res, w') \<Longrightarrow> pending w' = pending w"
  using nclob_read_loop_pending_snd by fastforce

lemma fetch_blob_pending:
  "fetch_blob eng stmt col colName row w = (row', w') \<Longrightarrow> pending w' = pending w"
  by (auto simp: fetch_blob_def Let_def split: prod.splits if_splits
           dest!: blob_read_loop_pending ecall_eq)

lemma fetch_nclob_pending:
  "fetch_nclob eng stmt col colName row w = Some (row', w') \<Longrightarrow> pending w' = pending w"
  by (auto simp: fetch_nclob_def Let_def split: prod.splits if_splits option.splits
           dest!: nclob_read_loop_pending ecall_eq)

lemma fetch_binary_pending:
  "fetch_binary eng stmt col colName row w = (row', w') \<Longrightarrow> pending w' = pending w"
  by (auto simp: fetch_binary_def Let_def split: prod.splits if_splits dest!: ecall_eq)

lemma fetch_string_pending:
  "fetch_string eng stmt col colName row w = (row', w') \<Longrightarrow> pending w' = pending w"
  by (auto simp: fetch_string_def Let_def split: prod.splits if_splits dest!: ecall_eq)

lemma fetch_column_pending:
  "fetch_column api eng stmt col colName colType row w = Some (row', w') \<Longrightarrow>
   pending w' = pending w"
  unfolding fetch_column_def
  by (auto simp: Let_def split: prod.splits if_splits
           dest!: ecall_eq fetch_blob_pending fetch_nclob_pending fetch_binary_pending
                  fetch_string_pending)

lemma FetchSingleRow_loop_pending:
  "FetchSingleRow_loop api eng stmt columnCount colNames colTypes col row w = Some (row', w') \<Longrightarrow>
   pending w' = pending w"
proof (induction api eng stmt columnCount colNames colTypes col row w
       rule: FetchSingleRow_loop.induct)
  case (1 api eng stmt columnCount colNames colTypes col row w)
  show ?case
  proof (cases "col \<le> columnCount")
    case False
    with "1.prems" show ?thesis by (subst (asm) FetchSingleRow_loop.simps) simp
  next
    case True
    with "1.prems" obtain row1 w1 where
      fc: "fetch_column api eng stmt (cast_int16 col) (colNames ! nat (col - 1))
             (colTypes ! nat (col - 1)) row w = Some (row1, w1)"
      and rest: "FetchSingleRow_loop api eng stmt columnCount colNames colTypes (col + 1) row1 w1
             = Some (row', w')"
      by (subst (asm) FetchSingleRow_loop.simps) (auto split: option.splits)
    from "1.IH"[OF True fc refl rest] fetch_column_pending[OF fc] show ?thesis by simp
  qed
qed

lemma FetchSingleRow_never_throws:
  "FetchSingleRow api eng stmt columnCount colNames colTypes w = Some (v, w') \<Longrightarrow>
   pending w' = pending w \<and> (\<exists>row. v = JSObject row)"
  by (auto simp: FetchSingleRow_def split: option.splits dest: FetchSingleRow_loop_pending)

lemma fetch_column_typed_getter_fails:
  assumes nn: "rcode (eng (trace w) (MimerIsNull stmt col)) \<le> 0"
    and tg: "typed_getter api colType stmt col = Some g"
    and st: "rcode (eng (trace w @ [MimerIsNull stmt col]) g) \<noteq> 0"
  shows "fetch_column api eng stmt col colName colType row w =
           Some (row, w\<lparr>trace := trace w @ [MimerIsNull stmt col, g]\<rparr>)"
proof -
  have n: "\<not> 0 < rcode (eng (trace w) (MimerIsNull stmt col))" using nn by simp
  consider (i32) "MimerIsInt32 api colType" "g = MimerGetInt32 stmt col"
    | (i64) "\<not> MimerIsInt32 api colType" "MimerIsInt64 api colType" "g = MimerGetInt64 stmt col"
    | (dbl) "\<not> MimerIsInt32 api colType" "\<not> MimerIsInt64 api colType"
            "MimerIsDouble api colType" "g = MimerGetDouble stmt col"
    | (flt) "\<not> MimerIsInt32 api colType" "\<not> MimerIsInt64 api colType"
            "\<not> MimerIsDouble api colType" "MimerIsFloat api colType"
            "g = MimerGetFloat stmt col"
    using tg unfolding typed_getter_def by (metis option.distinct(1) option.inject)
  then show ?thesis
  proof cases
    case i32
    with n st show ?thesis unfolding fetch_column_def by (simp add: ecall_def)
  next
    case i64
    with n st show ?thesis unfolding fetch_column_def by (simp add: ecall_def)
  next
    case dbl
    with n st show ?thesis unfolding fetch_column_def by (simp add: ecall_def)
  next
    case flt
    with n st show ?thesis unfolding fetch_column_def by (simp add: ecall_def)
  qed
qed

lemma column_getter_cases:
  "column_getter api t = GBinary \<longleftrightarrow>
     \<not> MimerIsInt32 api t \<and> \<not> MimerIsInt64 api t \<and> \<not> MimerIsDouble api t
     \<and> \<not> MimerIsFloat api t \<and> \<not> MimerIsBoolean api t \<and> \<not> MimerIsBlob api t
     \<and> \<not> MimerIsNclob api t \<and> MimerIsBinary api t"
  "column_getter api t = GString \<longleftrightarrow>
     \<not> MimerIsInt32 api t \<and> \<not> MimerIsInt64 api t \<and> \<not> MimerIsDouble api t
     \<and> \<not> MimerIsFloat api t \<and> \<not> MimerIsBoolean api t \<and> \<not> MimerIsBlob api t
     \<and> \<not> MimerIsNclob api t \<and> \<not> MimerIsBinary api t"
  "column_getter api t \<noteq> GNclob \<longleftrightarrow>
     MimerIsInt32 api t \<or> MimerIsInt64 api t \<or> MimerIsDouble api t
     \<or> MimerIsFloat api t \<or> MimerIsBoolean api t \<or> MimerIsBlob api t
     \<or> \<not> MimerIsNclob api t"
  by (simp_all add: column_getter_def)

lemma fetch_column_binary_size_fails:
  assumes nn: "rcode (eng (trace w) (MimerIsNull stmt col)) \<le> 0"
    and cg: "column_getter api colType = GBinary"
    and st: "rcode (eng (trace w @ [MimerIsNull stmt col]) (MimerGetBinary stmt col 0)) \<le> 0"
  shows "fetch_column api eng stmt col colName colType row w =
           Some (obj_set colName (JSBuffer []) row,
                 w\<lparr>trace := trace w @ [MimerIsNull stmt col, MimerGetBinary stmt col 0]\<rparr>)"
proof -
  have n: "\<not> 0 < rcode (eng (trace w) (MimerIsNull stmt col))" using nn by simp
  have s: "\<not> 0 < rcode (eng (trace w @ [MimerIsNull stmt col]) (MimerGetBinary stmt col 0))"
    using st by simp
  from cg[unfolded column_getter_cases] n s show ?thesis
    unfolding fetch_column_def by (simp add: ecall_def fetch_binary_def)
qed

lemma fetch_column_binary_read_fails:
  assumes nn: "rcode (eng (trace w) (MimerIsNull stmt col)) \<le> 0"
    and cg: "column_getter api colType = GBinary"
    and sz: "sz = rcode (eng (trace w @ [MimerIsNull stmt col]) (MimerGetBinary stmt col 0))"
      "0 < sz"
    and st: "rcode (eng (trace w @ [MimerIsNull stmt col, MimerGetBinary stmt col 0])
                     (MimerGetBinary stmt col (nat sz))) < 0"
  shows "fetch_column api eng stmt col colName colType row w =
           Some (row, w\<lparr>trace := trace w @ [MimerIsNull stmt col, MimerGetBinary stmt col 0,
                                           MimerGetBinary stmt col (nat sz)]\<rparr>)"
proof -
  have n: "\<not> 0 < rcode (eng (trace w) (MimerIsNull stmt col))" using nn by simp
  have s: "\<not> 0 \<le> rcode (eng (trace w @ [MimerIsNull stmt col, MimerGetBinary stmt col 0])
                     (MimerGetBinary stmt col (nat sz)))"
    using st by simp
  from cg[unfolded column_getter_cases] n s sz show ?thesis
    unfolding fetch_column_def by (simp add: ecall_def fetch_binary_def Let_def)
qed

lemma fetch_column_string_size_fails:
  assumes nn: "rcode (eng (trace w) (MimerIsNull stmt col)) \<le> 0"
    and cg: "column_getter api colType = GString"
    and st: "rcode (eng (trace w @ [MimerIsNull stmt col]) (MimerGetString8 stmt col 256)) \<le> 0"
  shows "fetch_column api eng stmt col colName colType row w =
           Some (obj_set colName (JSString []) row,
                 w\<lparr>trace := trace w @ [MimerIsNull stmt col, MimerGetString8 stmt col 256]\<rparr>)"
proof -
  have n: "\<not> 0 < rcode (eng (trace w) (MimerIsNull stmt col))" using nn by simp
  have s: "\<not> 0 < rcode (eng (trace w @ [MimerIsNull stmt col]) (MimerGetString8 stmt col 256))"
    "\<not> 256 \<le> rcode (eng (trace w @ [MimerIsNull stmt col]) (MimerGetString8 stmt col 256))"
    using st by simp_all
  from cg[unfolded column_getter_cases] n s show ?thesis
    unfolding fetch_column_def by (simp add: ecall_def fetch_string_def)
qed

lemma fetch_column_string_read_fails:
  assumes nn: "rcode (eng (trace w) (MimerIsNull stmt col)) \<le> 0"
    and cg: "column_getter api colType = GString"
    and sz: "sz = rcode (eng (trace w @ [MimerIsNull stmt col]) (MimerGetString8 stmt col 256))"
      "256 \<le> sz"
    and st: "rcode (eng (trace w @ [MimerIsNull stmt col, MimerGetString8 stmt col 256])
                     (MimerGetString8 stmt col (nat (sz + 1)))) < 0"
  shows "fetch_column api eng stmt col colName colType row w =
           Some (row, w\<lparr>trace := trace w @ [MimerIsNull stmt col, MimerGetString8 stmt col 256,
                                           MimerGetString8 stmt col (nat (sz + 1))]\<rparr>)"
proof -
  have n: "\<not> 0 < rcode (eng (trace w) (MimerIsNull stmt col))" using nn by simp
  have s: "\<not> 0 \<le> rcode (eng (trace w @ [MimerIsNull stmt col, MimerGetString8 stmt col 256])
                     (MimerGetString8 stmt col (nat (sz + 1))))"
    using st by simp
  have z: "\<not> sz < 256" using sz by simp
  from cg[unfolded column_getter_cases] n s sz z show ?thesis
    unfolding fetch_column_def by (simp add: ecall_def fetch_string_def Let_def)
qed

lemma fetch_column_returns:
  "column_getter api colType \<noteq> GNclob \<Longrightarrow>
   \<exists>r. fetch_column api eng stmt col colName colType row w = Some r"
  unfolding column_getter_cases fetch_column_def
  by (auto simp: Let_def split: prod.splits)

lemma FetchSingleRow_loop_returns:
  "columnCount \<le> int (length colTypes) \<Longrightarrow> 1 \<le> col \<Longrightarrow>
   \<forall>t\<in>set colTypes. column_getter api t \<noteq> GNclob \<Longrightarrow>
   \<exists>r. FetchSingleRow_loop api eng stmt columnCount colNames colTypes col row w = Some r"
proof (induction api eng stmt columnCount colNames colTypes col row w
       rule: FetchSingleRow_loop.induct)
  case (1 api eng stmt columnCount colNames colTypes col row w)
  show ?case
  proof (cases "col \<le> columnCount")
    case False
    then show ?thesis by (subst FetchSingleRow_loop.simps) simp
  next
    case True
    with "1.prems" have "nat (col - 1) < length colTypes" by linarith
    then have "colTypes ! nat (col - 1) \<in> set colTypes" by (rule nth_mem)
    with "1.prems"(3) have "column_getter api (colTypes ! nat (col - 1)) \<noteq> GNclob" by blast
    from fetch_column_returns[OF this] obtain row1 w1 where
      fc: "fetch_column api eng stmt (cast_int16 col) (colNames ! nat (col - 1))
             (colTypes ! nat (col - 1)) row w = Some (row1, w1)"
      by (metis surj_pair)
    from "1.prems" have "1 \<le> col + 1" by simp
    from "1.IH"[OF True fc refl "1.prems"(1) this "1.prems"(3)]
    obtain r where "FetchSingleRow_loop api eng stmt columnCount colNames colTypes (col + 1) row1 w1
             = Some r" by blast
    with True fc show ?thesis by (subst FetchSingleRow_loop.simps) simp
  qed
qed

lemma FetchSingleRow_returns:
  "columnCount \<le> int (length colTypes) \<Longrightarrow>
   \<forall>t\<in>set colTypes. column_getter api t \<noteq> GNclob \<Longrightarrow>
   \<exists>v w'. FetchSingleRow api eng stmt columnCount colNames colTypes w = Some (v, w')"
  using FetchSingleRow_loop_returns[of columnCount colTypes 1 api eng stmt colNames "[]" w]
  by (auto simp: FetchSingleRow_def)

text \<open>
  C4, as the code has it. A row fetch never raises: whatever statuses the engine reports,
  \<open>FetchSingleRow\<close> leaves the pending exception as it was and what it returns is a row
  object; it does return when no column is read as a character large object (that read
  loop ends only when the engine says so). For a column that is not null: a status other
  than 0 (so every negative one) from the 32-bit, 64-bit, double or float getter leaves
  the column out of the row, after the null test and the getter call and nothing else; a
  status that is not positive from the size query of the binary or the string getter
  gives the column an empty buffer or an empty string; a negative status from their
  second call, the read itself, leaves the column out.
\<close>

theorem FetchSingleRow_status_not_raised:
  "(columnCount \<le> int (length colTypes) \<and> (\<forall>t\<in>set colTypes. column_getter api t \<noteq> GNclob) \<longrightarrow>
      (\<exists>v w'. FetchSingleRow api eng stmt columnCount colNames colTypes w = Some (v, w')))
   \<and> (FetchSingleRow api eng stmt columnCount colNames colTypes w = Some (v, w') \<longrightarrow>
      pending w' = pending w \<and> (\<exists>row. v = JSObject row))
   \<and> (rcode (eng (trace w) (MimerIsNull stmt col)) \<le> 0
      \<and> typed_getter api colType stmt col = Some g
      \<and> rcode (eng (trace w @ [MimerIsNull stmt col]) g) \<noteq> 0 \<longrightarrow>
      fetch_column api eng stmt col colName colType row w =
        Some (row, w\<lparr>trace := trace w @ [MimerIsNull stmt col, g]\<rparr>))
   \<and> (rcode (eng (trace w) (MimerIsNull stmt col)) \<le> 0
      \<and> column_getter api colType = GBinary
      \<and> rcode (eng (trace w @ [MimerIsNull stmt col]) (MimerGetBinary stmt col 0)) \<le> 0 \<longrightarrow>
      fetch_column api eng stmt col colName colType row w =
        Some (obj_set colName (JSBuffer []) row,
              w\<lparr>trace := trace w @ [MimerIsNull stmt col, MimerGetBinary stmt col 0]\<rparr>))
   \<and> (rcode (eng (trace w) (MimerIsNull stmt col)) \<le> 0
      \<and> column_getter api colType = GBinary
      \<and> sz = rcode (eng (trace w @ [MimerIsNull stmt col]) (MimerGetBinary stmt col 0))
      \<and> 0 < sz
      \<and> rcode (eng (trace w @ [MimerIsNull stmt col, MimerGetBinary stmt col 0])
                  (MimerGetBinary stmt col (nat sz))) < 0 \<longrightarrow>
      fetch_column api eng stmt col colName colType row w =
        Some (row, w\<lparr>trace := trace w @ [MimerIsNull stmt col, MimerGetBinary stmt col 0,
                                        MimerGetBinary stmt col (nat sz)]\<rparr>))
   \<and> (rcode (eng (trace w) (MimerIsNull stmt col)) \<le> 0
      \<and> column_getter api colType = GString
      \<and> rcode (eng (trace w @ [MimerIsNull stmt col]) (MimerGetString8 stmt col 256)) \<le> 0 \<longrightarrow>
      fetch_column api eng stmt col colName colType row w =
        Some (obj_set colName (JSString []) row,
              w\<lparr>trace := trace w @ [MimerIsNull stmt col, MimerGetString8 stmt col 256]\<rparr>))
   \<and> (rcode (eng (trace w) (MimerIsNull stmt col)) \<le> 0
      \<and> column_getter api colType = GString
      \<and> sz = rcode (eng (trace w @ [MimerIsNull stmt col]) (MimerGetString8 stmt col 256))
      \<and> 256 \<le> sz
      \<and> rcode (eng (trace w @ [MimerIsNull stmt col, MimerGetString8 stmt col 256])
                  (MimerGetString8 stmt col (nat (sz + 1)))) < 0 \<longrightarrow>
      fetch_column api eng stmt col colName colType row w =
        Some (row, w\<lparr>trace := trace w @ [MimerIsNull stmt col, MimerGetString8 stmt col 256,
                                        MimerGetString8 stmt col (nat (sz + 1))]\<rparr>))"
proof (intro conjI impI)
  assume "columnCount \<le> int (length colTypes) \<and> (\<forall>t\<in>set colTypes. column_getter api t \<noteq> GNclob)"
  then show "\<exists>v w'. FetchSingleRow api eng stmt columnCount colNames colTypes w = Some (v, w')"
    using FetchSingleRow_returns by blast
next
  assume "FetchSingleRow api eng stmt columnCount colNames colTypes w = Some (v, w')"
  then show "pending w' = pending w" "\<exists>row. v = JSObject row"
    using FetchSingleRow_never_throws by blast+
next
  assume "rcode (eng (trace w) (MimerIsNull stmt col)) \<le> 0
      \<and> typed_getter api colType stmt col = Some g
      \<and> rcode (eng (trace w @ [MimerIsNull stmt col]) g) \<noteq> 0"
  then show "fetch_column api eng stmt col colName colType row w =
        Some (row, w\<lparr>trace := trace w @ [MimerIsNull stmt col, g]\<rparr>)"
    using fetch_column_typed_getter_fails by blast
next
  assume "rcode (eng (trace w) (MimerIsNull stmt col)) \<le> 0
      \<and> column_getter api colType = GBinary
      \<and> rcode (eng (trace w @ [MimerIsNull stmt col]) (MimerGetBinary stmt col 0)) \<le> 0"
  then show "fetch_column api eng stmt col colName colType row w =
        Some (obj_set colName (JSBuffer []) row,
              w\<lparr>trace := trace w @ [MimerIsNull stmt col, MimerGetBinary stmt col 0]\<rparr>)"
    using fetch_column_binary_size_fails by blast
next
  assume "rcode (eng (trace w) (MimerIsNull stmt col)) \<le> 0
      \<and> column_getter api colType = GBinary
      \<and> sz = rcode (eng (trace w @ [MimerIsNull stmt col]) (MimerGetBinary stmt col 0))
      \<and> 0 < sz
      \<and> rcode (eng (trace w @ [MimerIsNull stmt col, MimerGetBinary stmt col 0])
                  (MimerGetBinary stmt col (nat sz))) < 0"
  then show "fetch_column api eng stmt col colName colType row w =
        Some (row, w\<lparr>trace := trace w @ [MimerIsNull stmt col, MimerGetBinary stmt col 0,
                                        MimerGetBinary stmt col (nat sz)]\<rparr>)"
    using fetch_column_binary_read_fails by blast
next
  assume "rcode (eng (trace w) (MimerIsNull stmt col)) \<le> 0
      \<and> column_getter api colType = GString
      \<and> rcode (eng (trace w @ [MimerIsNull stmt col]) (MimerGetString8 stmt col 256)) \<le> 0"
  then show "fetch_column api eng stmt col colName colType row w =
        Some (obj_set colName (JSString []) row,
              w\<lparr>trace := trace w @ [MimerIsNull stmt col, MimerGetString8 stmt col 256]\<rparr>)"
    using fetch_column_string_size_fails by blast
next
  assume "rcode (eng (trace w) (MimerIsNull stmt col)) \<le> 0
      \<and> column_getter api colType = GString
      \<and> sz = rcode (eng (trace w @ [MimerIsNull stmt col]) (MimerGetString8 stmt col 256))
      \<and> 256 \<le> sz
      \<and> rcode (eng (trace w @ [MimerIsNull stmt col, MimerGetString8 stmt col 256])
                  (MimerGetString8 stmt col (nat (sz + 1)))) < 0"
  then show "fetch_column api eng stmt col colName colType row w =
        Some (row, w\<lparr>trace := trace w @ [MimerIsNull stmt col, MimerGetString8 stmt col 256,
                                        MimerGetString8 stmt col (nat (sz + 1))]\<rparr>)"
    using fetch_column_string_read_fails by blast
qed

lemma sample_row_getter_fails:
  "FetchSingleRow sample_api (failing_at (MimerGetInt32 7 1) (- 1) sample_engine) 7 2
     [''id'', ''name''] [31, - 63] w0 =
   Some (JSObject [(''name'', JSString ''Ann'')],
         \<lparr>trace = [MimerIsNull 7 1, MimerGetInt32 7 1, MimerIsNull 7 2, MimerGetString8 7 2 256],
          pending = None\<rparr>)"
  by (simp add: FetchSingleRow_def FetchSingleRow_loop.simps fetch_column_def fetch_string_def
        ecall_def w0_def failing_at_def sample_engine_def sample_rcode_def sample_rstr_def
        sample_api_def cast_int16_def Let_def)

text \<open>
  Against the rule that every negative status aborts: the 32-bit getter reports \<open>- 1\<close>
  for the column \<open>id\<close>, and the fetch returns a row without \<open>id\<close> and with no exception
  pending.
\<close>

theorem FetchSingleRow_silent_counterexample:
  "rcode (failing_at (MimerGetInt32 7 1) (- 1) sample_engine [MimerIsNull 7 1] (MimerGetInt32 7 1)) < 0
   \<and> FetchSingleRow sample_api (failing_at (MimerGetInt32 7 1) (- 1) sample_engine) 7 2
       [''id'', ''name''] [31, - 63] w0 =
     Some (JSObject [(''name'', JSString ''Ann'')],
           \<lparr>trace = [MimerIsNull 7 1, MimerGetInt32 7 1, MimerIsNull 7 2, MimerGetString8 7 2 256],
            pending = None\<rparr>)"
  by (simp add: FetchSingleRow_def FetchSingleRow_loop.simps fetch_column_def fetch_string_def
        ecall_def w0_def failing_at_def sample_engine_def sample_rcode_def sample_rstr_def
        sample_api_def cast_int16_def Let_def)

theorem FetchSingleRow_status_not_raised_witness:
  "2 \<le> int (length [31, - 63 :: int])
   \<and> column_getter sample_api 31 = GInt32
   \<and> (\<exists>v w'. FetchSingleRow sample_api (failing_at (MimerGetInt32 7 1) (- 1) sample_engine) 7 2
                [''id'', ''name''] [31, - 63] w0 = Some (v, w'))
   \<and> FetchSingleRow sample_api (failing_at (MimerGetInt32 7 1) (- 1) sample_engine) 7 2
       [''id'', ''name''] [31, - 63] w0 =
     Some (JSObject [(''name'', JSString ''Ann'')],
           \<lparr>trace = [MimerIsNull 7 1, MimerGetInt32 7 1, MimerIsNull 7 2, MimerGetString8 7 2 256],
            pending = None\<rparr>)
   \<and> pending \<lparr>trace = [MimerIsNull 7 1, MimerGetInt32 7 1, MimerIsNull 7 2,
                        MimerGetString8 7 2 256], pending = None\<rparr> = pending w0
   \<and> typed_getter sample_api 31 7 1 = Some (MimerGetInt32 7 1)
   \<and> fetch_column sample_api (failing_at (MimerGetInt32 7 1) (- 1) sample_engine) 7 1
        ''id'' 31 [] w0 =
     Some ([], w0\<lparr>trace := trace w0 @ [MimerIsNull 7 1, MimerGetInt32 7 1]\<rparr>)
   \<and> column_getter sample_api 48 = GBinary
   \<and> fetch_column sample_api (failing_at (MimerGetBinary 7 1 0) (- 1) sample_engine) 7 1
        ''key'' 48 [] w0 =
     Some (obj_set ''key'' (JSBuffer []) [],
           w0\<lparr>trace := trace w0 @ [MimerIsNull 7 1, MimerGetBinary 7 1 0]\<rparr>)
   \<and> fetch_column sample_api
        (failing_at (MimerGetBinary 7 1 4) (- 1) (failing_at (MimerGetBinary 7 1 0) 4 sample_engine))
        7 1 ''key'' 48 [] w0 =
     Some ([], w0\<lparr>trace := trace w0 @ [MimerIsNull 7 1, MimerGetBinary 7 1 0,
                                       MimerGetBinary 7 1 (nat 4)]\<rparr>)
   \<and> column_getter sample_api (- 63) = GString
   \<and> fetch_column sample_api (failing_at (MimerGetString8 7 2 256) (- 1) sample_engine) 7 2
        ''name'' (- 63) [] w0 =
     Some (obj_set ''name'' (JSString []) [],
           w0\<lparr>trace := trace w0 @ [MimerIsNull 7 2, MimerGetString8 7 2 256]\<rparr>)
   \<and> fetch_column sample_api
        (failing_at (MimerGetString8 7 2 301) (- 1)
           (failing_at (MimerGetString8 7 2 256) 300 sample_engine))
        7 2 ''name'' (- 63) [] w0 =
     Some ([], w0\<lparr>trace := trace w0 @ [MimerIsNull 7 2, MimerGetString8 7 2 256,
                                       MimerGetString8 7 2 (nat (300 + 1))]\<rparr>)"
proof -
  have len: "2 \<le> int (length [31, - 63 :: int])" by simp
  have cg: "\<forall>t\<in>set [31, - 63]. column_getter sample_api t \<noteq> GNclob"
    by (simp add: column_getter_def sample_api_def)
  have r: "\<exists>v w'. FetchSingleRow sample_api (failing_at (MimerGetInt32 7 1) (- 1) sample_engine) 7 2
                [''id'', ''name''] [31, - 63] w0 = Some (v, w')"
    by (rule FetchSingleRow_status_not_raised[THEN conjunct1, rule_format, OF conjI[OF len cg]])
  note inst = FetchSingleRow_status_not_raised[where api = sample_api
      and eng = "failing_at (MimerGetInt32 7 1) (- 1) sample_engine" and stmt = 7
      and columnCount = 2 and colNames = "[''id'', ''name'']" and colTypes = "[31, - 63]"
      and w = w0 and v = "JSObject [(''name'', JSString ''Ann'')]"
      and w' = "\<lparr>trace = [MimerIsNull 7 1, MimerGetInt32 7 1, MimerIsNull 7 2,
                          MimerGetString8 7 2 256], pending = None\<rparr>"
      and col = 1 and colType = 31 and g = "MimerGetInt32 7 1" and colName = "''id''"
      and row = "[]"]
  have a: "pending \<lparr>trace = [MimerIsNull 7 1, MimerGetInt32 7 1, MimerIsNull 7 2,
                        MimerGetString8 7 2 256], pending = None\<rparr> = pending w0"
    using inst[THEN conjunct2, THEN conjunct1] sample_row_getter_fails by simp
  have tg: "typed_getter sample_api 31 7 1 = Some (MimerGetInt32 7 1)"
    by (simp add: typed_getter_def sample_api_def)
  have b: "fetch_column sample_api (failing_at (MimerGetInt32 7 1) (- 1) sample_engine) 7 1
        ''id'' 31 [] w0 =
     Some ([], w0\<lparr>trace := trace w0 @ [MimerIsNull 7 1, MimerGetInt32 7 1]\<rparr>)"
    using inst[THEN conjunct2, THEN conjunct2, THEN conjunct1] tg
    by (simp add: w0_def failing_at_def sample_engine_def sample_rcode_def)
  have gb: "column_getter sample_api 48 = GBinary"
    by (simp add: column_getter_def sample_api_def)
  have c: "fetch_column sample_api (failing_at (MimerGetBinary 7 1 0) (- 1) sample_engine) 7 1
        ''key'' 48 [] w0 =
     Some (obj_set ''key'' (JSBuffer []) [],
           w0\<lparr>trace := trace w0 @ [MimerIsNull 7 1, MimerGetBinary 7 1 0]\<rparr>)"
    by (rule FetchSingleRow_status_not_raised[THEN conjunct2, THEN conjunct2, THEN conjunct2,
              THEN conjunct1, rule_format])
       (simp add: gb w0_def failing_at_def sample_engine_def sample_rcode_def)
  have d: "fetch_column sample_api
        (failing_at (MimerGetBinary 7 1 4) (- 1) (failing_at (MimerGetBinary 7 1 0) 4 sample_engine))
        7 1 ''key'' 48 [] w0 =
     Some ([], w0\<lparr>trace := trace w0 @ [MimerIsNull 7 1, MimerGetBinary 7 1 0,
                                       MimerGetBinary 7 1 (nat 4)]\<rparr>)"
    by (rule FetchSingleRow_status_not_raised[THEN conjunct2, THEN conjunct2, THEN conjunct2,
              THEN conjunct2, THEN conjunct1, rule_format])
       (simp add: gb w0_def failing_at_def sample_engine_def sample_rcode_def)
  have gs: "column_getter sample_api (- 63) = GString"
    by (simp add: column_getter_def sample_api_def)
  have e: "fetch_column sample_api (failing_at (MimerGetString8 7 2 256) (- 1) sample_engine) 7 2
        ''name'' (- 63) [] w0 =
     Some (obj_set ''name'' (JSString []) [],
           w0\<lparr>trace := trace w0 @ [MimerIsNull 7 2, MimerGetString8 7 2 256]\<rparr>)"
    by (rule FetchSingleRow_status_not_raised[THEN conjunct2, THEN conjunct2, THEN conjunct2,
              THEN conjunct2, THEN conjunct2, THEN conjunct1, rule_format])
       (simp add: gs w0_def failing_at_def sample_engine_def sample_rcode_def)
  have f: "fetch_column sample_api
        (failing_at (MimerGetString8 7 2 301) (- 1)
           (failing_at (MimerGetString8 7 2 256) 300 sample_engine))
        7 2 ''name'' (- 63) [] w0 =
     Some ([], w0\<lparr>trace := trace w0 @ [MimerIsNull 7 2, MimerGetString8 7 2 256,
                                       MimerGetString8 7 2 (nat (300 + 1))]\<rparr>)"
    by (rule FetchSingleRow_status_not_raised[THEN conjunct2, THEN conjunct2, THEN conjunct2,
              THEN conjunct2, THEN conjunct2, THEN conjunct2, rule_format])
       (simp add: gs w0_def failing_at_def sample_engine_def sample_rcode_def)
  have gi: "column_getter sample_api 31 = GInt32"
    by (simp add: column_getter_def sample_api_def)
  from len gi r sample_row_getter_fails a tg b gb c d gs e f show ?thesis by (intro conjI)
qed

section \<open>Calls that do not ask for the parameter count\<close>

lemma no_count_callI:
  "trace w' = trace w @ cs \<Longrightarrow> \<not> list_ex is_parameter_count cs \<Longrightarrow> no_count_call w w'"
  by (simp add: no_count_call_def new_calls_def)

lemma no_count_callD:
  "no_count_call w w' \<Longrightarrow>
   trace w' = trace w @ new_calls w w' \<and> \<not> list_ex is_parameter_count (new_calls w w')"
  unfolding no_count_call_def new_calls_def
  by (metis append_take_drop_id)

lemma no_count_call_refl [simp]: "no_count_call w w"
  by (simp add: no_count_call_def new_calls_def)

lemma no_count_call_append:
  "no_count_call u w \<Longrightarrow> trace w' = trace w @ cs \<Longrightarrow> \<not> list_ex is_parameter_count cs \<Longrightarrow>
   no_count_call u w'"
proof -
  assume a: "no_count_call u w" and b: "trace w' = trace w @ cs"
    and c: "\<not> list_ex is_parameter_count cs"
  from no_count_callD[OF a] have
    t: "trace w = trace u @ new_calls u w" and n: "\<not> list_ex is_parameter_count (new_calls u w)"
    by simp_all
  have "trace w' = trace u @ (new_calls u w @ cs)" using t b by simp
  moreover have "\<not> list_ex is_parameter_count (new_calls u w @ cs)" using n c by simp
  ultimately show ?thesis by (rule no_count_callI)
qed

lemma no_count_call_same:
  "no_count_call u w \<Longrightarrow> trace w' = trace w \<Longrightarrow> no_count_call u w'"
  using no_count_call_append[of u w w' "[]"] by simp

lemma no_count_call_ecall:
  "ecall eng c w = (r, w') \<Longrightarrow> \<not> is_parameter_count c \<Longrightarrow> no_count_call u w \<Longrightarrow>
   no_count_call u w'"
  using no_count_call_append[of u w w' "[c]"] by (auto simp: ecall_def)

lemma no_count_call_trans:
  "no_count_call u w \<Longrightarrow> no_count_call w w' \<Longrightarrow> no_count_call u w'"
  using no_count_call_append[of u w w' "new_calls w w'"] no_count_callD[of w w'] by simp

lemma BuildFieldsArray_quiet:
  "BuildFieldsArray api eng stmt n w = (r, w') \<Longrightarrow> no_count_call w w'"
proof -
  assume a: "BuildFieldsArray api eng stmt n w = (r, w')"
  have "BuildFieldsArray_loop api eng stmt n 1 [] w =
     ([] @ map (\<lambda>c. field_of api (reported_name eng (trace w) stmt c)
                        (reported_type eng (trace w) stmt c)) [1..n],
      w\<lparr>trace := trace w @ metadata_calls stmt 1 (max 1 (n + 1))\<rparr>)"
    by (rule BuildFieldsArray_loop_exact) simp_all
  with a have "trace w' = trace w @ metadata_calls stmt 1 (max 1 (n + 1))"
    by (auto simp: BuildFieldsArray_def)
  moreover have "\<not> list_ex is_parameter_count (metadata_calls stmt 1 (max 1 (n + 1)))"
    by (simp add: metadata_calls_def list_ex_iff)
  ultimately show ?thesis by (rule no_count_callI)
qed

lemma CacheColumnMetadata_loop_quiet:
  "CacheColumnMetadata_loop eng stmt n col ns ts w = (r, w') \<Longrightarrow> no_count_call w w'"
proof (induction eng stmt n col ns ts w rule: CacheColumnMetadata_loop.induct)
  case (1 eng stmt columnCount col colNames colTypes w)
  show ?case
  proof (cases "col \<le> columnCount")
    case False
    with "1.prems" show ?thesis by (subst (asm) CacheColumnMetadata_loop.simps) simp
  next
    case True
    obtain rn w1 where c1: "ecall eng (MimerColumnName8 stmt (cast_int16 col)) w = (rn, w1)"
      by (cases "ecall eng (MimerColumnName8 stmt (cast_int16 col)) w")
    obtain rt w2 where c2: "ecall eng (MimerColumnType stmt (cast_int16 col)) w1 = (rt, w2)"
      by (cases "ecall eng (MimerColumnType stmt (cast_int16 col)) w1")
    from "1.prems" True c1 c2
    have step: "CacheColumnMetadata_loop eng stmt columnCount (col + 1)
                  (colNames @ [rstr rn]) (colTypes @ [rcode rt]) w2 = (r, w')"
      by (subst (asm) CacheColumnMetadata_loop.simps) simp
    have "no_count_call w w2"
      using no_count_call_ecall[OF c2 _ no_count_call_ecall[OF c1 _ no_count_call_refl]] by simp
    from this "1.IH"[OF True c1[symmetric] refl c2[symmetric] refl step]
    show ?thesis by (rule no_count_call_trans)
  qed
qed

lemma CacheColumnMetadata_quiet:
  "CacheColumnMetadata eng stmt n w = (r, w') \<Longrightarrow> no_count_call w w'"
  by (auto simp: CacheColumnMetadata_def dest: CacheColumnMetadata_loop_quiet)

lemma blob_read_loop_quiet:
  "blob_read_loop eng lob offset remaining buf rc w = (r, w') \<Longrightarrow> no_count_call w w'"
proof (induction eng lob offset remaining buf rc w rule: blob_read_loop.induct)
  case (1 eng lobHandle offset remaining buf rc w)
  show ?case
  proof (cases "remaining > 0")
    case False
    with "1.prems" show ?thesis by (subst (asm) blob_read_loop.simps) simp
  next
    case True
    define chunk where "chunk = (if remaining < LOB_READ_CHUNK then remaining else LOB_READ_CHUNK)"
    define rw where "rw = ecall eng (MimerGetBlobData lobHandle chunk) w"
    have e: "ecall eng (MimerGetBlobData lobHandle chunk) w = (fst rw, snd rw)"
      by (simp add: rw_def)
    have q: "no_count_call w (snd rw)"
      using no_count_call_ecall[OF e _ no_count_call_refl] by simp
    show ?thesis
    proof (cases "rcode (fst rw) < 0")
      case neg: True
      with "1.prems" True have "w' = snd rw"
        by (subst (asm) blob_read_loop.simps) (simp add: Let_def chunk_def rw_def)
      with q show ?thesis by simp
    next
      case nn: False
      with "1.prems" True
      have "blob_read_loop eng lobHandle (offset + chunk) (remaining - chunk)
              (buf @ take chunk (rstr (fst rw))) (rcode (fst rw)) (snd rw) = (r, w')"
        by (subst (asm) blob_read_loop.simps) (simp add: Let_def chunk_def rw_def)
      from q "1.IH"[OF True chunk_def rw_def nn this]
      show ?thesis by (rule no_count_call_trans)
    qed
  qed
qed

lemma nclob_read_loop_quiet:
  assumes "nclob_read_loop eng lob result w = Some y"
  shows "no_count_call w (snd y)"
  using assms
proof (induction rule: nclob_read_loop.raw_induct[rotated 1, consumes 1])
  case (1 f eng lob result w y)
  note ih = 1(1) and body = 1(2)
  define r where "r = eng (trace w) (MimerGetNclobData8 lob (LOB_READ_CHUNK + 1))"
  define w1 where "w1 = w\<lparr>trace := trace w @ [MimerGetNclobData8 lob (LOB_READ_CHUNK + 1)]\<rparr>"
  have e: "ecall eng (MimerGetNclobData8 lob (LOB_READ_CHUNK + 1)) w = (r, w1)"
    by (simp add: ecall_def r_def w1_def)
  have q: "no_count_call w w1"
    using no_count_call_ecall[OF e _ no_count_call_refl] by simp
  have b: "(if rcode r < 0 then Some ((rcode r, result), w1)
            else if rcode r > 0 then f eng lob (result @ rstr r) w1
            else Some ((rcode r, result @ rstr r), w1)) = Some y"
    using body unfolding Let_def e fst_conv snd_conv by (simp split: if_splits)
  show ?case
  proof (cases "rcode r < 0")
    case True
    with b have "snd y = w1" by auto
    with q show ?thesis by simp
  next
    case nn: False
    show ?thesis
    proof (cases "rcode r > 0")
      case True
      with nn b have "f eng lob (result @ rstr r) w1 = Some y" by simp
      from q ih[OF this] show ?thesis by (rule no_count_call_trans)
    next
      case False
      with nn b have "snd y = w1" by auto
      with q show ?thesis by simp
    qed
  qed
qed

lemma fetch_column_quiet:
  "fetch_column api eng stmt col colName colType row w = Some (r, w') \<Longrightarrow> no_count_call w w'"
proof -
  assume a: "fetch_column api eng stmt col colName colType row w = Some (r, w')"
  define rn where "rn = eng (trace w) (MimerIsNull stmt col)"
  define w1 where "w1 = w\<lparr>trace := trace w @ [MimerIsNull stmt col]\<rparr>"
  have e: "ecall eng (MimerIsNull stmt col) w = (rn, w1)"
    by (simp add: ecall_def rn_def w1_def)
  have q: "no_count_call w w1"
    using no_count_call_ecall[OF e _ no_count_call_refl] by simp
  have one: "no_count_call w w2" if "ecall eng c w1 = (x, w2)" "\<not> is_parameter_count c" for c x w2
    using no_count_call_ecall[OF that q] .
  have blob: "no_count_call w w2" if "fetch_blob eng stmt col colName row w1 = (x, w2)" for x w2
  proof -
    obtain rl wl where el: "ecall eng (MimerGetLob stmt col) w1 = (rl, wl)"
      by (cases "ecall eng (MimerGetLob stmt col) w1")
    have ql: "no_count_call w wl" using one[OF el] by simp
    from that el have "w2 = wl \<or> (\<exists>y. blob_read_loop eng (rhandle rl) 0 (rsize rl) [] (rcode rl) wl = (y, w2))"
      by (auto simp: fetch_blob_def Let_def split: if_splits prod.splits)
    then show ?thesis
      using ql blob_read_loop_quiet no_count_call_trans by blast
  qed
  have nclob: "no_count_call w w2" if "fetch_nclob eng stmt col colName row w1 = Some (x, w2)" for x w2
  proof -
    obtain rl wl where el: "ecall eng (MimerGetLob stmt col) w1 = (rl, wl)"
      by (cases "ecall eng (MimerGetLob stmt col) w1")
    have ql: "no_count_call w wl" using one[OF el] by simp
    from that el have "w2 = wl \<or> (\<exists>y. nclob_read_loop eng (rhandle rl) [] wl = Some (y, w2))"
      by (auto simp: fetch_nclob_def Let_def split: if_splits prod.splits option.splits)
    then show ?thesis
      using ql nclob_read_loop_quiet no_count_call_trans by fastforce
  qed
  have binary: "no_count_call w w2" if "fetch_binary eng stmt col colName row w1 = (x, w2)" for x w2
  proof -
    obtain rs ws where es: "ecall eng (MimerGetBinary stmt col 0) w1 = (rs, ws)"
      by (cases "ecall eng (MimerGetBinary stmt col 0) w1")
    have qs: "no_count_call w ws" using one[OF es] by simp
    from that es have "w2 = ws \<or> (\<exists>y. ecall eng (MimerGetBinary stmt col (nat (rcode rs))) ws = (y, w2))"
      by (auto simp: fetch_binary_def Let_def split: if_splits prod.splits)
    then show ?thesis
      using qs no_count_call_ecall[of eng "MimerGetBinary stmt col (nat (rcode rs))" ws _ w2 w]
      by auto
  qed
  have string: "no_count_call w w2" if "fetch_string eng stmt col colName row w1 = (x, w2)" for x w2
  proof -
    obtain rs ws where es: "ecall eng (MimerGetString8 stmt col 256) w1 = (rs, ws)"
      by (cases "ecall eng (MimerGetString8 stmt col 256) w1")
    have qs: "no_count_call w ws" using one[OF es] by simp
    from that es have "w2 = ws \<or> (\<exists>y. ecall eng (MimerGetString8 stmt col (nat (rcode rs + 1))) ws = (y, w2))"
      by (auto simp: fetch_string_def Let_def split: if_splits prod.splits)
    then show ?thesis
      using qs no_count_call_ecall[of eng "MimerGetString8 stmt col (nat (rcode rs + 1))" ws _ w2 w]
      by auto
  qed
  from a have "w' = w1
      \<or> (\<exists>c x. \<not> is_parameter_count c \<and> ecall eng c w1 = (x, w'))
      \<or> (\<exists>x. fetch_blob eng stmt col colName row w1 = (x, w'))
      \<or> (\<exists>x. fetch_nclob eng stmt col colName row w1 = Some (x, w'))
      \<or> (\<exists>x. fetch_binary eng stmt col colName row w1 = (x, w'))
      \<or> (\<exists>x. fetch_string eng stmt col colName row w1 = (x, w'))"
    unfolding fetch_column_def e
    by (simp add: Let_def split: if_splits prod.splits) (metis is_parameter_count.simps prod.collapse)+
  then show ?thesis
    using q one blob nclob binary string by blast
qed

lemma FetchSingleRow_loop_quiet:
  "FetchSingleRow_loop api eng stmt n colNames colTypes col row w = Some (r, w') \<Longrightarrow>
   no_count_call w w'"
proof (induction api eng stmt n colNames colTypes col row w rule: FetchSingleRow_loop.induct)
  case (1 api eng stmt columnCount colNames colTypes col row w)
  show ?case
  proof (cases "col \<le> columnCount")
    case False
    with "1.prems" show ?thesis by (subst (asm) FetchSingleRow_loop.simps) simp
  next
    case True
    with "1.prems" obtain row1 w1 where
      fc: "fetch_column api eng stmt (cast_int16 col) (colNames ! nat (col - 1))
             (colTypes ! nat (col - 1)) row w = Some (row1, w1)"
      and rest: "FetchSingleRow_loop api eng stmt columnCount colNames colTypes (col + 1) row1 w1
             = Some (r, w')"
      by (subst (asm) FetchSingleRow_loop.simps) (auto split: option.splits)
    from fetch_column_quiet[OF fc] "1.IH"[OF True fc refl rest]
    show ?thesis by (rule no_count_call_trans)
  qed
qed

lemma FetchSingleRow_quiet:
  "FetchSingleRow api eng stmt n colNames colTypes w = Some (r, w') \<Longrightarrow> no_count_call w w'"
  by (auto simp: FetchSingleRow_def split: option.splits dest: FetchSingleRow_loop_quiet)

lemma FetchResults_loop_quiet:
  assumes "FetchResults_loop api eng stmt n colNames colTypes rows w = Some y"
  shows "no_count_call w (snd y)"
  using assms
proof (induction rule: FetchResults_loop.raw_induct[rotated 1, consumes 1])
  case (1 f api eng stmt n colNames colTypes rows w y)
  note ih = 1(1) and body = 1(2)
  define r where "r = eng (trace w) (MimerFetch stmt)"
  define w1 where "w1 = w\<lparr>trace := trace w @ [MimerFetch stmt]\<rparr>"
  have e: "ecall eng (MimerFetch stmt) w = (r, w1)"
    by (simp add: ecall_def r_def w1_def)
  have q: "no_count_call w w1"
    using no_count_call_ecall[OF e _ no_count_call_refl] by simp
  have b: "(if rcode r = const api ''MIMER_SUCCESS'' then
              (case FetchSingleRow api eng stmt n colNames colTypes w1 of
                 None \<Rightarrow> None
               | Some rw' \<Rightarrow> f api eng stmt n colNames colTypes (rows @ [fst rw']) (snd rw'))
            else Some (rows, w1)) = Some y"
    using body unfolding Let_def e fst_conv snd_conv by (simp split: if_splits)
  show ?case
  proof (cases "rcode r = const api ''MIMER_SUCCESS''")
    case False
    with b have "snd y = w1" by auto
    with q show ?thesis by simp
  next
    case True
    with b obtain v w2 where
      fr: "FetchSingleRow api eng stmt n colNames colTypes w1 = Some (v, w2)"
      and rest: "f api eng stmt n colNames colTypes (rows @ [v]) w2 = Some y"
      by (auto split: option.splits)
    from q FetchSingleRow_quiet[OF fr] have "no_count_call w w2" by (rule no_count_call_trans)
    from this ih[OF rest] show ?thesis by (rule no_count_call_trans)
  qed
qed

lemma FetchResults_quiet:
  "FetchResults api eng stmt n w = Some (rows, w') \<Longrightarrow> no_count_call w w'"
proof -
  assume a: "FetchResults api eng stmt n w = Some (rows, w')"
  obtain m w1 where c: "CacheColumnMetadata eng stmt n w = (m, w1)"
    by (cases "CacheColumnMetadata eng stmt n w")
  from a c have "FetchResults_loop api eng stmt n (fst m) (snd m) [] w1 = Some (rows, w')"
    by (simp add: FetchResults_def split: prod.splits)
  from FetchResults_loop_quiet[OF this] have "no_count_call w1 w'" by simp
  with CacheColumnMetadata_quiet[OF c] show ?thesis by (rule no_count_call_trans)
qed

lemma CheckError_quiet: "no_count_call w (CheckError eng rc operation w)"
  by (rule no_count_callI[of _ _ "if rc < 0 \<and> session w \<noteq> MIMERNULLHANDLE
                                 then [MimerGetError8 (session w)] else []"])
     (simp_all add: CheckError_def GetErrorMessage_def ThrowMimerError_def ecall_def Let_def)

lemma ThrowMimerError_trace [simp]: "trace (ThrowMimerError rc operation detail w) = trace w"
  by (simp add: ThrowMimerError_def)

lemma throw_trace [simp]: "trace (throw e w) = trace w"
  by (simp add: throw_def)

lemma no_count_call_frame [simp]:
  "no_count_call u (throw e w) = no_count_call u w"
  "no_count_call u (ThrowMimerError rc operation detail w) = no_count_call u w"
  "no_count_call u (w\<lparr>pending := pe\<rparr>) = no_count_call u w"
  by (simp_all add: no_count_call_def new_calls_def)

lemma no_count_call_system_frame [simp]:
  "no_count_call u (sys\<lparr>resultSets := rm\<rparr>) = no_count_call u sys"
  "no_count_call u (sys\<lparr>statements := sm\<rparr>) = no_count_call u sys"
  "no_count_call u (sys\<lparr>openResultSets := ors\<rparr>) = no_count_call u sys"
  "no_count_call u (sys\<lparr>openStatements := os\<rparr>) = no_count_call u sys"
  by (simp_all add: no_count_call_def new_calls_def)

lemma no_count_call_snd_ecall:
  "\<not> is_parameter_count c \<Longrightarrow> no_count_call u w \<Longrightarrow> no_count_call u (snd (ecall eng c w))"
  using no_count_call_ecall[of eng c w "fst (ecall eng c w)" "snd (ecall eng c w)" u] by simp

lemma no_count_call_CheckError:
  "no_count_call u w \<Longrightarrow> no_count_call u (CheckError eng rc operation w)"
  by (rule no_count_call_trans[OF _ CheckError_quiet])

lemma no_count_call_BuildFieldsArray:
  "BuildFieldsArray api eng stmt n w = (r, w') \<Longrightarrow> no_count_call u w \<Longrightarrow> no_count_call u w'"
  using BuildFieldsArray_quiet no_count_call_trans by blast

lemma no_count_call_FetchResults:
  "FetchResults api eng stmt n w = Some (rows, w') \<Longrightarrow> no_count_call u w \<Longrightarrow> no_count_call u w'"
  using FetchResults_quiet no_count_call_trans by blast

lemma no_count_call_rs_constructor:
  "rs_constructor eng stmt n w = (rs, w') \<Longrightarrow> no_count_call u w \<Longrightarrow> no_count_call u w'"
proof -
  assume a: "rs_constructor eng stmt n w = (rs, w')" and q: "no_count_call u w"
  obtain m w1 where c: "CacheColumnMetadata eng stmt n w = (m, w1)"
    by (cases "CacheColumnMetadata eng stmt n w")
  with a have "w' = w1" by (auto simp: rs_constructor_def split: prod.splits)
  with q CacheColumnMetadata_quiet[OF c] show ?thesis by (auto intro: no_count_call_trans)
qed

text \<open>What direct execution does once the parameters are bound, or were not given.\<close>

lemma conn_Execute_tail_quiet:
  assumes q: "no_count_call u sys2"
    and t: "(let (rc, sys3) = ecall eng (MimerColumnCount stmt) sys2;
                 columnCount = rcode rc
             in if columnCount > 0 then
                  (let (flds, sys4) = BuildFieldsArray api eng stmt columnCount sys3;
                       (ro, sys5) = ecall eng (MimerOpenCursor stmt) sys4
                   in if rcode ro < 0
                      then Some (JSUndefined,
                                 snd (ecall eng (MimerEndStatement stmt)
                                        (CheckError eng (rcode ro) ''MimerOpenCursor'' sys5)))
                      else
                        (case FetchResults api eng stmt columnCount sys5 of
                           None \<Rightarrow> None
                         | Some (rows, sys6) \<Rightarrow>
                             Some (JSObject
                                     (obj_set ''rowCount''
                                        (JSNumber (Finite (of_nat (length rows))))
                                     (obj_set ''rows'' (JSArray rows)
                                     (obj_set ''fields'' flds []))),
                                   snd (ecall eng (MimerEndStatement stmt) sys6))))
                else
                  (let (re, sys4) = ecall eng (MimerExecute stmt) sys3
                   in if rcode re < 0
                      then Some (JSUndefined,
                                 snd (ecall eng (MimerEndStatement stmt)
                                        (CheckError eng (rcode re) ''MimerExecute'' sys4)))
                      else Some (JSObject
                                   (obj_set ''rowCount''
                                      (JSNumber (Finite (of_int (rcode re)))) []),
                                 snd (ecall eng (MimerEndStatement stmt) sys4))))
            = Some (v, sys')"
  shows "no_count_call u sys'"
proof -
  obtain rc sys3 where e3: "ecall eng (MimerColumnCount stmt) sys2 = (rc, sys3)"
    by (cases "ecall eng (MimerColumnCount stmt) sys2")
  have q3: "no_count_call u sys3" using no_count_call_ecall[OF e3 _ q] by simp
  show ?thesis
  proof (cases "rcode rc > 0")
    case True
    obtain flds sys4 where b: "BuildFieldsArray api eng stmt (rcode rc) sys3 = (flds, sys4)"
      by (cases "BuildFieldsArray api eng stmt (rcode rc) sys3")
    obtain ro sys5 where e5: "ecall eng (MimerOpenCursor stmt) sys4 = (ro, sys5)"
      by (cases "ecall eng (MimerOpenCursor stmt) sys4")
    have q5: "no_count_call u sys5"
      using no_count_call_ecall[OF e5 _ no_count_call_BuildFieldsArray[OF b q3]] by simp
    show ?thesis
    proof (cases "rcode ro < 0")
      case neg: True
      with t e3 True b e5
      have "sys' = snd (ecall eng (MimerEndStatement stmt)
                          (CheckError eng (rcode ro) ''MimerOpenCursor'' sys5))"
        by (simp add: Let_def)
      then show ?thesis
        using no_count_call_snd_ecall[OF _ no_count_call_CheckError[OF q5]] by simp
    next
      case nn: False
      with t e3 True b e5 obtain rows sys6 where
        f: "FetchResults api eng stmt (rcode rc) sys5 = Some (rows, sys6)"
        and s: "sys' = snd (ecall eng (MimerEndStatement stmt) sys6)"
        by (auto simp: Let_def split: option.splits)
      show ?thesis
        unfolding s
        using no_count_call_snd_ecall[OF _ no_count_call_FetchResults[OF f q5]] by simp
    qed
  next
    case False
    obtain re sys4 where e4: "ecall eng (MimerExecute stmt) sys3 = (re, sys4)"
      by (cases "ecall eng (MimerExecute stmt) sys3")
    have q4: "no_count_call u sys4" using no_count_call_ecall[OF e4 _ q3] by simp
    from t e3 False e4
    have "sys' = snd (ecall eng (MimerEndStatement stmt)
                        (CheckError eng (rcode re) ''MimerExecute'' sys4))
          \<or> sys' = snd (ecall eng (MimerEndStatement stmt) sys4)"
      by (auto simp: Let_def split: if_splits)
    then show ?thesis
      using no_count_call_snd_ecall[OF _ no_count_call_CheckError[OF q4]]
            no_count_call_snd_ecall[OF _ q4]
      by auto
  qed
qed

lemma conn_Execute_quiet:
  assumes pa: "params_at info 1 = None" and ret: "conn_Execute api eng info sys = Some (v, sys')"
  shows "no_count_call sys sys'"
proof (cases "connected sys \<and> string_at info 0 \<noteq> None")
  case False
  with ret have "sys' = throw (PlainError ''Not connected to database'') sys
               \<or> sys' = throw (TypeError ''Expected SQL string as first argument'') sys"
    unfolding conn_Execute_def by (auto split: if_splits option.splits simp del: string_at.simps)
  then show ?thesis by auto
next
  case True
  then obtain sql where c: "connected sys" and sq: "string_at info 0 = Some sql" by auto
  obtain rb sys1 where e1: "ecall eng (MimerBeginStatement8 (session sys) sql) sys = (rb, sys1)"
    by (cases "ecall eng (MimerBeginStatement8 (session sys) sql) sys")
  have q1: "no_count_call sys sys1" using no_count_call_ecall[OF e1 _ no_count_call_refl] by simp
  show ?thesis
  proof (cases "rcode rb = const api ''MIMER_STATEMENT_CANNOT_BE_PREPARED''")
    case ddl: True
    obtain rx sys2 where e2: "ecall eng (MimerExecuteStatement8 (session sys) sql) sys1 = (rx, sys2)"
      by (cases "ecall eng (MimerExecuteStatement8 (session sys) sql) sys1")
    have q2: "no_count_call sys sys2" using no_count_call_ecall[OF e2 _ q1] by simp
    from ret c sq e1 ddl e2
    have "sys' = CheckError eng (rcode rx) ''MimerExecuteStatement8'' sys2 \<or> sys' = sys2"
      unfolding conn_Execute_def
      by (auto simp: Let_def split: if_splits simp del: string_at.simps params_at.simps)
    then show ?thesis using q2 no_count_call_CheckError[OF q2] by auto
  next
    case prep: False
    show ?thesis
    proof (cases "rcode rb < 0")
      case True
      with ret c sq e1 prep
      have "sys' = CheckError eng (rcode rb) ''MimerBeginStatement8'' sys1"
        unfolding conn_Execute_def
        by (auto simp: Let_def simp del: string_at.simps params_at.simps)
      then show ?thesis using no_count_call_CheckError[OF q1] by simp
    next
      case False
      with ret c sq e1 prep pa show ?thesis
        unfolding conn_Execute_def
        by (intro conn_Execute_tail_quiet[OF q1, where v = v])
           (simp add: Let_def del: string_at.simps params_at.simps)
    qed
  qed
qed

lemma stmt_Execute_quiet:
  assumes pa: "params_at info 0 = None" and ret: "stmt_Execute api eng p info sys = Some (v, sys')"
  shows "no_count_call sys sys'"
proof (cases "statements sys p")
  case None
  with ret show ?thesis by (simp add: stmt_Execute_def)
next
  case (Some s)
  show ?thesis
  proof (cases "s_closed s")
    case True
    with ret Some show ?thesis by (auto simp: stmt_Execute_def)
  next
    case op: False
    show ?thesis
    proof (cases "s_columnCount s > 0")
      case True
      obtain flds sys2 where b: "BuildFieldsArray api eng (s_stmt s) (s_columnCount s) sys = (flds, sys2)"
        by (cases "BuildFieldsArray api eng (s_stmt s) (s_columnCount s) sys")
      obtain ro sys3 where e3: "ecall eng (MimerOpenCursor (s_stmt s)) sys2 = (ro, sys3)"
        by (cases "ecall eng (MimerOpenCursor (s_stmt s)) sys2")
      have q3: "no_count_call sys sys3"
        using no_count_call_ecall[OF e3 _ BuildFieldsArray_quiet[OF b]] by simp
      show ?thesis
      proof (cases "rcode ro < 0")
        case neg: True
        with ret Some op pa True b e3
        have "sys' = ThrowMimerError (rcode ro) ''MimerOpenCursor'' [] sys3"
          unfolding stmt_Execute_def by (simp add: Let_def del: params_at.simps)
        with q3 show ?thesis by simp
      next
        case nn: False
        with ret Some op pa True b e3 obtain rows sys4 where
          f: "FetchResults api eng (s_stmt s) (s_columnCount s) sys3 = Some (rows, sys4)"
          and s': "sys' = snd (ecall eng (MimerCloseCursor (s_stmt s)) sys4)"
          unfolding stmt_Execute_def
          by (auto simp: Let_def split: option.splits prod.splits simp del: params_at.simps)
        show ?thesis
          unfolding s'
          using no_count_call_snd_ecall[OF _ no_count_call_FetchResults[OF f q3]] by simp
      qed
    next
      case False
      obtain re sys2 where e2: "ecall eng (MimerExecute (s_stmt s)) sys = (re, sys2)"
        by (cases "ecall eng (MimerExecute (s_stmt s)) sys")
      have q2: "no_count_call sys sys2"
        using no_count_call_ecall[OF e2 _ no_count_call_refl] by simp
      from ret Some op pa False e2
      have "sys' = ThrowMimerError (rcode re) ''MimerExecute'' [] sys2 \<or> sys' = sys2"
        unfolding stmt_Execute_def
        by (auto simp: Let_def split: if_splits simp del: params_at.simps)
      with q2 show ?thesis by auto
    qed
  qed
qed

lemma conn_ExecuteQuery_quiet:
  assumes pa: "params_at info 1 = None"
    and ret: "conn_ExecuteQuery api eng p info sys = Some (v, sys')"
  shows "no_count_call sys sys'"
proof (cases "connected sys \<and> string_at info 0 \<noteq> None")
  case False
  with ret have "sys' = throw (PlainError ''Not connected to database'') sys
               \<or> sys' = throw (TypeError ''Expected SQL string as first argument'') sys"
    unfolding conn_ExecuteQuery_def
    by (auto split: if_splits option.splits simp del: string_at.simps)
  then show ?thesis by auto
next
  case True
  then obtain sql where c: "connected sys" and sq: "string_at info 0 = Some sql" by auto
  obtain rb sys1 where e1: "ecall eng (MimerBeginStatement8 (session sys) sql) sys = (rb, sys1)"
    by (cases "ecall eng (MimerBeginStatement8 (session sys) sql) sys")
  have q1: "no_count_call sys sys1" using no_count_call_ecall[OF e1 _ no_count_call_refl] by simp
  show ?thesis
  proof (cases "rcode rb = const api ''MIMER_STATEMENT_CANNOT_BE_PREPARED'' \<or> rcode rb < 0")
    case True
    with ret c sq e1
    have "sys' = throw (PlainError
                   ''queryCursor only supports SELECT statements (DDL cannot be prepared)'') sys1
          \<or> sys' = CheckError eng (rcode rb) ''MimerBeginStatement8'' sys1"
      unfolding conn_ExecuteQuery_def
      by (auto simp: Let_def split: if_splits simp del: string_at.simps params_at.simps)
    then show ?thesis using q1 no_count_call_CheckError[OF q1] by auto
  next
    case prep: False
    obtain rc sys3 where e3: "ecall eng (MimerColumnCount (rhandle rb)) sys1 = (rc, sys3)"
      by (cases "ecall eng (MimerColumnCount (rhandle rb)) sys1")
    have q3: "no_count_call sys sys3" using no_count_call_ecall[OF e3 _ q1] by simp
    show ?thesis
    proof (cases "rcode rc \<le> 0")
      case True
      with ret c sq e1 prep pa e3
      have "sys' = throw (PlainError
                     ''queryCursor only supports SELECT statements (DML has no result columns)'')
                     (snd (ecall eng (MimerEndStatement (rhandle rb)) sys3))"
        unfolding conn_ExecuteQuery_def
        by (simp add: Let_def del: string_at.simps params_at.simps)
      then show ?thesis using no_count_call_snd_ecall[OF _ q3] by simp
    next
      case cols: False
      obtain ro sys4 where e4: "ecall eng (MimerOpenCursor (rhandle rb)) sys3 = (ro, sys4)"
        by (cases "ecall eng (MimerOpenCursor (rhandle rb)) sys3")
      have q4: "no_count_call sys sys4" using no_count_call_ecall[OF e4 _ q3] by simp
      show ?thesis
      proof (cases "rcode ro < 0")
        case True
        with ret c sq e1 prep pa e3 cols e4
        have "sys' = snd (ecall eng (MimerEndStatement (rhandle rb))
                            (CheckError eng (rcode ro) ''MimerOpenCursor'' sys4))"
          unfolding conn_ExecuteQuery_def
          by (simp add: Let_def del: string_at.simps params_at.simps)
        then show ?thesis
          using no_count_call_snd_ecall[OF _ no_count_call_CheckError[OF q4]] by simp
      next
        case opened: False
        obtain rs sys5 where k: "rs_constructor eng (rhandle rb) (rcode rc) sys4 = (rs, sys5)"
          by (cases "rs_constructor eng (rhandle rb) (rcode rc) sys4")
        have q5: "no_count_call sys sys5" using no_count_call_rs_constructor[OF k q4] .
        from ret c sq e1 prep pa e3 cols e4 opened k
        have "sys' = snd (ecall eng (MimerEndStatement (rhandle rb))
                            (snd (ecall eng (MimerCloseCursor (rhandle rb)) sys5)))
              \<or> sys' = sys5\<lparr>resultSets := (resultSets sys5)(p \<mapsto> rs\<lparr>r_parentConnection := True\<rparr>),
                             openResultSets := set_insert p (openResultSets sys5)\<rparr>"
          unfolding conn_ExecuteQuery_def
          by (auto simp: Let_def split: if_splits simp del: string_at.simps params_at.simps)
        then show ?thesis
          using no_count_call_snd_ecall[OF _ no_count_call_snd_ecall[OF _ q5]] q5
          by auto
      qed
    qed
  qed
qed
section \<open>The parameter count check\<close>

lemma cast_int_count:
  assumes "n < 2 ^ 32" and "0 \<le> K" and "cast_int n = K"
  shows "int n = K"
proof -
  define x :: "32 word" where "x = word_of_nat n"
  have "unat x = n"
    using assms(1) by (simp add: x_def unsigned_of_nat take_bit_nat_eq_self)
  then have "uint x = int n" by (simp add: uint_nat)
  moreover have "uint x = take_bit 32 (sint x)"
    by (simp add: uint_sint)
  moreover have "sint x = K" using assms(3) by (simp add: cast_int_def x_def)
  moreover have "K < 2 ^ 31" using sint_lt[of x] \<open>sint x = K\<close> by simp
  then have "take_bit 32 K = K" using assms(2) by (simp add: take_bit_int_eq_self)
  ultimately show ?thesis by simp
qed

lemma BindParameters_mismatch:
  assumes "cast_int (length params) \<noteq> rcode (eng (trace w) (MimerParameterCount stmt))"
  shows "BindParameters api eng stmt params w =
           Some ((w\<lparr>trace := trace w @ [MimerParameterCount stmt]\<rparr>)
                   \<lparr>pending := Some (count_mismatch_error
                       (rcode (eng (trace w) (MimerParameterCount stmt)))
                       (cast_int (length params)))\<rparr>)"
  using assms
  by (simp add: BindParameters_def ecall_def Let_def ThrowMimerError_def count_mismatch_error_def)

lemma blob_write_loop_pending:
  "blob_write_loop eng lobHandle data offset remaining rc w = (rc', w') \<Longrightarrow>
   pending w' = pending w"
proof (induction eng lobHandle data offset remaining rc w rule: blob_write_loop.induct)
  case (1 eng lobHandle data offset remaining rc w)
  show ?case
  proof (cases "remaining > 0 \<and> rc \<ge> 0")
    case False
    with "1.prems" show ?thesis by (subst (asm) blob_write_loop.simps) auto
  next
    case True
    define chunk where "chunk = (if remaining < LOB_WRITE_CHUNK then remaining else LOB_WRITE_CHUNK)"
    define rw where "rw = ecall eng (MimerSetBlobData lobHandle (take chunk (drop offset data))) w"
    from "1.prems" True
    have "blob_write_loop eng lobHandle data (offset + chunk) (remaining - chunk)
            (rcode (fst rw)) (snd rw) = (rc', w')"
      by (subst (asm) blob_write_loop.simps) (simp add: Let_def chunk_def rw_def)
    from "1.IH"[OF True chunk_def rw_def this] show ?thesis by (simp add: rw_def)
  qed
qed

lemma nclob_write_loop_pending_snd:
  assumes "nclob_write_loop eng lobHandle data offset remaining rc w = Some y"
  shows "pending (snd y) = pending w"
  using assms
proof (induction rule: nclob_write_loop.raw_induct[rotated 1, consumes 1])
  case (1 f eng lobHandle data offset remaining rc w y)
  then show ?case by (auto simp: Let_def split: if_splits)
qed

lemma bind_string_pending:
  "bind_string api eng stmt i str w = Some (rc, w') \<Longrightarrow> pending w' = pending w"
  by (auto simp: bind_string_def Let_def split: prod.splits if_splits
           dest!: ecall_eq nclob_write_loop_pending_snd)

lemma bind_buffer_pending:
  "bind_buffer api eng stmt i buf w = (rc, w') \<Longrightarrow> pending w' = pending w"
  by (auto simp: bind_buffer_def Let_def split: prod.splits if_splits
           dest!: ecall_eq blob_write_loop_pending)

lemma bind_number_pending:
  "bind_number eng stmt i num w = (r, w') \<Longrightarrow> pending w' = pending w"
  by (auto simp: bind_number_def split: if_splits dest!: ecall_eq)

lemma ToString_Utf8Value_pending:
  "ToString_Utf8Value api val w = (str, w') \<Longrightarrow>
   trace w' = trace w
   \<and> (pending w' = pending w
        \<or> (\<exists>e. pending w = None \<and> ToString api val = Inl e \<and> pending w' = Some e))"
  by (auto simp: ToString_Utf8Value_def split: if_splits sum.splits)

lemma bind_value_pending:
  "bind_value api eng stmt i val w = Some (rc, w') \<Longrightarrow>
   pending w' = pending w
   \<or> (\<exists>e. pending w = None \<and> ToString api val = Inl e \<and> pending w' = Some e)"
  by (cases val)
     (auto simp: Let_def split: prod.splits
           dest!: ecall_eq bind_string_pending bind_buffer_pending bind_number_pending
                  ToString_Utf8Value_pending)

lemma BindParameters_loop_result:
  "BindParameters_loop api eng stmt params providedCount i w = Some w' \<Longrightarrow> 0 \<le> i \<Longrightarrow>
   pending w' = pending w
   \<or> (\<exists>rc j. rc < 0 \<and> 1 \<le> j \<and> j \<le> providedCount
             \<and> pending w' = Some (bind_failure_error j rc))
   \<or> (\<exists>j e. 0 \<le> j \<and> j < providedCount \<and> ToString api (js_index params j) = Inl e
             \<and> pending w' = Some e)"
proof (induction api eng stmt params providedCount i w rule: BindParameters_loop.induct)
  case (1 api eng stmt params providedCount i w)
  show ?case
  proof (cases "i < providedCount")
    case False
    with "1.prems" show ?thesis by (subst (asm) BindParameters_loop.simps) simp
  next
    case True
    with "1.prems" obtain rc w1 where
      bv: "bind_value api eng stmt (cast_int16 (i + 1)) (params_get params i w) w = Some (rc, w1)"
      by (subst (asm) BindParameters_loop.simps) (auto split: option.splits)
    from bind_value_pending[OF bv]
    have p1: "pending w1 = pending w
              \<or> (\<exists>e. ToString api (js_index params i) = Inl e \<and> pending w1 = Some e)"
      by (auto simp: params_get_def)
    show ?thesis
    proof (cases "rc < 0")
      case neg: True
      with "1.prems" True bv
      have "pending w1 = None \<and> w' = ThrowMimerError rc ''BindParameters''
                   (''failed to bind parameter '' @ show_int (i + 1)) w1"
        by (subst (asm) BindParameters_loop.simps) (simp split: if_splits)
      then have "pending w' = Some (bind_failure_error (i + 1) rc)"
        by (simp add: ThrowMimerError_def bind_failure_error_def)
      with neg True "1.prems"(2) have
        "\<exists>rc j. rc < 0 \<and> 1 \<le> j \<and> j \<le> providedCount
               \<and> pending w' = Some (bind_failure_error j rc)"
        by (intro exI[of _ rc] exI[of _ "i + 1"]) simp
      then show ?thesis by blast
    next
      case nonneg: False
      with "1.prems" True bv
      have rest: "BindParameters_loop api eng stmt params providedCount (i + 1) w1 = Some w'"
        by (subst (asm) BindParameters_loop.simps) simp
      have "0 \<le> i + 1" using "1.prems"(2) by simp
      from "1.IH"[OF True bv refl nonneg rest this]
      consider (same) "pending w' = pending w1"
        | (fail) "\<exists>rc j. rc < 0 \<and> 1 \<le> j \<and> j \<le> providedCount
                   \<and> pending w' = Some (bind_failure_error j rc)"
        | (conv) "\<exists>j e. 0 \<le> j \<and> j < providedCount \<and> ToString api (js_index params j) = Inl e
                   \<and> pending w' = Some e"
        by blast
      then show ?thesis
      proof cases
        case same
        from p1 show ?thesis
        proof
          assume "pending w1 = pending w"
          with same show ?thesis by simp
        next
          assume "\<exists>e. ToString api (js_index params i) = Inl e \<and> pending w1 = Some e"
          then obtain e where "ToString api (js_index params i) = Inl e" "pending w1 = Some e"
            by blast
          with same True "1.prems"(2) have
            "\<exists>j e. 0 \<le> j \<and> j < providedCount \<and> ToString api (js_index params j) = Inl e
                   \<and> pending w' = Some e"
            by (intro exI[of _ i] exI[of _ e]) simp
          then show ?thesis by blast
        qed
      next
        case fail then show ?thesis by blast
      next
        case conv then show ?thesis by blast
      qed
    qed
  qed
qed

lemma BindParameters_match:
  assumes "cast_int (length params) = rcode (eng (trace w) (MimerParameterCount stmt))"
    and "BindParameters api eng stmt params w = Some w'"
  shows "pending w' = pending w
         \<or> (\<exists>rc j. rc < 0 \<and> 1 \<le> j \<and> j \<le> cast_int (length params)
                   \<and> pending w' = Some (bind_failure_error j rc))
         \<or> (\<exists>j e. 0 \<le> j \<and> j < cast_int (length params)
                   \<and> ToString api (js_index params j) = Inl e \<and> pending w' = Some e)"
proof -
  from assms have "BindParameters_loop api eng stmt params (cast_int (length params)) 0
                     (snd (ecall eng (MimerParameterCount stmt) w)) = Some w'"
    by (simp add: BindParameters_def ecall_def Let_def)
  from BindParameters_loop_result[OF this] show ?thesis by simp
qed

lemma conn_Execute_mismatch:
  assumes conn: "connected sys"
    and ne: "params \<noteq> []"
    and rb: "rb = eng (trace sys) (MimerBeginStatement8 (session sys) sql)"
    and ok: "0 \<le> rcode rb" "rcode rb \<noteq> const api ''MIMER_STATEMENT_CANNOT_BE_PREPARED''"
    and K: "K = rcode (eng (trace sys @ [MimerBeginStatement8 (session sys) sql])
                        (MimerParameterCount (rhandle rb)))"
    and mm: "cast_int (length params) \<noteq> K"
  shows "conn_Execute api eng [JSString sql, JSArray params] sys =
           Some (JSUndefined,
                 sys\<lparr>trace := trace sys @ [MimerBeginStatement8 (session sys) sql,
                                           MimerParameterCount (rhandle rb),
                                           MimerEndStatement (rhandle rb)],
                     pending := Some (count_mismatch_error K (cast_int (length params)))\<rparr>)"
proof -
  define sys1 where "sys1 = sys\<lparr>trace := trace sys @ [MimerBeginStatement8 (session sys) sql]\<rparr>"
  have e1: "ecall eng (MimerBeginStatement8 (session sys) sql) sys = (rb, sys1)"
    by (simp add: ecall_def rb sys1_def)
  have mm': "cast_int (length params)
               \<noteq> rcode (eng (trace sys1) (MimerParameterCount (rhandle rb)))"
    using mm K by (simp add: sys1_def)
  have pa: "params_at [JSString sql, JSArray params] (Suc 0) = Some params"
    using ne by simp
  have bp: "BindParameters api eng (rhandle rb) params sys1 =
              Some ((sys1\<lparr>trace := trace sys1 @ [MimerParameterCount (rhandle rb)]\<rparr>)
                      \<lparr>pending := Some (count_mismatch_error K (cast_int (length params)))\<rparr>)"
    using BindParameters_mismatch[where w = sys1 and eng = eng and params = params
               and stmt = "rhandle rb" and api = api, OF mm'] K
    by (simp add: sys1_def)
  have "conn_Execute api eng [JSString sql, JSArray params] sys =
          Some (JSUndefined,
                snd (ecall eng (MimerEndStatement (rhandle rb))
                  ((sys1\<lparr>trace := trace sys1 @ [MimerParameterCount (rhandle rb)]\<rparr>)
                      \<lparr>pending := Some (count_mismatch_error K (cast_int (length params)))\<rparr>)))"
    unfolding conn_Execute_def using conn ok
    by (simp add: e1 pa bp Let_def del: params_at.simps)
  then show ?thesis
    by (simp add: ecall_def sys1_def)
qed

lemma conn_ExecuteQuery_mismatch:
  assumes conn: "connected sys"
    and ne: "params \<noteq> []"
    and rb: "rb = eng (trace sys) (MimerBeginStatement8 (session sys) sql)"
    and ok: "0 \<le> rcode rb" "rcode rb \<noteq> const api ''MIMER_STATEMENT_CANNOT_BE_PREPARED''"
    and K: "K = rcode (eng (trace sys @ [MimerBeginStatement8 (session sys) sql])
                        (MimerParameterCount (rhandle rb)))"
    and mm: "cast_int (length params) \<noteq> K"
  shows "conn_ExecuteQuery api eng p [JSString sql, JSArray params] sys =
           Some (JSUndefined,
                 sys\<lparr>trace := trace sys @ [MimerBeginStatement8 (session sys) sql,
                                           MimerParameterCount (rhandle rb),
                                           MimerEndStatement (rhandle rb)],
                     pending := Some (count_mismatch_error K (cast_int (length params)))\<rparr>)"
proof -
  define sys1 where "sys1 = sys\<lparr>trace := trace sys @ [MimerBeginStatement8 (session sys) sql]\<rparr>"
  have e1: "ecall eng (MimerBeginStatement8 (session sys) sql) sys = (rb, sys1)"
    by (simp add: ecall_def rb sys1_def)
  have mm': "cast_int (length params)
               \<noteq> rcode (eng (trace sys1) (MimerParameterCount (rhandle rb)))"
    using mm K by (simp add: sys1_def)
  have pa: "params_at [JSString sql, JSArray params] (Suc 0) = Some params"
    using ne by simp
  have bp: "BindParameters api eng (rhandle rb) params sys1 =
              Some ((sys1\<lparr>trace := trace sys1 @ [MimerParameterCount (rhandle rb)]\<rparr>)
                      \<lparr>pending := Some (count_mismatch_error K (cast_int (length params)))\<rparr>)"
    using BindParameters_mismatch[where w = sys1 and eng = eng and params = params
               and stmt = "rhandle rb" and api = api, OF mm'] K
    by (simp add: sys1_def)
  have "conn_ExecuteQuery api eng p [JSString sql, JSArray params] sys =
          Some (JSUndefined,
                snd (ecall eng (MimerEndStatement (rhandle rb))
                  ((sys1\<lparr>trace := trace sys1 @ [MimerParameterCount (rhandle rb)]\<rparr>)
                      \<lparr>pending := Some (count_mismatch_error K (cast_int (length params)))\<rparr>)))"
    unfolding conn_ExecuteQuery_def using conn ok
    by (simp add: e1 pa bp Let_def del: params_at.simps)
  then show ?thesis
    by (simp add: ecall_def sys1_def)
qed

lemma stmt_Execute_mismatch:
  assumes st: "statements sys p = Some s" "\<not> s_closed s"
    and ne: "params \<noteq> []"
    and K: "K = rcode (eng (trace sys) (MimerParameterCount (s_stmt s)))"
    and mm: "cast_int (length params) \<noteq> K"
  shows "stmt_Execute api eng p [JSArray params] sys =
           Some (JSUndefined,
                 sys\<lparr>trace := trace sys @ [MimerParameterCount (s_stmt s)],
                     pending := Some (count_mismatch_error K (cast_int (length params)))\<rparr>)"
proof -
  have pa: "params_at [JSArray params] 0 = Some params" using ne by simp
  have bp: "BindParameters api eng (s_stmt s) params sys =
              Some ((sys\<lparr>trace := trace sys @ [MimerParameterCount (s_stmt s)]\<rparr>)
                      \<lparr>pending := Some (count_mismatch_error K (cast_int (length params)))\<rparr>)"
    using BindParameters_mismatch[where w = sys and eng = eng and params = params
               and stmt = "s_stmt s" and api = api] mm K
    by simp
  show ?thesis
    unfolding stmt_Execute_def using st
    by (simp add: pa bp del: params_at.simps)
qed

text \<open>
  C3, as the code has it. \<open>BindParameters\<close> fails with the count-mismatch error for
  every number \<open>L\<close> of values other than the declared count \<open>K\<close>, \<open>L = 0\<close> included, having
  asked the engine for the parameter count and nothing else. When \<open>L = K\<close> the count
  check does not fail: what is pending when it returns is what was pending before, or
  the failure of one parameter with a negative status, or the exception that the
  conversion of one value to a string raised. The three executions (\<open>Execute\<close>,
  \<open>ExecuteQuery\<close> and the \<open>execute\<close> of a statement) run it when the parameter array
  is not empty: then \<open>L \<noteq> K\<close> fails with the same error, a statement prepared by the call
  being released. With no array, or one that is empty, none of the three asks the engine
  for the parameter count.
\<close>

theorem parameter_count_check:
  "(length params < 2 ^ 32 \<and> 0 \<le> rcode (eng (trace w) (MimerParameterCount stmt))
      \<and> int (length params) \<noteq> rcode (eng (trace w) (MimerParameterCount stmt)) \<longrightarrow>
      BindParameters api eng stmt params w =
        Some ((w\<lparr>trace := trace w @ [MimerParameterCount stmt]\<rparr>)
                \<lparr>pending := Some (count_mismatch_error
                    (rcode (eng (trace w) (MimerParameterCount stmt)))
                    (cast_int (length params)))\<rparr>))
   \<and> (cast_int (length params) = rcode (eng (trace w) (MimerParameterCount stmt))
      \<and> BindParameters api eng stmt params w = Some w' \<longrightarrow>
      pending w' = pending w
      \<or> (\<exists>rc j. rc < 0 \<and> 1 \<le> j \<and> j \<le> cast_int (length params)
                \<and> pending w' = Some (bind_failure_error j rc))
      \<or> (\<exists>j e. 0 \<le> j \<and> j < cast_int (length params)
                \<and> ToString api (js_index params j) = Inl e \<and> pending w' = Some e))
   \<and> (connected sys \<and> params \<noteq> [] \<and> length params < 2 ^ 32
      \<and> rb = eng (trace sys) (MimerBeginStatement8 (session sys) sql)
      \<and> 0 \<le> rcode rb \<and> rcode rb \<noteq> const api ''MIMER_STATEMENT_CANNOT_BE_PREPARED''
      \<and> K = rcode (eng (trace sys @ [MimerBeginStatement8 (session sys) sql])
                     (MimerParameterCount (rhandle rb)))
      \<and> 0 \<le> K \<and> int (length params) \<noteq> K \<longrightarrow>
      conn_Execute api eng [JSString sql, JSArray params] sys =
        Some (JSUndefined,
              sys\<lparr>trace := trace sys @ [MimerBeginStatement8 (session sys) sql,
                                        MimerParameterCount (rhandle rb),
                                        MimerEndStatement (rhandle rb)],
                  pending := Some (count_mismatch_error K (cast_int (length params)))\<rparr>)
      \<and> conn_ExecuteQuery api eng p [JSString sql, JSArray params] sys =
        Some (JSUndefined,
              sys\<lparr>trace := trace sys @ [MimerBeginStatement8 (session sys) sql,
                                        MimerParameterCount (rhandle rb),
                                        MimerEndStatement (rhandle rb)],
                  pending := Some (count_mismatch_error K (cast_int (length params)))\<rparr>))
   \<and> (statements sys p = Some s \<and> \<not> s_closed s \<and> params \<noteq> [] \<and> length params < 2 ^ 32
      \<and> Ks = rcode (eng (trace sys) (MimerParameterCount (s_stmt s)))
      \<and> 0 \<le> Ks \<and> int (length params) \<noteq> Ks \<longrightarrow>
      stmt_Execute api eng p [JSArray params] sys =
        Some (JSUndefined,
              sys\<lparr>trace := trace sys @ [MimerParameterCount (s_stmt s)],
                  pending := Some (count_mismatch_error Ks (cast_int (length params)))\<rparr>))
   \<and> (params_at info 1 = None \<and> conn_Execute api eng info sys = Some (v, sys') \<longrightarrow>
      no_count_call sys sys')
   \<and> (params_at info 1 = None \<and> conn_ExecuteQuery api eng p info sys = Some (v, sys') \<longrightarrow>
      no_count_call sys sys')
   \<and> (params_at info 0 = None \<and> stmt_Execute api eng p info sys = Some (v, sys') \<longrightarrow>
      no_count_call sys sys')"
proof (intro conjI impI)
  assume a: "length params < 2 ^ 32 \<and> 0 \<le> rcode (eng (trace w) (MimerParameterCount stmt))
      \<and> int (length params) \<noteq> rcode (eng (trace w) (MimerParameterCount stmt))"
  then have "cast_int (length params) \<noteq> rcode (eng (trace w) (MimerParameterCount stmt))"
    using cast_int_count by blast
  then show "BindParameters api eng stmt params w =
        Some ((w\<lparr>trace := trace w @ [MimerParameterCount stmt]\<rparr>)
                \<lparr>pending := Some (count_mismatch_error
                    (rcode (eng (trace w) (MimerParameterCount stmt)))
                    (cast_int (length params)))\<rparr>)"
    by (rule BindParameters_mismatch)
next
  assume "cast_int (length params) = rcode (eng (trace w) (MimerParameterCount stmt))
      \<and> BindParameters api eng stmt params w = Some w'"
  then show "pending w' = pending w
      \<or> (\<exists>rc j. rc < 0 \<and> 1 \<le> j \<and> j \<le> cast_int (length params)
                \<and> pending w' = Some (bind_failure_error j rc))
      \<or> (\<exists>j e. 0 \<le> j \<and> j < cast_int (length params)
                \<and> ToString api (js_index params j) = Inl e \<and> pending w' = Some e)"
    using BindParameters_match by blast
next
  assume a: "connected sys \<and> params \<noteq> [] \<and> length params < 2 ^ 32
      \<and> rb = eng (trace sys) (MimerBeginStatement8 (session sys) sql)
      \<and> 0 \<le> rcode rb \<and> rcode rb \<noteq> const api ''MIMER_STATEMENT_CANNOT_BE_PREPARED''
      \<and> K = rcode (eng (trace sys @ [MimerBeginStatement8 (session sys) sql])
                     (MimerParameterCount (rhandle rb)))
      \<and> 0 \<le> K \<and> int (length params) \<noteq> K"
  then have mm: "cast_int (length params) \<noteq> K" using cast_int_count by blast
  from a have c: "connected sys" and ne: "params \<noteq> []"
    and rb: "rb = eng (trace sys) (MimerBeginStatement8 (session sys) sql)"
    and ok: "0 \<le> rcode rb" "rcode rb \<noteq> const api ''MIMER_STATEMENT_CANNOT_BE_PREPARED''"
    and K: "K = rcode (eng (trace sys @ [MimerBeginStatement8 (session sys) sql])
                     (MimerParameterCount (rhandle rb)))"
    by blast+
  show "conn_Execute api eng [JSString sql, JSArray params] sys =
        Some (JSUndefined,
              sys\<lparr>trace := trace sys @ [MimerBeginStatement8 (session sys) sql,
                                        MimerParameterCount (rhandle rb),
                                        MimerEndStatement (rhandle rb)],
                  pending := Some (count_mismatch_error K (cast_int (length params)))\<rparr>)"
    by (rule conn_Execute_mismatch[OF c ne rb ok K mm])
  show "conn_ExecuteQuery api eng p [JSString sql, JSArray params] sys =
        Some (JSUndefined,
              sys\<lparr>trace := trace sys @ [MimerBeginStatement8 (session sys) sql,
                                        MimerParameterCount (rhandle rb),
                                        MimerEndStatement (rhandle rb)],
                  pending := Some (count_mismatch_error K (cast_int (length params)))\<rparr>)"
    by (rule conn_ExecuteQuery_mismatch[OF c ne rb ok K mm])
next
  assume a: "statements sys p = Some s \<and> \<not> s_closed s \<and> params \<noteq> [] \<and> length params < 2 ^ 32
      \<and> Ks = rcode (eng (trace sys) (MimerParameterCount (s_stmt s)))
      \<and> 0 \<le> Ks \<and> int (length params) \<noteq> Ks"
  then have mm: "cast_int (length params) \<noteq> Ks" using cast_int_count by blast
  from a have st: "statements sys p = Some s" "\<not> s_closed s" and ne: "params \<noteq> []"
    and K: "Ks = rcode (eng (trace sys) (MimerParameterCount (s_stmt s)))"
    by blast+
  show "stmt_Execute api eng p [JSArray params] sys =
        Some (JSUndefined,
              sys\<lparr>trace := trace sys @ [MimerParameterCount (s_stmt s)],
                  pending := Some (count_mismatch_error Ks (cast_int (length params)))\<rparr>)"
    by (rule stmt_Execute_mismatch[where eng = eng and K = Ks, OF st ne K mm])
next
  assume "params_at info 1 = None \<and> conn_Execute api eng info sys = Some (v, sys')"
  then show "no_count_call sys sys'" using conn_Execute_quiet by blast
next
  assume "params_at info 1 = None \<and> conn_ExecuteQuery api eng p info sys = Some (v, sys')"
  then show "no_count_call sys sys'" using conn_ExecuteQuery_quiet by blast
next
  assume "params_at info 0 = None \<and> stmt_Execute api eng p info sys = Some (v, sys')"
  then show "no_count_call sys sys'" using stmt_Execute_quiet by blast
qed
lemma cast_int_small: "n < 2 ^ 31 \<Longrightarrow> cast_int n = int n"
  by (simp add: cast_int_def signed_of_nat signed_take_bit_int_eq_self)

lemma sample_execute_empty_params:
  "conn_Execute sample_api dml_engine [JSString ''UPDATE t SET x = ?'', JSArray []] idle_session =
     Some (JSObject [(''rowCount'', JSNumber (Finite 0))],
           idle_session\<lparr>trace := [MimerBeginStatement8 5 ''UPDATE t SET x = ?'', MimerColumnCount 7,
                           MimerExecute 7, MimerEndStatement 7]\<rparr>)"
  by (simp add: conn_Execute_def ecall_def idle_session_def dml_engine_def failing_at_def
        sample_engine_def sample_rcode_def sample_api_def sample_const_def Let_def)

text \<open>
  Against a count check on every execution, for \<open>L = 0\<close> and \<open>K > 0\<close>: the statement
  declares one parameter, the array of values is empty, and \<open>Execute\<close> returns a result;
  the engine is never asked for the parameter count. Should the engine refuse to execute
  the statement, the error raised is that of \<open>MimerExecute\<close>, not the count mismatch.
\<close>

theorem empty_params_unchecked_counterexample:
  "rcode (dml_engine [MimerBeginStatement8 5 ''UPDATE t SET x = ?''] (MimerParameterCount 7)) = 1
   \<and> conn_Execute sample_api dml_engine [JSString ''UPDATE t SET x = ?'', JSArray []] idle_session =
       Some (JSObject [(''rowCount'', JSNumber (Finite 0))],
             idle_session\<lparr>trace := [MimerBeginStatement8 5 ''UPDATE t SET x = ?'', MimerColumnCount 7,
                             MimerExecute 7, MimerEndStatement 7]\<rparr>)
   \<and> js_outcome
         (JSObject [(''rowCount'', JSNumber (Finite 0))],
          idle_session\<lparr>trace := [MimerBeginStatement8 5 ''UPDATE t SET x = ?'', MimerColumnCount 7,
                          MimerExecute 7, MimerEndStatement 7]\<rparr>)
       = Returned (JSObject [(''rowCount'', JSNumber (Finite 0))])
   \<and> map_option js_outcome
         (conn_Execute sample_api execute_fails_engine [JSString ''UPDATE t SET x = ?'', JSArray []]
            idle_session) =
       Some (Thrown (MimerError ''MimerExecute failed: Unknown error (code: -1)'' (- 1)
                       ''MimerExecute''))
   \<and> MimerError ''MimerExecute failed: Unknown error (code: -1)'' (- 1) ''MimerExecute''
       \<noteq> count_mismatch_error 1 0"
proof -
  have a: "rcode (dml_engine [MimerBeginStatement8 5 ''UPDATE t SET x = ?''] (MimerParameterCount 7)) = 1"
    by (simp add: dml_engine_def failing_at_def sample_engine_def sample_rcode_def)
  have b: "js_outcome
         (JSObject [(''rowCount'', JSNumber (Finite 0))],
          idle_session\<lparr>trace := [MimerBeginStatement8 5 ''UPDATE t SET x = ?'', MimerColumnCount 7,
                          MimerExecute 7, MimerEndStatement 7]\<rparr>)
       = Returned (JSObject [(''rowCount'', JSNumber (Finite 0))])"
    by (simp add: js_outcome_def idle_session_def)
  have c: "map_option js_outcome
         (conn_Execute sample_api execute_fails_engine [JSString ''UPDATE t SET x = ?'', JSArray []]
            idle_session) =
       Some (Thrown (MimerError ''MimerExecute failed: Unknown error (code: -1)'' (- 1)
                       ''MimerExecute''))"
    by (simp add: conn_Execute_def ecall_def idle_session_def execute_fails_engine_def dml_engine_def
          failing_at_def CheckError_def GetErrorMessage_def ThrowMimerError_def mimer_message_def
          show_int_def show_nat.simps MIMERNULLHANDLE_def js_outcome_def
          sample_engine_def sample_rcode_def sample_api_def sample_const_def Let_def)
  have d: "MimerError ''MimerExecute failed: Unknown error (code: -1)'' (- 1) ''MimerExecute''
       \<noteq> count_mismatch_error 1 0"
    by (simp add: count_mismatch_error_def)
  from a sample_execute_empty_params b c d show ?thesis by (intro conjI)
qed

lemma sample_symbol_bound:
  "BindParameters sample_api sample_engine 7 [JSSymbol ''s''] w0 =
     Some \<lparr>trace = [MimerParameterCount 7, MimerSetString8 7 1 []],
           pending = Some (TypeError ''Cannot convert a Symbol value to a string'')\<rparr>"
  by (simp add: BindParameters_def BindParameters_loop.simps ToString_Utf8Value_def
        cast_int_small ecall_def w0_def sample_engine_def sample_rcode_def sample_api_def
        js_index_def params_get_def cast_int16_def Let_def)

lemma sample_symbol_then_number:
  "BindParameters sample_api (failing_at (MimerParameterCount 7) 2 sample_engine) 7
     [JSSymbol ''s'', JSNumber (Finite 42)] w0 =
     Some \<lparr>trace = [MimerParameterCount 7, MimerSetString8 7 1 [], MimerSetNull 7 2],
           pending = Some (TypeError ''Cannot convert a Symbol value to a string'')\<rparr>"
  by (simp add: BindParameters_def BindParameters_loop.simps ToString_Utf8Value_def
        cast_int_small ecall_def w0_def failing_at_def sample_engine_def sample_rcode_def
        sample_api_def js_index_def params_get_def cast_int16_def Let_def)

lemma sample_symbol_refused:
  "BindParameters sample_api (failing_at (MimerSetString8 7 1 []) (- 1) sample_engine) 7
     [JSSymbol ''s''] w0 = None"
  by (simp add: BindParameters_def BindParameters_loop.simps ToString_Utf8Value_def
        cast_int_small ecall_def w0_def failing_at_def sample_engine_def sample_rcode_def
        sample_api_def js_index_def params_get_def cast_int16_def Let_def)

lemma sample_query_no_columns:
  "conn_ExecuteQuery sample_api dml_engine 2 [JSString ''UPDATE t SET x = ?''] idle_session =
     Some (JSUndefined,
           idle_session\<lparr>trace := [MimerBeginStatement8 5 ''UPDATE t SET x = ?'', MimerColumnCount 7,
                           MimerEndStatement 7],
                pending := Some (PlainError
                  ''queryCursor only supports SELECT statements (DML has no result columns)'')\<rparr>)"
  by (simp add: conn_ExecuteQuery_def ecall_def throw_def idle_session_def dml_engine_def
        failing_at_def sample_engine_def sample_rcode_def sample_api_def sample_const_def Let_def)

lemma sample_statement_open_fails:
  "stmt_Execute sample_api open_fails_engine 1 [] busy_session =
     Some (JSUndefined,
           busy_session\<lparr>trace := [MimerColumnName8 7 1, MimerColumnType 7 1, MimerColumnName8 7 2,
                           MimerColumnType 7 2, MimerOpenCursor 7],
                pending := Some (MimerError ''MimerOpenCursor failed (code: -1)'' (- 1)
                                   ''MimerOpenCursor'')\<rparr>)"
  by (simp add: stmt_Execute_def BuildFieldsArray_def BuildFieldsArray_loop.simps
        ThrowMimerError_def mimer_message_def show_int_def show_nat.simps
        cast_int16_def ecall_def busy_session_def open_fails_engine_def failing_at_def
        sample_engine_def sample_rcode_def sample_rstr_def Let_def)

theorem parameter_count_check_witness:
  "BindParameters sample_api sample_engine 7 [JSNumber (Finite 1), JSNumber (Finite 2)] w0 =
     Some \<lparr>trace = [MimerParameterCount 7], pending = Some (count_mismatch_error 1 2)\<rparr>
   \<and> BindParameters sample_api sample_engine 7 [] w0 =
     Some \<lparr>trace = [MimerParameterCount 7], pending = Some (count_mismatch_error 1 0)\<rparr>
   \<and> BindParameters sample_api sample_engine 7 [JSNumber (Finite 42)] w0 =
     Some \<lparr>trace = [MimerParameterCount 7, MimerSetInt32 7 1 42], pending = None\<rparr>
   \<and> (pending \<lparr>trace = [MimerParameterCount 7, MimerSetInt32 7 1 42], pending = None\<rparr>
         = pending w0
       \<or> (\<exists>rc j. rc < 0 \<and> 1 \<le> j \<and> j \<le> cast_int (length [JSNumber (Finite 42)])
            \<and> pending \<lparr>trace = [MimerParameterCount 7, MimerSetInt32 7 1 42], pending = None\<rparr>
                 = Some (bind_failure_error j rc))
       \<or> (\<exists>j e. 0 \<le> j \<and> j < cast_int (length [JSNumber (Finite 42)])
            \<and> ToString sample_api (js_index [JSNumber (Finite 42)] j) = Inl e
            \<and> pending \<lparr>trace = [MimerParameterCount 7, MimerSetInt32 7 1 42], pending = None\<rparr>
                 = Some e))
   \<and> BindParameters sample_api sample_engine 7 [JSSymbol ''s''] w0 =
     Some \<lparr>trace = [MimerParameterCount 7, MimerSetString8 7 1 []],
           pending = Some (TypeError ''Cannot convert a Symbol value to a string'')\<rparr>
   \<and> (pending \<lparr>trace = [MimerParameterCount 7, MimerSetString8 7 1 []],
           pending = Some (TypeError ''Cannot convert a Symbol value to a string'')\<rparr> = pending w0
       \<or> (\<exists>rc j. rc < 0 \<and> 1 \<le> j \<and> j \<le> cast_int (length [JSSymbol ''s''])
            \<and> pending \<lparr>trace = [MimerParameterCount 7, MimerSetString8 7 1 []],
                 pending = Some (TypeError ''Cannot convert a Symbol value to a string'')\<rparr>
                 = Some (bind_failure_error j rc))
       \<or> (\<exists>j e. 0 \<le> j \<and> j < cast_int (length [JSSymbol ''s''])
            \<and> ToString sample_api (js_index [JSSymbol ''s''] j) = Inl e
            \<and> pending \<lparr>trace = [MimerParameterCount 7, MimerSetString8 7 1 []],
                 pending = Some (TypeError ''Cannot convert a Symbol value to a string'')\<rparr>
                 = Some e))
   \<and> ToString sample_api (JSSymbol ''s'')
       = Inl (TypeError ''Cannot convert a Symbol value to a string'')
   \<and> conn_Execute sample_api sample_engine
       [JSString ''SELECT id, name FROM t WHERE id = ?'',
        JSArray [JSNumber (Finite 1), JSNumber (Finite 2)]] idle_session =
     Some (JSUndefined,
           idle_session\<lparr>trace := [MimerBeginStatement8 5 ''SELECT id, name FROM t WHERE id = ?'',
                           MimerParameterCount 7, MimerEndStatement 7],
                pending := Some (count_mismatch_error 1 2)\<rparr>)
   \<and> conn_ExecuteQuery sample_api sample_engine 2
       [JSString ''SELECT id, name FROM t WHERE id = ?'',
        JSArray [JSNumber (Finite 1), JSNumber (Finite 2)]] idle_session =
     Some (JSUndefined,
           idle_session\<lparr>trace := [MimerBeginStatement8 5 ''SELECT id, name FROM t WHERE id = ?'',
                           MimerParameterCount 7, MimerEndStatement 7],
                pending := Some (count_mismatch_error 1 2)\<rparr>)
   \<and> stmt_Execute sample_api sample_engine 1
       [JSArray [JSNumber (Finite 1), JSNumber (Finite 2)]] busy_session =
     Some (JSUndefined,
           busy_session\<lparr>trace := [MimerParameterCount 7],
                pending := Some (count_mismatch_error 1 2)\<rparr>)
   \<and> count_mismatch_error 1 2 =
       MimerError ''BindParameters failed: statement expects 1 but 2 were provided (code: 0)''
         0 ''BindParameters''
   \<and> params_at [JSString ''UPDATE t SET x = ?'', JSArray []] 1 = None
   \<and> no_count_call idle_session
        (idle_session\<lparr>trace := [MimerBeginStatement8 5 ''UPDATE t SET x = ?'', MimerColumnCount 7,
                           MimerExecute 7, MimerEndStatement 7]\<rparr>)
   \<and> params_at [JSString ''UPDATE t SET x = ?''] 1 = None
   \<and> no_count_call idle_session
        (idle_session\<lparr>trace := [MimerBeginStatement8 5 ''UPDATE t SET x = ?'', MimerColumnCount 7,
                           MimerEndStatement 7],
                pending := Some (PlainError
                  ''queryCursor only supports SELECT statements (DML has no result columns)'')\<rparr>)
   \<and> params_at [] 0 = None
   \<and> no_count_call busy_session
        (busy_session\<lparr>trace := [MimerColumnName8 7 1, MimerColumnType 7 1, MimerColumnName8 7 2,
                           MimerColumnType 7 2, MimerOpenCursor 7],
                pending := Some (MimerError ''MimerOpenCursor failed (code: -1)'' (- 1)
                                   ''MimerOpenCursor'')\<rparr>)"
proof -
  have c1: "cast_int (length [JSNumber (Finite 1), JSNumber (Finite 2)]) = 2"
    and c0: "cast_int (length ([] :: jsval list)) = 0"
    and c42: "cast_int (length [JSNumber (Finite 42)]) = 1"
    and c2: "cast_int (Suc (Suc 0)) = 2" and c00: "cast_int 0 = 0"
    and c01: "cast_int (Suc 0) = 1"
    by (simp_all add: cast_int_small)
  have a: "BindParameters sample_api sample_engine 7 [JSNumber (Finite 1), JSNumber (Finite 2)] w0 =
     Some \<lparr>trace = [MimerParameterCount 7], pending = Some (count_mismatch_error 1 2)\<rparr>"
    using parameter_count_check[where params = "[JSNumber (Finite 1), JSNumber (Finite 2)]"
        and eng = sample_engine and w = w0 and stmt = 7 and api = sample_api, THEN conjunct1]
    by (simp add: c1 c2 w0_def sample_engine_def sample_rcode_def)
  have b: "BindParameters sample_api sample_engine 7 [] w0 =
     Some \<lparr>trace = [MimerParameterCount 7], pending = Some (count_mismatch_error 1 0)\<rparr>"
    using parameter_count_check[where params = "[]"
        and eng = sample_engine and w = w0 and stmt = 7 and api = sample_api, THEN conjunct1]
    by (simp add: c0 c00 w0_def sample_engine_def sample_rcode_def)
  have c: "BindParameters sample_api sample_engine 7 [JSNumber (Finite 42)] w0 =
     Some \<lparr>trace = [MimerParameterCount 7, MimerSetInt32 7 1 42], pending = None\<rparr>"
    by (simp add: BindParameters_def BindParameters_loop.simps c42 c01 ecall_def w0_def
          sample_engine_def sample_rcode_def js_index_def params_get_def cast_int16_def bind_number_def
          INT32_MIN_def INT32_MAX_def Let_def)
  have d: "pending \<lparr>trace = [MimerParameterCount 7, MimerSetInt32 7 1 42], pending = None\<rparr>
         = pending w0
       \<or> (\<exists>rc j. rc < 0 \<and> 1 \<le> j \<and> j \<le> cast_int (length [JSNumber (Finite 42)])
            \<and> pending \<lparr>trace = [MimerParameterCount 7, MimerSetInt32 7 1 42], pending = None\<rparr>
                 = Some (bind_failure_error j rc))
       \<or> (\<exists>j e. 0 \<le> j \<and> j < cast_int (length [JSNumber (Finite 42)])
            \<and> ToString sample_api (js_index [JSNumber (Finite 42)] j) = Inl e
            \<and> pending \<lparr>trace = [MimerParameterCount 7, MimerSetInt32 7 1 42], pending = None\<rparr>
                 = Some e)"
    using parameter_count_check[where params = "[JSNumber (Finite 42)]"
        and eng = sample_engine and w = w0 and stmt = 7 and api = sample_api
        and w' = "\<lparr>trace = [MimerParameterCount 7, MimerSetInt32 7 1 42], pending = None\<rparr>",
        THEN conjunct2, THEN conjunct1] c
    by (simp add: c42 c01 w0_def sample_engine_def sample_rcode_def)
  have s1: "cast_int (length [JSSymbol ''s'']) = 1" by (simp add: cast_int_small)
  have d2: "pending \<lparr>trace = [MimerParameterCount 7, MimerSetString8 7 1 []],
           pending = Some (TypeError ''Cannot convert a Symbol value to a string'')\<rparr> = pending w0
       \<or> (\<exists>rc j. rc < 0 \<and> 1 \<le> j \<and> j \<le> cast_int (length [JSSymbol ''s''])
            \<and> pending \<lparr>trace = [MimerParameterCount 7, MimerSetString8 7 1 []],
                 pending = Some (TypeError ''Cannot convert a Symbol value to a string'')\<rparr>
                 = Some (bind_failure_error j rc))
       \<or> (\<exists>j e. 0 \<le> j \<and> j < cast_int (length [JSSymbol ''s''])
            \<and> ToString sample_api (js_index [JSSymbol ''s''] j) = Inl e
            \<and> pending \<lparr>trace = [MimerParameterCount 7, MimerSetString8 7 1 []],
                 pending = Some (TypeError ''Cannot convert a Symbol value to a string'')\<rparr>
                 = Some e)"
    using parameter_count_check[where params = "[JSSymbol ''s'']"
        and eng = sample_engine and w = w0 and stmt = 7 and api = sample_api
        and w' = "\<lparr>trace = [MimerParameterCount 7, MimerSetString8 7 1 []],
           pending = Some (TypeError ''Cannot convert a Symbol value to a string'')\<rparr>",
        THEN conjunct2, THEN conjunct1] sample_symbol_bound
    by (simp add: s1 c01 w0_def sample_engine_def sample_rcode_def)
  have sy: "ToString sample_api (JSSymbol ''s'')
       = Inl (TypeError ''Cannot convert a Symbol value to a string'')"
    by (simp add: sample_api_def)
  note ex = parameter_count_check[where params = "[JSNumber (Finite 1), JSNumber (Finite 2)]"
        and eng = sample_engine and sys = idle_session and api = sample_api and p = 2
        and sql = "''SELECT id, name FROM t WHERE id = ?''"
        and rb = "sample_engine [] (MimerBeginStatement8 5 ''SELECT id, name FROM t WHERE id = ?'')"
        and K = 1, THEN conjunct2, THEN conjunct2, THEN conjunct1]
  have e: "conn_Execute sample_api sample_engine
       [JSString ''SELECT id, name FROM t WHERE id = ?'',
        JSArray [JSNumber (Finite 1), JSNumber (Finite 2)]] idle_session =
     Some (JSUndefined,
           idle_session\<lparr>trace := [MimerBeginStatement8 5 ''SELECT id, name FROM t WHERE id = ?'',
                           MimerParameterCount 7, MimerEndStatement 7],
                pending := Some (count_mismatch_error 1 2)\<rparr>)"
    and e2: "conn_ExecuteQuery sample_api sample_engine 2
       [JSString ''SELECT id, name FROM t WHERE id = ?'',
        JSArray [JSNumber (Finite 1), JSNumber (Finite 2)]] idle_session =
     Some (JSUndefined,
           idle_session\<lparr>trace := [MimerBeginStatement8 5 ''SELECT id, name FROM t WHERE id = ?'',
                           MimerParameterCount 7, MimerEndStatement 7],
                pending := Some (count_mismatch_error 1 2)\<rparr>)"
    using ex
    by (simp_all add: c1 c2 idle_session_def sample_engine_def sample_rcode_def sample_api_def
          sample_const_def)
  have e3: "stmt_Execute sample_api sample_engine 1
       [JSArray [JSNumber (Finite 1), JSNumber (Finite 2)]] busy_session =
     Some (JSUndefined,
           busy_session\<lparr>trace := [MimerParameterCount 7],
                pending := Some (count_mismatch_error 1 2)\<rparr>)"
    using parameter_count_check[where params = "[JSNumber (Finite 1), JSNumber (Finite 2)]"
        and eng = sample_engine and sys = busy_session and api = sample_api and p = 1
        and s = "\<lparr>s_stmt = 7, s_columnCount = 2, s_closed = False, s_parentConnection = True\<rparr>"
        and Ks = 1, THEN conjunct2, THEN conjunct2, THEN conjunct2, THEN conjunct1]
    by (simp add: c1 c2 busy_session_def sample_engine_def sample_rcode_def)
  have f: "count_mismatch_error 1 2 =
       MimerError ''BindParameters failed: statement expects 1 but 2 were provided (code: 0)''
         0 ''BindParameters''"
    by (simp add: count_mismatch_error_def mimer_message_def show_int_def show_nat.simps)
  have p1: "params_at [JSString ''UPDATE t SET x = ?'', JSArray []] 1 = None"
    and p2: "params_at [JSString ''UPDATE t SET x = ?''] 1 = None"
    and p3: "params_at [] 0 = None"
    by simp_all
  have g1: "no_count_call idle_session
        (idle_session\<lparr>trace := [MimerBeginStatement8 5 ''UPDATE t SET x = ?'', MimerColumnCount 7,
                           MimerExecute 7, MimerEndStatement 7]\<rparr>)"
    by (rule parameter_count_check[THEN conjunct2, THEN conjunct2, THEN conjunct2, THEN conjunct2,
               THEN conjunct1, rule_format, OF conjI[OF p1 sample_execute_empty_params]])
  have g2: "no_count_call idle_session
        (idle_session\<lparr>trace := [MimerBeginStatement8 5 ''UPDATE t SET x = ?'', MimerColumnCount 7,
                           MimerEndStatement 7],
                pending := Some (PlainError
                  ''queryCursor only supports SELECT statements (DML has no result columns)'')\<rparr>)"
    by (rule parameter_count_check[THEN conjunct2, THEN conjunct2, THEN conjunct2, THEN conjunct2,
               THEN conjunct2, THEN conjunct1, rule_format,
               OF conjI[OF p2 sample_query_no_columns]])
  have g3: "no_count_call busy_session
        (busy_session\<lparr>trace := [MimerColumnName8 7 1, MimerColumnType 7 1, MimerColumnName8 7 2,
                           MimerColumnType 7 2, MimerOpenCursor 7],
                pending := Some (MimerError ''MimerOpenCursor failed (code: -1)'' (- 1)
                                   ''MimerOpenCursor'')\<rparr>)"
    by (rule parameter_count_check[THEN conjunct2, THEN conjunct2, THEN conjunct2, THEN conjunct2,
               THEN conjunct2, THEN conjunct2, rule_format,
               OF conjI[OF p3 sample_statement_open_fails]])
  from a b c d sample_symbol_bound d2 sy e e2 e3 f p1 g1 p2 g2 p3 g3 show ?thesis by (intro conjI)
qed
section \<open>Direct execution releases its statement\<close>

text \<open>
  C9. When \<open>Execute\<close> has prepared a statement (the status of \<open>MimerBeginStatement8\<close> is
  neither "cannot be prepared" nor negative) and returns, the last call it made to the
  engine is \<open>MimerEndStatement\<close> on the handle that was prepared, whichever way it
  returns: a bind failure, a failure to open the cursor, a failure to execute, or a
  result.
\<close>

theorem conn_Execute_releases_statement:
  assumes conn: "connected sys"
    and rb: "rb = eng (trace sys) (MimerBeginStatement8 (session sys) sql)"
    and ok: "0 \<le> rcode rb" "rcode rb \<noteq> const api ''MIMER_STATEMENT_CANNOT_BE_PREPARED''"
    and ret: "conn_Execute api eng (JSString sql # args) sys = Some (v, sys')"
  shows "trace sys' \<noteq> [] \<and> last (trace sys') = MimerEndStatement (rhandle rb)"
proof -
  define sys1 where "sys1 = sys\<lparr>trace := trace sys @ [MimerBeginStatement8 (session sys) sql]\<rparr>"
  have e1: "ecall eng (MimerBeginStatement8 (session sys) sql) sys = (rb, sys1)"
    by (simp add: ecall_def rb sys1_def)
  from ret conn ok
  have "(case (case params_at (JSString sql # args) 1 of
                 Some params \<Rightarrow>
                   map_option (\<lambda>sys2. (pending sys2 \<noteq> None, sys2))
                     (BindParameters api eng (rhandle rb) params sys1)
               | None \<Rightarrow> Some (False, sys1)) of
           None \<Rightarrow> None
         | Some (failed, sys2) \<Rightarrow>
             if failed
             then Some (JSUndefined, snd (ecall eng (MimerEndStatement (rhandle rb)) sys2))
             else
               (let (rc, sys3) = ecall eng (MimerColumnCount (rhandle rb)) sys2;
                    columnCount = rcode rc
                in if columnCount > 0 then
                     (let (flds, sys4) = BuildFieldsArray api eng (rhandle rb) columnCount sys3;
                          (ro, sys5) = ecall eng (MimerOpenCursor (rhandle rb)) sys4
                      in if rcode ro < 0
                         then Some (JSUndefined,
                                    snd (ecall eng (MimerEndStatement (rhandle rb))
                                           (CheckError eng (rcode ro) ''MimerOpenCursor'' sys5)))
                         else
                           (case FetchResults api eng (rhandle rb) columnCount sys5 of
                              None \<Rightarrow> None
                            | Some (rows, sys6) \<Rightarrow>
                                Some (JSObject
                                        (obj_set ''rowCount''
                                           (JSNumber (Finite (of_nat (length rows))))
                                        (obj_set ''rows'' (JSArray rows)
                                        (obj_set ''fields'' flds []))),
                                      snd (ecall eng (MimerEndStatement (rhandle rb)) sys6))))
                   else
                     (let (re, sys4) = ecall eng (MimerExecute (rhandle rb)) sys3
                      in if rcode re < 0
                         then Some (JSUndefined,
                                    snd (ecall eng (MimerEndStatement (rhandle rb))
                                           (CheckError eng (rcode re) ''MimerExecute'' sys4)))
                         else Some (JSObject
                                      (obj_set ''rowCount''
                                         (JSNumber (Finite (of_int (rcode re)))) []),
                                    snd (ecall eng (MimerEndStatement (rhandle rb)) sys4)))))
        = Some (v, sys')"
    unfolding conn_Execute_def
    by (simp add: e1 Let_def del: params_at.simps)
  then obtain sysx where "sys' = snd (ecall eng (MimerEndStatement (rhandle rb)) sysx)"
    by (auto simp: Let_def split: option.splits prod.splits if_splits simp del: params_at.simps)
  then show ?thesis by simp
qed

lemma sample_select_run:
  "conn_Execute sample_api sample_engine
     [JSString ''SELECT id, name FROM t WHERE id = ?'', JSArray [JSNumber (Finite 42)]] idle_session =
   Some (JSObject
          [(''fields'',
            JSArray [field_of sample_api ''id'' 31, field_of sample_api ''name'' (- 63)]),
           (''rows'',
            JSArray [JSObject [(''id'', JSNumber (Finite 42)), (''name'', JSString ''Ann'')]]),
           (''rowCount'', JSNumber (Finite 1))],
         idle_session\<lparr>trace :=
           [MimerBeginStatement8 5 ''SELECT id, name FROM t WHERE id = ?'',
            MimerParameterCount 7, MimerSetInt32 7 1 42, MimerColumnCount 7,
            MimerColumnName8 7 1, MimerColumnType 7 1, MimerColumnName8 7 2,
            MimerColumnType 7 2, MimerOpenCursor 7, MimerColumnName8 7 1,
            MimerColumnType 7 1, MimerColumnName8 7 2, MimerColumnType 7 2,
            MimerFetch 7, MimerIsNull 7 1, MimerGetInt32 7 1, MimerIsNull 7 2,
            MimerGetString8 7 2 256, MimerFetch 7, MimerEndStatement 7]\<rparr>)"
  by (simp add: conn_Execute_def BindParameters_def BindParameters_loop.simps
        BuildFieldsArray_def BuildFieldsArray_loop.simps build_field_eq
        FetchResults_def FetchResults_loop.simps CacheColumnMetadata_def
        CacheColumnMetadata_loop.simps FetchSingleRow_def FetchSingleRow_loop.simps
        fetch_column_def fetch_string_def bind_number_def INT32_MIN_def INT32_MAX_def
        js_index_def params_get_def cast_int16_def cast_int_small ecall_def idle_session_def
        sample_engine_def sample_rcode_def sample_rstr_def sample_api_def sample_const_def
        Let_def)

lemma sample_bind_failure_run:
  "conn_Execute sample_api bind_fails_engine
     [JSString ''SELECT id, name FROM t WHERE id = ?'', JSArray [JSNumber (Finite 42)]] idle_session =
   Some (JSUndefined,
         idle_session\<lparr>trace :=
             [MimerBeginStatement8 5 ''SELECT id, name FROM t WHERE id = ?'',
              MimerParameterCount 7, MimerSetInt32 7 1 42, MimerEndStatement 7],
           pending := Some (bind_failure_error 1 (- 1))\<rparr>)"
  by (simp add: conn_Execute_def BindParameters_def BindParameters_loop.simps
        bind_number_def INT32_MIN_def INT32_MAX_def ThrowMimerError_def bind_failure_error_def
        js_index_def params_get_def cast_int16_def cast_int_small ecall_def idle_session_def bind_fails_engine_def
        failing_at_def sample_engine_def sample_rcode_def sample_api_def sample_const_def
        Let_def)

lemma sample_open_failure_run:
  "conn_Execute sample_api open_fails_engine
     [JSString ''SELECT id, name FROM t WHERE id = ?'', JSArray [JSNumber (Finite 42)]] idle_session =
   Some (JSUndefined,
         idle_session\<lparr>trace :=
             [MimerBeginStatement8 5 ''SELECT id, name FROM t WHERE id = ?'',
              MimerParameterCount 7, MimerSetInt32 7 1 42, MimerColumnCount 7,
              MimerColumnName8 7 1, MimerColumnType 7 1, MimerColumnName8 7 2,
              MimerColumnType 7 2, MimerOpenCursor 7, MimerGetError8 5,
              MimerEndStatement 7],
           pending := Some (MimerError ''MimerOpenCursor failed: Unknown error (code: -1)''
                              (- 1) ''MimerOpenCursor'')\<rparr>)"
  by (simp add: conn_Execute_def BindParameters_def BindParameters_loop.simps
        BuildFieldsArray_def BuildFieldsArray_loop.simps build_field_eq
        bind_number_def INT32_MIN_def INT32_MAX_def ThrowMimerError_def CheckError_def
        GetErrorMessage_def MIMERNULLHANDLE_def mimer_message_def show_int_def show_nat.simps
        js_index_def params_get_def cast_int16_def cast_int_small ecall_def idle_session_def open_fails_engine_def
        failing_at_def sample_engine_def sample_rcode_def sample_rstr_def sample_api_def
        sample_const_def Let_def)

lemma sample_execute_failure_run:
  "conn_Execute sample_api execute_fails_engine [JSString ''UPDATE t SET x = 1''] idle_session =
   Some (JSUndefined,
         idle_session\<lparr>trace :=
             [MimerBeginStatement8 5 ''UPDATE t SET x = 1'', MimerColumnCount 7,
              MimerExecute 7, MimerGetError8 5, MimerEndStatement 7],
           pending := Some (MimerError ''MimerExecute failed: Unknown error (code: -1)''
                              (- 1) ''MimerExecute'')\<rparr>)"
  by (simp add: conn_Execute_def ThrowMimerError_def CheckError_def
        GetErrorMessage_def MIMERNULLHANDLE_def mimer_message_def show_int_def show_nat.simps
        ecall_def idle_session_def execute_fails_engine_def dml_engine_def
        failing_at_def sample_engine_def sample_rcode_def sample_rstr_def sample_api_def
        sample_const_def Let_def)

theorem conn_Execute_releases_statement_witness:
  "last (trace (idle_session\<lparr>trace :=
           [MimerBeginStatement8 5 ''SELECT id, name FROM t WHERE id = ?'',
            MimerParameterCount 7, MimerSetInt32 7 1 42, MimerColumnCount 7,
            MimerColumnName8 7 1, MimerColumnType 7 1, MimerColumnName8 7 2,
            MimerColumnType 7 2, MimerOpenCursor 7, MimerColumnName8 7 1,
            MimerColumnType 7 1, MimerColumnName8 7 2, MimerColumnType 7 2,
            MimerFetch 7, MimerIsNull 7 1, MimerGetInt32 7 1, MimerIsNull 7 2,
            MimerGetString8 7 2 256, MimerFetch 7, MimerEndStatement 7]\<rparr>))
     = MimerEndStatement
         (rhandle (sample_engine (trace idle_session)
            (MimerBeginStatement8 (session idle_session) ''SELECT id, name FROM t WHERE id = ?'')))
   \<and> rhandle (sample_engine (trace idle_session)
         (MimerBeginStatement8 (session idle_session) ''SELECT id, name FROM t WHERE id = ?'')) = 7
   \<and> (\<exists>v. conn_Execute sample_api sample_engine
         [JSString ''SELECT id, name FROM t WHERE id = ?'', JSArray [JSNumber (Finite 42)]] idle_session =
       Some (v, idle_session\<lparr>trace :=
           [MimerBeginStatement8 5 ''SELECT id, name FROM t WHERE id = ?'',
            MimerParameterCount 7, MimerSetInt32 7 1 42, MimerColumnCount 7,
            MimerColumnName8 7 1, MimerColumnType 7 1, MimerColumnName8 7 2,
            MimerColumnType 7 2, MimerOpenCursor 7, MimerColumnName8 7 1,
            MimerColumnType 7 1, MimerColumnName8 7 2, MimerColumnType 7 2,
            MimerFetch 7, MimerIsNull 7 1, MimerGetInt32 7 1, MimerIsNull 7 2,
            MimerGetString8 7 2 256, MimerFetch 7, MimerEndStatement 7]\<rparr>))"
proof -
  have c: "connected idle_session" by (simp add: idle_session_def)
  have ok: "0 \<le> rcode (sample_engine (trace idle_session)
                 (MimerBeginStatement8 (session idle_session) ''SELECT id, name FROM t WHERE id = ?''))"
    "rcode (sample_engine (trace idle_session)
                 (MimerBeginStatement8 (session idle_session) ''SELECT id, name FROM t WHERE id = ?''))
       \<noteq> const sample_api ''MIMER_STATEMENT_CANNOT_BE_PREPARED''"
    by (simp_all add: sample_engine_def sample_rcode_def sample_api_def sample_const_def)
  have h: "rhandle (sample_engine (trace idle_session)
         (MimerBeginStatement8 (session idle_session) ''SELECT id, name FROM t WHERE id = ?'')) = 7"
    by (simp add: sample_engine_def idle_session_def)
  from conn_Execute_releases_statement[OF c refl ok sample_select_run[unfolded idle_session_def[symmetric]]]
  have l: "last (trace (idle_session\<lparr>trace :=
           [MimerBeginStatement8 5 ''SELECT id, name FROM t WHERE id = ?'',
            MimerParameterCount 7, MimerSetInt32 7 1 42, MimerColumnCount 7,
            MimerColumnName8 7 1, MimerColumnType 7 1, MimerColumnName8 7 2,
            MimerColumnType 7 2, MimerOpenCursor 7, MimerColumnName8 7 1,
            MimerColumnType 7 1, MimerColumnName8 7 2, MimerColumnType 7 2,
            MimerFetch 7, MimerIsNull 7 1, MimerGetInt32 7 1, MimerIsNull 7 2,
            MimerGetString8 7 2 256, MimerFetch 7, MimerEndStatement 7]\<rparr>))
     = MimerEndStatement
         (rhandle (sample_engine (trace idle_session)
            (MimerBeginStatement8 (session idle_session) ''SELECT id, name FROM t WHERE id = ?'')))"
    by (rule conjunct2)
  from l h sample_select_run show ?thesis by (intro conjI exI)
qed

section \<open>Invalidation and teardown\<close>

lemma stmt_release_cases:
  "stmt_release eng s sys =
     (if \<not> s_closed s \<and> s_stmt s \<noteq> MIMERNULLHANDLE
      then (s\<lparr>s_stmt := rhandle (eng (trace sys) (MimerEndStatement (s_stmt s)))\<rparr>,
            sys\<lparr>trace := trace sys @ [MimerEndStatement (s_stmt s)]\<rparr>)
      else (s, sys))"
  by (simp add: stmt_release_def ecall_def)

lemma rs_release_cases:
  "rs_release eng rs sys =
     (if \<not> r_closed rs \<and> r_stmt rs \<noteq> MIMERNULLHANDLE
      then (rs\<lparr>r_stmt := rhandle (eng (trace sys @ [MimerCloseCursor (r_stmt rs)])
                                   (MimerEndStatement (r_stmt rs)))\<rparr>,
            sys\<lparr>trace := trace sys @ [MimerCloseCursor (r_stmt rs), MimerEndStatement (r_stmt rs)]\<rparr>)
      else (rs, sys))"
  by (simp add: rs_release_def ecall_def)

lemma stmt_Invalidate_frame [simp]:
  "session (stmt_Invalidate eng p sys) = session sys"
  "connected (stmt_Invalidate eng p sys) = connected sys"
  "pending (stmt_Invalidate eng p sys) = pending sys"
  "openStatements (stmt_Invalidate eng p sys) = openStatements sys"
  "openResultSets (stmt_Invalidate eng p sys) = openResultSets sys"
  "resultSets (stmt_Invalidate eng p sys) = resultSets sys"
  by (simp_all add: stmt_Invalidate_def stmt_release_cases split: option.splits)

lemma rs_Invalidate_frame [simp]:
  "session (rs_Invalidate eng p sys) = session sys"
  "connected (rs_Invalidate eng p sys) = connected sys"
  "pending (rs_Invalidate eng p sys) = pending sys"
  "openStatements (rs_Invalidate eng p sys) = openStatements sys"
  "openResultSets (rs_Invalidate eng p sys) = openResultSets sys"
  "statements (rs_Invalidate eng p sys) = statements sys"
  by (simp_all add: rs_Invalidate_def rs_release_cases split: option.splits)

lemma stmt_Invalidate_other:
  "q \<noteq> p \<Longrightarrow> statements (stmt_Invalidate eng p sys) q = statements sys q"
  by (simp add: stmt_Invalidate_def stmt_release_cases split: option.splits)

lemma rs_Invalidate_other:
  "q \<noteq> p \<Longrightarrow> resultSets (rs_Invalidate eng p sys) q = resultSets sys q"
  by (simp add: rs_Invalidate_def rs_release_cases split: option.splits)

lemma stmt_Invalidate_closes:
  "statements sys p = Some s \<Longrightarrow>
   \<exists>s'. statements (stmt_Invalidate eng p sys) p = Some s' \<and> s_closed s'
        \<and> \<not> s_parentConnection s'"
  by (simp add: stmt_Invalidate_def stmt_release_cases)

lemma rs_Invalidate_closes:
  "resultSets sys p = Some rs \<Longrightarrow>
   \<exists>rs'. resultSets (rs_Invalidate eng p sys) p = Some rs' \<and> r_closed rs'
         \<and> \<not> r_parentConnection rs' \<and> r_exhausted rs' = r_exhausted rs"
  by (simp add: rs_Invalidate_def rs_release_cases)

lemma stmt_Invalidate_keeps_closed:
  assumes "statements sys q = Some s" "s_closed s" "\<not> s_parentConnection s"
  shows "\<exists>s'. statements (stmt_Invalidate eng p sys) q = Some s' \<and> s_closed s'
              \<and> \<not> s_parentConnection s'"
proof (cases "q = p")
  case True
  with assms(1) stmt_Invalidate_closes show ?thesis by blast
next
  case False
  with assms show ?thesis by (simp add: stmt_Invalidate_other)
qed

lemma rs_Invalidate_keeps_closed:
  assumes "resultSets sys q = Some rs" "r_closed rs" "\<not> r_parentConnection rs"
  shows "\<exists>rs'. resultSets (rs_Invalidate eng p sys) q = Some rs' \<and> r_closed rs'
               \<and> \<not> r_parentConnection rs'"
proof (cases "q = p")
  case True
  with assms(1) rs_Invalidate_closes show ?thesis by blast
next
  case False
  with assms show ?thesis by (simp add: rs_Invalidate_other)
qed

lemma stmt_Invalidate_trace:
  "\<exists>cs. trace (stmt_Invalidate eng p sys) = trace sys @ cs \<and> list_all is_stmt_release cs"
  by (simp add: stmt_Invalidate_def stmt_release_cases split: option.splits)

lemma rs_Invalidate_trace:
  "\<exists>cs. trace (rs_Invalidate eng p sys) = trace sys @ cs \<and> list_all is_stmt_release cs"
  by (simp add: rs_Invalidate_def rs_release_cases split: option.splits)

lemma stmt_Invalidate_open_trace:
  "statements sys p = Some s \<Longrightarrow> \<not> s_closed s \<Longrightarrow> s_stmt s \<noteq> MIMERNULLHANDLE \<Longrightarrow>
   trace (stmt_Invalidate eng p sys) = trace sys @ [MimerEndStatement (s_stmt s)]"
  by (simp add: stmt_Invalidate_def stmt_release_cases)

lemma rs_Invalidate_open_trace:
  "resultSets sys p = Some rs \<Longrightarrow> \<not> r_closed rs \<Longrightarrow> r_stmt rs \<noteq> MIMERNULLHANDLE \<Longrightarrow>
   trace (rs_Invalidate eng p sys)
     = trace sys @ [MimerCloseCursor (r_stmt rs), MimerEndStatement (r_stmt rs)]"
  by (simp add: rs_Invalidate_def rs_release_cases)

text \<open>The loops over the registries.\<close>

lemma fold_stmt_Invalidate_frame [simp]:
  "session (fold (stmt_Invalidate eng) ps sys) = session sys"
  "connected (fold (stmt_Invalidate eng) ps sys) = connected sys"
  "pending (fold (stmt_Invalidate eng) ps sys) = pending sys"
  "openStatements (fold (stmt_Invalidate eng) ps sys) = openStatements sys"
  "openResultSets (fold (stmt_Invalidate eng) ps sys) = openResultSets sys"
  "resultSets (fold (stmt_Invalidate eng) ps sys) = resultSets sys"
  by (induction ps arbitrary: sys; simp)+

lemma fold_rs_Invalidate_frame [simp]:
  "session (fold (rs_Invalidate eng) ps sys) = session sys"
  "connected (fold (rs_Invalidate eng) ps sys) = connected sys"
  "pending (fold (rs_Invalidate eng) ps sys) = pending sys"
  "openStatements (fold (rs_Invalidate eng) ps sys) = openStatements sys"
  "openResultSets (fold (rs_Invalidate eng) ps sys) = openResultSets sys"
  "statements (fold (rs_Invalidate eng) ps sys) = statements sys"
  by (induction ps arbitrary: sys; simp)+

lemma fold_stmt_Invalidate_keeps_closed:
  "statements sys q = Some s \<Longrightarrow> s_closed s \<Longrightarrow> \<not> s_parentConnection s \<Longrightarrow>
   \<exists>s'. statements (fold (stmt_Invalidate eng) ps sys) q = Some s' \<and> s_closed s'
        \<and> \<not> s_parentConnection s'"
proof (induction ps arbitrary: sys s)
  case Nil
  then show ?case by simp
next
  case (Cons p ps)
  from stmt_Invalidate_keeps_closed[OF Cons.prems, of eng p]
  obtain s1 where "statements (stmt_Invalidate eng p sys) q = Some s1" "s_closed s1"
    "\<not> s_parentConnection s1" by blast
  from Cons.IH[OF this] show ?case by simp
qed

lemma fold_rs_Invalidate_keeps_closed:
  "resultSets sys q = Some rs \<Longrightarrow> r_closed rs \<Longrightarrow> \<not> r_parentConnection rs \<Longrightarrow>
   \<exists>rs'. resultSets (fold (rs_Invalidate eng) ps sys) q = Some rs' \<and> r_closed rs'
         \<and> \<not> r_parentConnection rs'"
proof (induction ps arbitrary: sys rs)
  case Nil
  then show ?case by simp
next
  case (Cons p ps)
  from rs_Invalidate_keeps_closed[OF Cons.prems, of eng p]
  obtain rs1 where "resultSets (rs_Invalidate eng p sys) q = Some rs1" "r_closed rs1"
    "\<not> r_parentConnection rs1" by blast
  from Cons.IH[OF this] show ?case by simp
qed

lemma fold_stmt_Invalidate_closes:
  "q \<in> set ps \<Longrightarrow> statements sys q = Some s \<Longrightarrow>
   \<exists>s'. statements (fold (stmt_Invalidate eng) ps sys) q = Some s' \<and> s_closed s'
        \<and> \<not> s_parentConnection s'"
proof (induction ps arbitrary: sys s)
  case Nil
  then show ?case by simp
next
  case (Cons p ps)
  show ?case
  proof (cases "q = p")
    case True
    from stmt_Invalidate_closes[OF Cons.prems(2)[unfolded True], of eng]
    obtain s1 where "statements (stmt_Invalidate eng p sys) p = Some s1" "s_closed s1"
      "\<not> s_parentConnection s1" by blast
    from fold_stmt_Invalidate_keeps_closed[OF this] True show ?thesis by simp
  next
    case False
    with Cons.prems have "q \<in> set ps" "statements (stmt_Invalidate eng p sys) q = Some s"
      by (simp_all add: stmt_Invalidate_other)
    from Cons.IH[OF this] show ?thesis by simp
  qed
qed

lemma fold_rs_Invalidate_closes:
  "q \<in> set ps \<Longrightarrow> resultSets sys q = Some rs \<Longrightarrow>
   \<exists>rs'. resultSets (fold (rs_Invalidate eng) ps sys) q = Some rs' \<and> r_closed rs'
         \<and> \<not> r_parentConnection rs'"
proof (induction ps arbitrary: sys rs)
  case Nil
  then show ?case by simp
next
  case (Cons p ps)
  show ?case
  proof (cases "q = p")
    case True
    from rs_Invalidate_closes[OF Cons.prems(2)[unfolded True], of eng]
    obtain rs1 where "resultSets (rs_Invalidate eng p sys) p = Some rs1" "r_closed rs1"
      "\<not> r_parentConnection rs1" by blast
    from fold_rs_Invalidate_keeps_closed[OF this] True show ?thesis by simp
  next
    case False
    with Cons.prems have "q \<in> set ps" "resultSets (rs_Invalidate eng p sys) q = Some rs"
      by (simp_all add: rs_Invalidate_other)
    from Cons.IH[OF this] show ?thesis by simp
  qed
qed

lemma fold_stmt_Invalidate_trace:
  "\<exists>cs. trace (fold (stmt_Invalidate eng) ps sys) = trace sys @ cs \<and> list_all is_stmt_release cs"
proof (induction ps arbitrary: sys)
  case Nil
  then show ?case by simp
next
  case (Cons p ps)
  from stmt_Invalidate_trace[of eng p sys] obtain cs1 where
    1: "trace (stmt_Invalidate eng p sys) = trace sys @ cs1" "list_all is_stmt_release cs1"
    by blast
  from Cons.IH[of "stmt_Invalidate eng p sys"] obtain cs2 where
    2: "trace (fold (stmt_Invalidate eng) ps (stmt_Invalidate eng p sys))
          = trace (stmt_Invalidate eng p sys) @ cs2" "list_all is_stmt_release cs2"
    by blast
  from 1 2 show ?case by (intro exI[of _ "cs1 @ cs2"]) simp
qed

lemma fold_rs_Invalidate_trace:
  "\<exists>cs. trace (fold (rs_Invalidate eng) ps sys) = trace sys @ cs \<and> list_all is_stmt_release cs"
proof (induction ps arbitrary: sys)
  case Nil
  then show ?case by simp
next
  case (Cons p ps)
  from rs_Invalidate_trace[of eng p sys] obtain cs1 where
    1: "trace (rs_Invalidate eng p sys) = trace sys @ cs1" "list_all is_stmt_release cs1"
    by blast
  from Cons.IH[of "rs_Invalidate eng p sys"] obtain cs2 where
    2: "trace (fold (rs_Invalidate eng) ps (rs_Invalidate eng p sys))
          = trace (rs_Invalidate eng p sys) @ cs2" "list_all is_stmt_release cs2"
    by blast
  from 1 2 show ?case by (intro exI[of _ "cs1 @ cs2"]) simp
qed

lemma fold_stmt_Invalidate_releases:
  "q \<in> set ps \<Longrightarrow> statements sys q = Some s \<Longrightarrow> \<not> s_closed s \<Longrightarrow>
   s_stmt s \<noteq> MIMERNULLHANDLE \<Longrightarrow>
   \<exists>cs. trace (fold (stmt_Invalidate eng) ps sys) = trace sys @ cs
        \<and> MimerEndStatement (s_stmt s) \<in> set cs"
proof (induction ps arbitrary: sys)
  case Nil
  then show ?case by simp
next
  case (Cons p ps)
  show ?case
  proof (cases "q = p")
    case True
    from stmt_Invalidate_open_trace[OF Cons.prems(2)[unfolded True] Cons.prems(3,4), of eng]
    have 1: "trace (stmt_Invalidate eng p sys) = trace sys @ [MimerEndStatement (s_stmt s)]" .
    from fold_stmt_Invalidate_trace[of eng ps "stmt_Invalidate eng p sys"] obtain cs2 where
      "trace (fold (stmt_Invalidate eng) ps (stmt_Invalidate eng p sys))
          = trace (stmt_Invalidate eng p sys) @ cs2" by blast
    with 1 show ?thesis
      by (intro exI[of _ "MimerEndStatement (s_stmt s) # cs2"]) simp
  next
    case False
    with Cons.prems have "q \<in> set ps" "statements (stmt_Invalidate eng p sys) q = Some s"
      by (simp_all add: stmt_Invalidate_other)
    from Cons.IH[OF this Cons.prems(3,4)] obtain cs2 where
      2: "trace (fold (stmt_Invalidate eng) ps (stmt_Invalidate eng p sys))
          = trace (stmt_Invalidate eng p sys) @ cs2" "MimerEndStatement (s_stmt s) \<in> set cs2"
      by blast
    from stmt_Invalidate_trace[of eng p sys] obtain cs1 where
      "trace (stmt_Invalidate eng p sys) = trace sys @ cs1" by blast
    with 2 show ?thesis by (intro exI[of _ "cs1 @ cs2"]) simp
  qed
qed

lemma fold_rs_Invalidate_releases:
  "q \<in> set ps \<Longrightarrow> resultSets sys q = Some rs \<Longrightarrow> \<not> r_closed rs \<Longrightarrow>
   r_stmt rs \<noteq> MIMERNULLHANDLE \<Longrightarrow>
   \<exists>cs. trace (fold (rs_Invalidate eng) ps sys) = trace sys @ cs
        \<and> MimerCloseCursor (r_stmt rs) \<in> set cs \<and> MimerEndStatement (r_stmt rs) \<in> set cs"
proof (induction ps arbitrary: sys)
  case Nil
  then show ?case by simp
next
  case (Cons p ps)
  show ?case
  proof (cases "q = p")
    case True
    from rs_Invalidate_open_trace[OF Cons.prems(2)[unfolded True] Cons.prems(3,4), of eng]
    have 1: "trace (rs_Invalidate eng p sys)
               = trace sys @ [MimerCloseCursor (r_stmt rs), MimerEndStatement (r_stmt rs)]" .
    from fold_rs_Invalidate_trace[of eng ps "rs_Invalidate eng p sys"] obtain cs2 where
      "trace (fold (rs_Invalidate eng) ps (rs_Invalidate eng p sys))
          = trace (rs_Invalidate eng p sys) @ cs2" by blast
    with 1 show ?thesis
      by (intro exI[of _ "MimerCloseCursor (r_stmt rs) # MimerEndStatement (r_stmt rs) # cs2"])
         simp
  next
    case False
    with Cons.prems have "q \<in> set ps" "resultSets (rs_Invalidate eng p sys) q = Some rs"
      by (simp_all add: rs_Invalidate_other)
    from Cons.IH[OF this Cons.prems(3,4)] obtain cs2 where
      2: "trace (fold (rs_Invalidate eng) ps (rs_Invalidate eng p sys))
          = trace (rs_Invalidate eng p sys) @ cs2"
         "MimerCloseCursor (r_stmt rs) \<in> set cs2" "MimerEndStatement (r_stmt rs) \<in> set cs2"
      by blast
    from rs_Invalidate_trace[of eng p sys] obtain cs1 where
      "trace (rs_Invalidate eng p sys) = trace sys @ cs1" by blast
    with 2 show ?thesis by (intro exI[of _ "cs1 @ cs2"]) simp
  qed
qed

lemma after_invalidation_frame [simp]:
  "session (after_invalidation eng sys) = session sys"
  "connected (after_invalidation eng sys) = connected sys"
  "pending (after_invalidation eng sys) = pending sys"
  "openStatements (after_invalidation eng sys) = []"
  "openResultSets (after_invalidation eng sys) = []"
  by (simp_all add: after_invalidation_def)

lemma after_invalidation_resultSets:
  "resultSets (after_invalidation eng sys)
     = resultSets (fold (rs_Invalidate eng) (openResultSets sys) sys)"
  by (simp add: after_invalidation_def)

lemma after_invalidation_trace:
  "\<exists>cs. trace (after_invalidation eng sys) = trace sys @ cs \<and> list_all is_stmt_release cs"
proof -
  from fold_rs_Invalidate_trace[of eng "openResultSets sys" sys] obtain cs1 where
    1: "trace (fold (rs_Invalidate eng) (openResultSets sys) sys) = trace sys @ cs1"
       "list_all is_stmt_release cs1" by blast
  define B where "B = (fold (rs_Invalidate eng) (openResultSets sys) sys)\<lparr>openResultSets := []\<rparr>"
  from fold_stmt_Invalidate_trace[of eng "openStatements sys" B] obtain cs2 where
    2: "trace (fold (stmt_Invalidate eng) (openStatements sys) B) = trace B @ cs2"
       "list_all is_stmt_release cs2" by blast
  have "trace (after_invalidation eng sys) = trace sys @ (cs1 @ cs2)"
    using 1 2 by (simp add: after_invalidation_def B_def)
  with 1 2 show ?thesis by (intro exI[of _ "cs1 @ cs2"]) simp
qed

lemma after_invalidation_statement_closed:
  assumes "p \<in> set (openStatements sys)" "statements sys p = Some s"
  shows "\<exists>s'. statements (after_invalidation eng sys) p = Some s' \<and> s_closed s'
              \<and> \<not> s_parentConnection s'"
proof -
  define B where "B = (fold (rs_Invalidate eng) (openResultSets sys) sys)\<lparr>openResultSets := []\<rparr>"
  have sB: "statements B p = Some s" using assms(2) by (simp add: B_def)
  from fold_stmt_Invalidate_closes[OF assms(1) sB, of eng]
  show ?thesis by (simp add: after_invalidation_def B_def)
qed

lemma after_invalidation_resultSet_closed:
  assumes "p \<in> set (openResultSets sys)" "resultSets sys p = Some rs"
  shows "\<exists>rs'. resultSets (after_invalidation eng sys) p = Some rs' \<and> r_closed rs'
               \<and> \<not> r_parentConnection rs'"
  using fold_rs_Invalidate_closes[OF assms] by (simp add: after_invalidation_resultSets)

lemma after_invalidation_statement_released:
  assumes "p \<in> set (openStatements sys)" "statements sys p = Some s"
    "\<not> s_closed s" "s_stmt s \<noteq> MIMERNULLHANDLE"
  shows "\<exists>cs. trace (after_invalidation eng sys) = trace sys @ cs
              \<and> MimerEndStatement (s_stmt s) \<in> set cs"
proof -
  define B where "B = (fold (rs_Invalidate eng) (openResultSets sys) sys)\<lparr>openResultSets := []\<rparr>"
  have sB: "statements B p = Some s" using assms(2) by (simp add: B_def)
  from fold_stmt_Invalidate_releases[OF assms(1) sB assms(3,4), of eng] obtain cs2 where
    2: "trace (fold (stmt_Invalidate eng) (openStatements sys) B) = trace B @ cs2"
       "MimerEndStatement (s_stmt s) \<in> set cs2" by blast
  from fold_rs_Invalidate_trace[of eng "openResultSets sys" sys] obtain cs1 where
    1: "trace (fold (rs_Invalidate eng) (openResultSets sys) sys) = trace sys @ cs1" by blast
  have "trace (after_invalidation eng sys) = trace sys @ (cs1 @ cs2)"
    using 1 2 by (simp add: after_invalidation_def B_def)
  with 2 show ?thesis by (intro exI[of _ "cs1 @ cs2"]) simp
qed

lemma after_invalidation_resultSet_released:
  assumes "p \<in> set (openResultSets sys)" "resultSets sys p = Some rs"
    "\<not> r_closed rs" "r_stmt rs \<noteq> MIMERNULLHANDLE"
  shows "\<exists>cs. trace (after_invalidation eng sys) = trace sys @ cs
              \<and> MimerCloseCursor (r_stmt rs) \<in> set cs \<and> MimerEndStatement (r_stmt rs) \<in> set cs"
proof -
  from fold_rs_Invalidate_releases[OF assms, of eng] obtain cs1 where
    1: "trace (fold (rs_Invalidate eng) (openResultSets sys) sys) = trace sys @ cs1"
       "MimerCloseCursor (r_stmt rs) \<in> set cs1" "MimerEndStatement (r_stmt rs) \<in> set cs1"
    by blast
  define B where "B = (fold (rs_Invalidate eng) (openResultSets sys) sys)\<lparr>openResultSets := []\<rparr>"
  from fold_stmt_Invalidate_trace[of eng "openStatements sys" B] obtain cs2 where
    2: "trace (fold (stmt_Invalidate eng) (openStatements sys) B) = trace B @ cs2" by blast
  have "trace (after_invalidation eng sys) = trace sys @ (cs1 @ cs2)"
    using 1 2 by (simp add: after_invalidation_def B_def)
  with 1 show ?thesis by (intro exI[of _ "cs1 @ cs2"]) simp
qed

lemma conn_Close_connected:
  "connected sys \<Longrightarrow>
   conn_Close eng sys = (JSBoolean True, close_tail eng (after_invalidation eng sys))"
  by (simp add: conn_Close_def close_tail_def after_invalidation_def Let_def split: prod.splits)

lemma CheckError_frame [simp]:
  "session (CheckError eng rc operation sys) = session sys"
  "connected (CheckError eng rc operation sys) = connected sys"
  "openStatements (CheckError eng rc operation sys) = openStatements sys"
  "openResultSets (CheckError eng rc operation sys) = openResultSets sys"
  "statements (CheckError eng rc operation sys) = statements sys"
  "resultSets (CheckError eng rc operation sys) = resultSets sys"
  by (simp_all add: CheckError_def GetErrorMessage_def ThrowMimerError_def ecall_def Let_def
        split: prod.splits)

lemma CheckError_trace:
  "\<exists>cs. trace (CheckError eng rc operation sys) = trace sys @ cs
        \<and> list_all (\<lambda>c. \<not> is_stmt_release c) cs"
  by (simp add: CheckError_def GetErrorMessage_def ThrowMimerError_def ecall_def Let_def)

lemma CheckError_pending:
  "pending (CheckError eng rc operation sys) =
     (if rc < 0
      then Some (MimerError (mimer_message rc operation (fst (GetErrorMessage eng sys)))
                   rc operation)
      else pending sys)"
  by (simp add: CheckError_def ThrowMimerError_def Let_def split: prod.splits)

lemma close_tail_frame [simp]:
  "openStatements (close_tail eng sys) = openStatements sys"
  "openResultSets (close_tail eng sys) = openResultSets sys"
  "statements (close_tail eng sys) = statements sys"
  "resultSets (close_tail eng sys) = resultSets sys"
  by (simp_all add: close_tail_def ecall_def Let_def)

lemma close_tail_trace:
  "\<exists>cs. trace (close_tail eng sys) =
          trace sys @ (if session sys \<noteq> MIMERNULLHANDLE
                       then MimerEndSession (session sys) # cs else [])
        \<and> list_all (\<lambda>c. \<not> is_stmt_release c) cs"
proof (cases "session sys \<noteq> MIMERNULLHANDLE")
  case False
  then show ?thesis by (intro exI[of _ "[]"]) (simp add: close_tail_def)
next
  case True
  define r where "r = eng (trace sys) (MimerEndSession (session sys))"
  define sys6 where
    "sys6 = sys\<lparr>trace := trace sys @ [MimerEndSession (session sys)], session := rhandle r\<rparr>"
  show ?thesis
  proof (cases "rcode r < 0")
    case neg: True
    from CheckError_trace[of eng "rcode r" "''MimerEndSession''" sys6] obtain cs where
      "trace (CheckError eng (rcode r) ''MimerEndSession'' sys6) = trace sys6 @ cs"
      "list_all (\<lambda>c. \<not> is_stmt_release c) cs" by blast
    with True neg show ?thesis
      by (intro exI[of _ cs]) (simp add: close_tail_def ecall_def r_def sys6_def Let_def)
  next
    case False
    with True show ?thesis
      by (intro exI[of _ "[]"]) (simp add: close_tail_def ecall_def r_def Let_def)
  qed
qed

lemma close_tail_result:
  assumes "session sys \<noteq> MIMERNULLHANDLE"
  shows "\<not> connected (close_tail eng sys)
         \<and> pending (close_tail eng sys) =
             (if rcode (eng (trace sys) (MimerEndSession (session sys))) < 0
              then Some (MimerError
                     (mimer_message (rcode (eng (trace sys) (MimerEndSession (session sys))))
                        ''MimerEndSession''
                        (fst (GetErrorMessage eng
                           (sys\<lparr>trace := trace sys @ [MimerEndSession (session sys)],
                                session := rhandle (eng (trace sys)
                                                      (MimerEndSession (session sys)))\<rparr>))))
                     (rcode (eng (trace sys) (MimerEndSession (session sys))))
                     ''MimerEndSession'')
              else pending sys)"
  using assms by (simp add: close_tail_def ecall_def Let_def CheckError_pending)

lemma released_before_session_end_append:
  assumes "list_all is_stmt_release rel" "list_all (\<lambda>c. \<not> is_stmt_release c) tail"
  shows "released_before_session_end (rel @ tail)"
proof -
  have "\<forall>c\<in>set rel. \<not> is_end_session c"
  proof
    fix c assume "c \<in> set rel"
    with assms(1) have "is_stmt_release c" by (simp add: list_all_iff)
    then show "\<not> is_end_session c" by (cases c) simp_all
  qed
  then have "dropWhile (\<lambda>c. \<not> is_end_session c) (rel @ tail)
               = dropWhile (\<lambda>c. \<not> is_end_session c) tail"
    by (simp add: dropWhile_append)
  moreover have "set (dropWhile (\<lambda>c. \<not> is_end_session c) tail) \<subseteq> set tail"
    by (rule set_dropWhileD[THEN subsetI])
  ultimately show ?thesis
    using assms(2) by (auto simp: released_before_session_end_def list_ex_iff list_all_iff)
qed

section \<open>Closing a session\<close>

lemma conn_Close_value: "fst (conn_Close eng sys) = JSBoolean True"
  by (simp add: conn_Close_def Let_def split: prod.splits)

text \<open>
  C2, as the code has it. Closing a connected session always completes the teardown and
  hands back \<open>true\<close>, and the session is then not connected. When the engine ends the
  session with a status that is not negative, nothing is raised and the caller gets
  \<open>true\<close>; when the status is negative, \<open>CheckError\<close> leaves a structured error with that
  status and the operation \<open>MimerEndSession\<close> pending, and the caller sees \<open>close()\<close>
  throw it.
\<close>

theorem conn_Close_outcome:
  assumes "connected sys" and "session sys \<noteq> MIMERNULLHANDLE" and "pending sys = None"
    and "rc = rcode (eng (trace (after_invalidation eng sys)) (MimerEndSession (session sys)))"
  shows "fst (conn_Close eng sys) = JSBoolean True
         \<and> \<not> connected (snd (conn_Close eng sys))
         \<and> (0 \<le> rc \<longrightarrow> js_outcome (conn_Close eng sys) = Returned (JSBoolean True))
         \<and> (rc < 0 \<longrightarrow>
              (\<exists>msg. js_outcome (conn_Close eng sys) = Thrown (MimerError msg rc ''MimerEndSession'')))"
proof -
  define A where "A = after_invalidation eng sys"
  have sA: "session A \<noteq> MIMERNULLHANDLE" "session A = session sys" "pending A = None"
    using assms by (simp_all add: A_def)
  have cl: "conn_Close eng sys = (JSBoolean True, close_tail eng A)"
    using assms(1) by (simp add: conn_Close_connected A_def)
  from close_tail_result[OF sA(1), of eng] sA assms(4)
  have res: "\<not> connected (close_tail eng A)"
    "0 \<le> rc \<Longrightarrow> pending (close_tail eng A) = None"
    "rc < 0 \<Longrightarrow> \<exists>msg. pending (close_tail eng A) = Some (MimerError msg rc ''MimerEndSession'')"
    by (simp_all add: A_def)
  show ?thesis
    using res by (auto simp: cl js_outcome_def)
qed

text \<open>
  Against a \<open>close()\<close> that never raises: the engine answers \<open>- 1\<close> to \<open>MimerEndSession\<close>, and the
  caller of \<open>close()\<close> gets the error thrown instead of \<open>true\<close>.
\<close>

theorem conn_Close_throws_counterexample:
  "connected idle_session
   \<and> js_outcome (conn_Close end_session_fails_engine idle_session) =
       Thrown (MimerError ''MimerEndSession failed: Unknown error (code: -1)'' (- 1)
                 ''MimerEndSession'')"
  by (simp add: js_outcome_def conn_Close_def CheckError_def GetErrorMessage_def
        ThrowMimerError_def mimer_message_def show_int_def show_nat.simps MIMERNULLHANDLE_def
        ecall_def idle_session_def end_session_fails_engine_def failing_at_def sample_engine_def
        sample_rcode_def Let_def)

theorem conn_Close_outcome_witness:
  "connected idle_session \<and> session idle_session \<noteq> MIMERNULLHANDLE \<and> pending idle_session = None
   \<and> rcode (end_session_fails_engine (trace (after_invalidation end_session_fails_engine idle_session))
        (MimerEndSession (session idle_session))) = - 1
   \<and> fst (conn_Close end_session_fails_engine idle_session) = JSBoolean True
   \<and> \<not> connected (snd (conn_Close end_session_fails_engine idle_session))
   \<and> (\<exists>msg. js_outcome (conn_Close end_session_fails_engine idle_session)
              = Thrown (MimerError msg (- 1) ''MimerEndSession''))
   \<and> rcode (sample_engine (trace (after_invalidation sample_engine idle_session))
        (MimerEndSession (session idle_session))) = 0
   \<and> js_outcome (conn_Close sample_engine idle_session) = Returned (JSBoolean True)"
proof -
  have h: "connected idle_session" "session idle_session \<noteq> MIMERNULLHANDLE" "pending idle_session = None"
    by (simp_all add: idle_session_def MIMERNULLHANDLE_def)
  have r1: "rcode (end_session_fails_engine (trace (after_invalidation end_session_fails_engine idle_session))
        (MimerEndSession (session idle_session))) = - 1"
    by (simp add: after_invalidation_def idle_session_def end_session_fails_engine_def failing_at_def)
  have r2: "rcode (sample_engine (trace (after_invalidation sample_engine idle_session))
        (MimerEndSession (session idle_session))) = 0"
    by (simp add: after_invalidation_def idle_session_def sample_engine_def sample_rcode_def)
  from conn_Close_outcome[where eng = end_session_fails_engine and sys = idle_session and rc = "- 1",
         OF h r1[symmetric]]
  have a: "fst (conn_Close end_session_fails_engine idle_session) = JSBoolean True"
    "\<not> connected (snd (conn_Close end_session_fails_engine idle_session))"
    "\<exists>msg. js_outcome (conn_Close end_session_fails_engine idle_session)
              = Thrown (MimerError msg (- 1) ''MimerEndSession'')"
    by simp_all
  from conn_Close_outcome[where eng = sample_engine and sys = idle_session and rc = 0,
         OF h r2[symmetric]]
  have b: "js_outcome (conn_Close sample_engine idle_session) = Returned (JSBoolean True)"
    by simp
  from h r1 a r2 b show ?thesis by (intro conjI)
qed

text \<open>
  C1. Closing a connected session leaves both registries empty and, the session handle
  being there, ends it and leaves the session not connected; every statement and
  result set that was registered is closed with its parent reference cleared, and if it
  was open its handle was released (a result set's cursor closed and its statement ended)
  by a call that precedes the end of the session; afterwards \<open>execute\<close> on such a
  statement throws the error "Statement is closed", \<open>fetchNext\<close> on such a result set
  returns null and \<open>getFields\<close> returns the empty array, each without any call to the
  engine: the state after the call is the state before it, but for the exception that
  \<open>execute\<close> leaves pending.
\<close>

theorem conn_Close_invalidates_all:
  assumes "connected sys" and "conn_Close eng sys = (v, sys')"
  shows "openStatements sys' = [] \<and> openResultSets sys' = []
     \<and> released_before_session_end (new_calls sys sys')
     \<and> (session sys \<noteq> MIMERNULLHANDLE \<longrightarrow>
          MimerEndSession (session sys) \<in> set (new_calls sys sys') \<and> \<not> connected sys')
     \<and> (\<forall>p\<in>set (openStatements sys). \<forall>s. statements sys p = Some s \<longrightarrow>
          (\<exists>s'. statements sys' p = Some s' \<and> s_closed s' \<and> \<not> s_parentConnection s')
          \<and> (\<not> s_closed s \<and> s_stmt s \<noteq> MIMERNULLHANDLE \<longrightarrow>
                MimerEndStatement (s_stmt s) \<in> set (new_calls sys sys'))
          \<and> (\<forall>api eng' info.
                stmt_Execute api eng' p info sys' =
                  Some (JSUndefined, sys'\<lparr>pending := Some (PlainError ''Statement is closed'')\<rparr>)
                \<and> map_option js_outcome (stmt_Execute api eng' p info (delivered sys')) =
                    Some (Thrown (PlainError ''Statement is closed''))))
     \<and> (\<forall>p\<in>set (openResultSets sys). \<forall>rs. resultSets sys p = Some rs \<longrightarrow>
          (\<exists>rs'. resultSets sys' p = Some rs' \<and> r_closed rs' \<and> \<not> r_parentConnection rs')
          \<and> (\<not> r_closed rs \<and> r_stmt rs \<noteq> MIMERNULLHANDLE \<longrightarrow>
                MimerCloseCursor (r_stmt rs) \<in> set (new_calls sys sys')
                \<and> MimerEndStatement (r_stmt rs) \<in> set (new_calls sys sys'))
          \<and> (\<forall>api eng'. rs_FetchNext api eng' p sys' = Some (JSNull, sys')
                \<and> rs_GetFields api eng' p sys' = (JSArray [], sys')
                \<and> map_option js_outcome (rs_FetchNext api eng' p (delivered sys')) =
                    Some (Returned JSNull)
                \<and> js_outcome (rs_GetFields api eng' p (delivered sys')) = Returned (JSArray [])))"
proof -
  define A where "A = after_invalidation eng sys"
  have sys': "sys' = close_tail eng A"
    using assms by (simp add: conn_Close_connected A_def)
  from after_invalidation_trace[of eng sys] obtain rel where
    rel: "trace A = trace sys @ rel" "list_all is_stmt_release rel"
    by (auto simp: A_def)
  from close_tail_trace[of eng A] obtain cs where
    tail: "trace sys' = trace A @ (if session A \<noteq> MIMERNULLHANDLE
                                    then MimerEndSession (session A) # cs else [])"
      "list_all (\<lambda>c. \<not> is_stmt_release c) cs"
    by (auto simp: sys')
  define tl where "tl = (if session A \<noteq> MIMERNULLHANDLE
                         then MimerEndSession (session A) # cs else [])"
  have nc: "new_calls sys sys' = rel @ tl"
    using rel(1) tail(1) by (simp add: new_calls_def tl_def)
  have tlok: "list_all (\<lambda>c. \<not> is_stmt_release c) tl"
    using tail(2) by (simp add: tl_def)
  have ord: "released_before_session_end (new_calls sys sys')"
    unfolding nc using rel(2) tlok by (rule released_before_session_end_append)
  have regs: "openStatements sys' = []" "openResultSets sys' = []"
    by (simp_all add: sys' A_def)
  have sA: "session A = session sys" by (simp add: A_def)
  have ends: "MimerEndSession (session sys) \<in> set (new_calls sys sys') \<and> \<not> connected sys'"
    if "session sys \<noteq> MIMERNULLHANDLE"
  proof -
    from that sA have n: "session A \<noteq> MIMERNULLHANDLE" by simp
    from n sA have "MimerEndSession (session sys) \<in> set tl" by (simp add: tl_def)
    moreover from close_tail_result[OF n, of eng] have "\<not> connected sys'" by (simp add: sys')
    ultimately show ?thesis by (simp add: nc)
  qed
  have newA: "\<And>c cs'. trace A = trace sys @ cs' \<Longrightarrow> c \<in> set cs' \<Longrightarrow>
                c \<in> set (new_calls sys sys')"
    using rel(1) nc by simp
  have stm: "(\<exists>s'. statements sys' p = Some s' \<and> s_closed s' \<and> \<not> s_parentConnection s')
          \<and> (\<not> s_closed s \<and> s_stmt s \<noteq> MIMERNULLHANDLE \<longrightarrow>
                MimerEndStatement (s_stmt s) \<in> set (new_calls sys sys'))
          \<and> (\<forall>api eng' info.
                stmt_Execute api eng' p info sys' =
                  Some (JSUndefined, sys'\<lparr>pending := Some (PlainError ''Statement is closed'')\<rparr>)
                \<and> map_option js_outcome (stmt_Execute api eng' p info (delivered sys')) =
                    Some (Thrown (PlainError ''Statement is closed'')))"
    if "p \<in> set (openStatements sys)" "statements sys p = Some s" for p s
  proof -
    from after_invalidation_statement_closed[OF that, of eng]
    obtain s' where s': "statements sys' p = Some s'" "s_closed s'" "\<not> s_parentConnection s'"
      by (auto simp: sys' A_def)
    have rls: "MimerEndStatement (s_stmt s) \<in> set (new_calls sys sys')"
      if "\<not> s_closed s \<and> s_stmt s \<noteq> MIMERNULLHANDLE"
    proof -
      from after_invalidation_statement_released[OF \<open>p \<in> set (openStatements sys)\<close>
             \<open>statements sys p = Some s\<close>, of eng] that
      obtain cs' where "trace A = trace sys @ cs'" "MimerEndStatement (s_stmt s) \<in> set cs'"
        by (auto simp: A_def)
      then show ?thesis by (rule newA)
    qed
    have ex: "stmt_Execute api eng' p info sys' =
                Some (JSUndefined, sys'\<lparr>pending := Some (PlainError ''Statement is closed'')\<rparr>)
              \<and> map_option js_outcome (stmt_Execute api eng' p info (delivered sys')) =
                    Some (Thrown (PlainError ''Statement is closed''))"
      for api eng' info
      using s' by (simp add: stmt_Execute_def throw_def delivered_def js_outcome_def)
    from s' rls ex show ?thesis by blast
  qed
  have rst: "(\<exists>rs'. resultSets sys' p = Some rs' \<and> r_closed rs' \<and> \<not> r_parentConnection rs')
          \<and> (\<not> r_closed rs \<and> r_stmt rs \<noteq> MIMERNULLHANDLE \<longrightarrow>
                MimerCloseCursor (r_stmt rs) \<in> set (new_calls sys sys')
                \<and> MimerEndStatement (r_stmt rs) \<in> set (new_calls sys sys'))
          \<and> (\<forall>api eng'. rs_FetchNext api eng' p sys' = Some (JSNull, sys')
                \<and> rs_GetFields api eng' p sys' = (JSArray [], sys')
                \<and> map_option js_outcome (rs_FetchNext api eng' p (delivered sys')) =
                    Some (Returned JSNull)
                \<and> js_outcome (rs_GetFields api eng' p (delivered sys')) = Returned (JSArray []))"
    if "p \<in> set (openResultSets sys)" "resultSets sys p = Some rs" for p rs
  proof -
    from after_invalidation_resultSet_closed[OF that, of eng]
    obtain rs' where rs': "resultSets sys' p = Some rs'" "r_closed rs'" "\<not> r_parentConnection rs'"
      by (auto simp: sys' A_def)
    have rls: "MimerCloseCursor (r_stmt rs) \<in> set (new_calls sys sys')
                \<and> MimerEndStatement (r_stmt rs) \<in> set (new_calls sys sys')"
      if "\<not> r_closed rs \<and> r_stmt rs \<noteq> MIMERNULLHANDLE"
    proof -
      from after_invalidation_resultSet_released[OF \<open>p \<in> set (openResultSets sys)\<close>
             \<open>resultSets sys p = Some rs\<close>, of eng] that
      obtain cs' where "trace A = trace sys @ cs'" "MimerCloseCursor (r_stmt rs) \<in> set cs'"
        "MimerEndStatement (r_stmt rs) \<in> set cs'"
        by (auto simp: A_def)
      then show ?thesis using newA by blast
    qed
    have ex: "rs_FetchNext api eng' p sys' = Some (JSNull, sys')
                \<and> rs_GetFields api eng' p sys' = (JSArray [], sys')
                \<and> map_option js_outcome (rs_FetchNext api eng' p (delivered sys')) =
                    Some (Returned JSNull)
                \<and> js_outcome (rs_GetFields api eng' p (delivered sys')) = Returned (JSArray [])"
      for api eng'
      using rs' by (simp add: rs_FetchNext_def rs_GetFields_def delivered_def js_outcome_def)
    from rs' rls ex show ?thesis by blast
  qed
  from regs ord ends stm rst show ?thesis by blast
qed

lemma sample_close_calls:
  "new_calls busy_session (snd (conn_Close sample_engine busy_session)) =
     [MimerCloseCursor 8, MimerEndStatement 8, MimerEndStatement 7, MimerEndSession 5]"
  by (simp add: new_calls_def conn_Close_def rs_Invalidate_def stmt_Invalidate_def
        rs_release_cases stmt_release_cases MIMERNULLHANDLE_def ecall_def busy_session_def
        sample_engine_def sample_rcode_def Let_def)

theorem conn_Close_invalidates_all_witness:
  "connected busy_session
   \<and> openStatements busy_session = [1] \<and> openResultSets busy_session = [2]
   \<and> openStatements (snd (conn_Close sample_engine busy_session)) = []
   \<and> openResultSets (snd (conn_Close sample_engine busy_session)) = []
   \<and> new_calls busy_session (snd (conn_Close sample_engine busy_session)) =
       [MimerCloseCursor 8, MimerEndStatement 8, MimerEndStatement 7, MimerEndSession 5]
   \<and> released_before_session_end (new_calls busy_session (snd (conn_Close sample_engine busy_session)))
   \<and> session busy_session \<noteq> MIMERNULLHANDLE
   \<and> MimerEndSession (session busy_session)
         \<in> set (new_calls busy_session (snd (conn_Close sample_engine busy_session)))
   \<and> \<not> connected (snd (conn_Close sample_engine busy_session))
   \<and> MimerEndStatement 7 \<in> set (new_calls busy_session (snd (conn_Close sample_engine busy_session)))
   \<and> MimerCloseCursor 8 \<in> set (new_calls busy_session (snd (conn_Close sample_engine busy_session)))
   \<and> (\<exists>s'. statements (snd (conn_Close sample_engine busy_session)) 1 = Some s' \<and> s_closed s'
            \<and> \<not> s_parentConnection s')
   \<and> (\<exists>rs'. resultSets (snd (conn_Close sample_engine busy_session)) 2 = Some rs' \<and> r_closed rs'
            \<and> \<not> r_parentConnection rs')
   \<and> stmt_Execute sample_api sample_engine 1 [JSArray [JSNumber (Finite 42)]]
        (snd (conn_Close sample_engine busy_session)) =
       Some (JSUndefined,
             (snd (conn_Close sample_engine busy_session))
               \<lparr>pending := Some (PlainError ''Statement is closed'')\<rparr>)
   \<and> map_option js_outcome
         (stmt_Execute sample_api sample_engine 1 [JSArray [JSNumber (Finite 42)]]
            (delivered (snd (conn_Close sample_engine busy_session)))) =
       Some (Thrown (PlainError ''Statement is closed''))
   \<and> rs_FetchNext sample_api sample_engine 2 (snd (conn_Close sample_engine busy_session)) =
       Some (JSNull, snd (conn_Close sample_engine busy_session))
   \<and> rs_GetFields sample_api sample_engine 2 (snd (conn_Close sample_engine busy_session)) =
       (JSArray [], snd (conn_Close sample_engine busy_session))
   \<and> map_option js_outcome
         (rs_FetchNext sample_api sample_engine 2
            (delivered (snd (conn_Close sample_engine busy_session)))) = Some (Returned JSNull)
   \<and> js_outcome
         (rs_GetFields sample_api sample_engine 2
            (delivered (snd (conn_Close sample_engine busy_session)))) = Returned (JSArray [])"
proof -
  define sys' where "sys' = snd (conn_Close sample_engine busy_session)"
  have c: "connected busy_session" and os: "openStatements busy_session = [1]" and ors: "openResultSets busy_session = [2]"
    by (simp_all add: busy_session_def)
  have s1: "statements busy_session 1 = Some \<lparr>s_stmt = 7, s_columnCount = 2, s_closed = False,
                            s_parentConnection = True\<rparr>"
    and r2: "resultSets busy_session 2 = Some \<lparr>r_stmt = 8, r_columnCount = 2, r_colNames = [''id'', ''name''],
                            r_colTypes = [31, - 63], r_closed = False, r_exhausted = False,
                            r_parentConnection = True\<rparr>"
    by (simp_all add: busy_session_def)
  have eq: "conn_Close sample_engine busy_session = (fst (conn_Close sample_engine busy_session), sys')"
    by (simp add: sys'_def)
  note all = conn_Close_invalidates_all[OF c eq]
  from all have regs: "openStatements sys' = []" "openResultSets sys' = []"
    and ord: "released_before_session_end (new_calls busy_session sys')"
    by blast+
  have sn: "session busy_session \<noteq> MIMERNULLHANDLE"
    by (simp add: busy_session_def MIMERNULLHANDLE_def)
  from all sn have en:
    "MimerEndSession (session busy_session) \<in> set (new_calls busy_session sys')"
    "\<not> connected sys'"
    by blast+
  from all os s1 have st:
    "\<exists>s'. statements sys' 1 = Some s' \<and> s_closed s' \<and> \<not> s_parentConnection s'"
    "MimerEndStatement 7 \<in> set (new_calls busy_session sys')"
    "stmt_Execute sample_api sample_engine 1 [JSArray [JSNumber (Finite 42)]] sys' =
       Some (JSUndefined, sys'\<lparr>pending := Some (PlainError ''Statement is closed'')\<rparr>)"
    "map_option js_outcome
       (stmt_Execute sample_api sample_engine 1 [JSArray [JSNumber (Finite 42)]] (delivered sys')) =
       Some (Thrown (PlainError ''Statement is closed''))"
    by (simp_all add: MIMERNULLHANDLE_def)
  from all ors r2 have rs:
    "\<exists>rs'. resultSets sys' 2 = Some rs' \<and> r_closed rs' \<and> \<not> r_parentConnection rs'"
    "MimerCloseCursor 8 \<in> set (new_calls busy_session sys')"
    "rs_FetchNext sample_api sample_engine 2 sys' = Some (JSNull, sys')"
    "rs_GetFields sample_api sample_engine 2 sys' = (JSArray [], sys')"
    "map_option js_outcome (rs_FetchNext sample_api sample_engine 2 (delivered sys')) =
       Some (Returned JSNull)"
    "js_outcome (rs_GetFields sample_api sample_engine 2 (delivered sys')) = Returned (JSArray [])"
    by (simp_all add: MIMERNULLHANDLE_def)
  from c os ors regs sample_close_calls ord sn en st rs show ?thesis
    unfolding sys'_def by (intro conjI)
qed


section \<open>The other operations of a connection\<close>

text \<open>
  The transaction calls treat a negative status the way \<open>Close\<close> does: \<open>CheckError\<close>
  leaves the structured error pending and the caller sees it thrown. The destructor
  keeps the order of \<open>Close\<close>, and \<open>Prepare\<close> registers what it creates.
\<close>

lemma conn_Commit_outcome:
  assumes "connected sys" and "pending sys = None"
    and "rc = rcode (eng (trace sys) (MimerEndTransaction (session sys) True))"
  shows "(0 \<le> rc \<longrightarrow> js_outcome (conn_Commit eng sys) = Returned (JSBoolean True))
       \<and> (rc < 0 \<longrightarrow>
            (\<exists>msg. js_outcome (conn_Commit eng sys)
                     = Thrown (MimerError msg rc ''MimerEndTransaction (commit)'')))"
  using assms
  by (simp add: conn_Commit_def js_outcome_def ecall_def CheckError_pending Let_def)

lemma conn_Rollback_outcome:
  assumes "connected sys" and "pending sys = None"
    and "rc = rcode (eng (trace sys) (MimerEndTransaction (session sys) False))"
  shows "(0 \<le> rc \<longrightarrow> js_outcome (conn_Rollback eng sys) = Returned (JSBoolean True))
       \<and> (rc < 0 \<longrightarrow>
            (\<exists>msg. js_outcome (conn_Rollback eng sys)
                     = Thrown (MimerError msg rc ''MimerEndTransaction (rollback)'')))"
  using assms
  by (simp add: conn_Rollback_def js_outcome_def ecall_def CheckError_pending Let_def)

lemma conn_BeginTransaction_outcome:
  assumes "connected sys" and "pending sys = None"
    and "rc = rcode (eng (trace sys) (MimerBeginTransaction (session sys)))"
  shows "(0 \<le> rc \<longrightarrow> js_outcome (conn_BeginTransaction eng sys) = Returned (JSBoolean True))
       \<and> (rc < 0 \<longrightarrow>
            (\<exists>msg. js_outcome (conn_BeginTransaction eng sys)
                     = Thrown (MimerError msg rc ''MimerBeginTransaction'')))"
  using assms
  by (simp add: conn_BeginTransaction_def js_outcome_def ecall_def CheckError_pending Let_def)

lemma conn_destructor_order:
  "released_before_session_end (new_calls sys (conn_destructor eng sys))"
proof -
  define A where "A = after_invalidation eng sys"
  from after_invalidation_trace[of eng sys] obtain rel where
    rel: "trace A = trace sys @ rel" "list_all is_stmt_release rel"
    by (auto simp: A_def)
  have d: "conn_destructor eng sys =
     (if connected A \<and> session A \<noteq> MIMERNULLHANDLE
      then (let (r, sys5) = ecall eng (MimerEndSession (session A)) A
            in sys5\<lparr>session := rhandle r\<rparr>)
      else A)"
    by (simp add: conn_destructor_def after_invalidation_def A_def Let_def)
  define tl where "tl = (if connected A \<and> session A \<noteq> MIMERNULLHANDLE
                         then [MimerEndSession (session A)] else [])"
  have t: "trace (conn_destructor eng sys) = trace A @ tl"
    by (simp add: d tl_def ecall_def)
  have "list_all (\<lambda>c. \<not> is_stmt_release c) tl" by (simp add: tl_def)
  with rel(2) have "released_before_session_end (rel @ tl)"
    by (rule released_before_session_end_append)
  then show ?thesis by (simp add: new_calls_def t rel(1))
qed

lemma conn_Close_then_IsConnected:
  "connected sys \<Longrightarrow> session sys \<noteq> MIMERNULLHANDLE \<Longrightarrow>
   fst (conn_IsConnected (snd (conn_Close eng sys))) = JSBoolean False"
  using close_tail_result[of "after_invalidation eng sys" eng]
  by (simp add: conn_IsConnected_def conn_Close_connected)

lemma conn_Prepare_registers:
  "conn_Prepare eng p info sys = (JSNative q, sys') \<Longrightarrow>
   q = p \<and> openStatements sys' = openStatements (RegisterStatement p sys)
   \<and> (\<exists>s. statements sys' p = Some s \<and> \<not> s_closed s \<and> s_parentConnection s)"
  by (auto simp: conn_Prepare_def stmt_constructor_def RegisterStatement_def ecall_def
        ThrowMimerError_def throw_def Let_def split: if_splits option.splits prod.splits)
section \<open>Releasing a handle once\<close>

lemma stmt_wrapper_closed_fix:
  "s_closed s \<Longrightarrow> \<not> s_parentConnection s \<Longrightarrow>
   s\<lparr>s_closed := True, s_parentConnection := False\<rparr> = s"
  by (cases s) simp

lemma rs_wrapper_closed_fix:
  "r_closed rs \<Longrightarrow> \<not> r_parentConnection rs \<Longrightarrow>
   rs\<lparr>r_closed := True, r_parentConnection := False\<rparr> = rs"
  by (cases rs) simp

lemma stmt_op_dead:
  assumes "statements sys p = Some s" "s_closed s" "\<not> s_parentConnection s"
  shows "stmt_op eng p opr sys = sys"
proof -
  have upd: "(statements sys)(p \<mapsto> s) = statements sys"
    using assms(1) by (rule map_upd_triv)
  have c: "s\<lparr>s_closed := True\<rparr> = s" using assms(2) by (cases s) simp
  have c2: "s\<lparr>s_parentConnection := False\<rparr> = s" using assms(3) by (cases s) simp
  show ?thesis
    using assms upd
    by (cases opr)
       (simp_all add: stmt_Close_def stmt_CloseInternal_def stmt_Invalidate_def
          stmt_destructor_def stmt_release_cases stmt_wrapper_closed_fix c c2)
qed

lemma rs_op_dead:
  assumes "resultSets sys p = Some rs" "r_closed rs" "\<not> r_parentConnection rs"
  shows "rs_op eng p opr sys = sys"
proof -
  have upd: "(resultSets sys)(p \<mapsto> rs) = resultSets sys"
    using assms(1) by (rule map_upd_triv)
  have c: "rs\<lparr>r_closed := True\<rparr> = rs" using assms(2) by (cases rs) simp
  have c2: "rs\<lparr>r_parentConnection := False\<rparr> = rs" using assms(3) by (cases rs) simp
  show ?thesis
    using assms upd
    by (cases opr)
       (simp_all add: rs_Close_def rs_CloseInternal_def rs_Invalidate_def
          rs_destructor_def rs_release_cases rs_wrapper_closed_fix c c2)
qed

lemma fold_stmt_op_dead:
  "statements sys p = Some s \<Longrightarrow> s_closed s \<Longrightarrow> \<not> s_parentConnection s \<Longrightarrow>
   fold (stmt_op eng p) ops sys = sys"
  by (induction ops) (simp_all add: stmt_op_dead)

lemma fold_rs_op_dead:
  "resultSets sys p = Some rs \<Longrightarrow> r_closed rs \<Longrightarrow> \<not> r_parentConnection rs \<Longrightarrow>
   fold (rs_op eng p) ops sys = sys"
  by (induction ops) (simp_all add: rs_op_dead)

lemma stmt_op_first:
  assumes "statements sys p = Some s"
  shows "\<exists>cs. trace (stmt_op eng p opr sys) = trace sys @ cs
              \<and> length (filter is_end_statement cs) \<le> 1
              \<and> (opr \<noteq> OpDestructor \<longrightarrow>
                   (\<exists>s'. statements (stmt_op eng p opr sys) p = Some s' \<and> s_closed s'
                         \<and> \<not> s_parentConnection s'))"
proof (cases "\<not> s_closed s \<and> s_stmt s \<noteq> MIMERNULLHANDLE")
  case True
  with assms show ?thesis
    by (intro exI[of _ "[MimerEndStatement (s_stmt s)]"], cases opr)
       (simp_all add: stmt_Close_def stmt_CloseInternal_def stmt_Invalidate_def
          stmt_destructor_def stmt_release_cases UnregisterStatement_def ecall_def Let_def)
next
  case False
  with assms show ?thesis
    by (intro exI[of _ "[]"], cases opr)
       (auto simp: stmt_Close_def stmt_CloseInternal_def stmt_Invalidate_def
          stmt_destructor_def stmt_release_cases UnregisterStatement_def ecall_def Let_def)
qed

lemma rs_op_first:
  assumes "resultSets sys p = Some rs"
  shows "\<exists>cs. trace (rs_op eng p opr sys) = trace sys @ cs
              \<and> length (filter is_end_statement cs) \<le> 1
              \<and> length (filter is_close_cursor cs) \<le> 1
              \<and> (\<exists>rs'. resultSets (rs_op eng p opr sys) p = Some rs' \<and> r_closed rs'
                        \<and> \<not> r_parentConnection rs')"
proof (cases "\<not> r_closed rs \<and> r_stmt rs \<noteq> MIMERNULLHANDLE")
  case True
  with assms show ?thesis
    by (intro exI[of _ "[MimerCloseCursor (r_stmt rs), MimerEndStatement (r_stmt rs)]"],
        cases opr)
       (simp_all add: rs_Close_def rs_CloseInternal_def rs_Invalidate_def
          rs_destructor_def rs_release_cases UnregisterResultSet_def Let_def)
next
  case False
  with assms show ?thesis
    by (intro exI[of _ "[]"], cases opr)
       (auto simp: rs_Close_def rs_CloseInternal_def rs_Invalidate_def
          rs_destructor_def rs_release_cases UnregisterResultSet_def Let_def)
qed

lemma destructor_last_Cons:
  "destructor_last (OpDestructor # ops) \<Longrightarrow> ops = []"
  by (cases ops) (simp_all add: destructor_last_def)

lemma stmt_ops_once:
  assumes "statements sys p = Some s" "destructor_last ops"
  shows "length (filter is_end_statement (new_calls sys (fold (stmt_op eng p) ops sys))) \<le> 1
         \<and> (\<forall>opr rest. ops = opr # rest \<longrightarrow>
               fold (stmt_op eng p) rest (stmt_op eng p opr sys) = stmt_op eng p opr sys)
         \<and> (\<forall>opr rest. ops = opr # rest \<and> opr \<noteq> OpDestructor \<longrightarrow>
               (\<exists>s'. statements (fold (stmt_op eng p) ops sys) p = Some s' \<and> s_closed s'
                     \<and> \<not> s_parentConnection s'))"
proof (cases ops)
  case Nil
  then show ?thesis by (simp add: new_calls_def)
next
  case (Cons opr rest)
  from stmt_op_first[OF assms(1), of eng opr] obtain cs where
    cs: "trace (stmt_op eng p opr sys) = trace sys @ cs"
        "length (filter is_end_statement cs) \<le> 1"
        "opr \<noteq> OpDestructor \<longrightarrow>
           (\<exists>s'. statements (stmt_op eng p opr sys) p = Some s' \<and> s_closed s'
                 \<and> \<not> s_parentConnection s')"
    by blast
  have fixd: "fold (stmt_op eng p) rest (stmt_op eng p opr sys) = stmt_op eng p opr sys"
  proof (cases "opr = OpDestructor")
    case True
    with assms(2) Cons have "rest = []" using destructor_last_Cons by blast
    then show ?thesis by simp
  next
    case False
    with cs(3) obtain s' where "statements (stmt_op eng p opr sys) p = Some s'" "s_closed s'"
      "\<not> s_parentConnection s'" by blast
    then show ?thesis by (rule fold_stmt_op_dead)
  qed
  have "new_calls sys (fold (stmt_op eng p) ops sys) = cs"
    using fixd cs(1) Cons by (simp add: new_calls_def)
  with cs(2,3) fixd Cons show ?thesis by simp
qed

lemma rs_ops_once:
  assumes "resultSets sys p = Some rs"
  shows "length (filter is_end_statement (new_calls sys (fold (rs_op eng p) ops sys))) \<le> 1
         \<and> length (filter is_close_cursor (new_calls sys (fold (rs_op eng p) ops sys))) \<le> 1
         \<and> (\<forall>opr rest. ops = opr # rest \<longrightarrow>
               fold (rs_op eng p) rest (rs_op eng p opr sys) = rs_op eng p opr sys
               \<and> (\<exists>rs'. resultSets (fold (rs_op eng p) ops sys) p = Some rs' \<and> r_closed rs'
                        \<and> \<not> r_parentConnection rs'))"
proof (cases ops)
  case Nil
  then show ?thesis by (simp add: new_calls_def)
next
  case (Cons opr rest)
  from rs_op_first[OF assms(1), of eng opr] obtain cs rs' where
    cs: "trace (rs_op eng p opr sys) = trace sys @ cs"
        "length (filter is_end_statement cs) \<le> 1"
        "length (filter is_close_cursor cs) \<le> 1"
        "resultSets (rs_op eng p opr sys) p = Some rs'" "r_closed rs'"
        "\<not> r_parentConnection rs'"
    by blast
  have fixd: "fold (rs_op eng p) rest (rs_op eng p opr sys) = rs_op eng p opr sys"
    using cs(4,5,6) by (rule fold_rs_op_dead)
  have "new_calls sys (fold (rs_op eng p) ops sys) = cs"
    using fixd cs(1) Cons by (simp add: new_calls_def)
  with cs fixd Cons show ?thesis by simp
qed

text \<open>
  C10. For a statement and for a result set, any sequence of \<open>close()\<close>, invalidation
  and destructor calls (the destructor of a statement coming last, as it ends the
  object) ends the statement handle at most once, and closes a result set's cursor at
  most once; every call after the first leaves the whole state as it is, and after a
  first \<open>close()\<close> or invalidation the entity is closed with its parent reference
  cleared.
\<close>

theorem handle_released_once:
  "(statements sys p = Some s \<and> destructor_last ops \<longrightarrow>
      length (filter is_end_statement (new_calls sys (fold (stmt_op eng p) ops sys))) \<le> 1
      \<and> (\<forall>opr rest. ops = opr # rest \<longrightarrow>
            fold (stmt_op eng p) rest (stmt_op eng p opr sys) = stmt_op eng p opr sys)
      \<and> (\<forall>opr rest. ops = opr # rest \<and> opr \<noteq> OpDestructor \<longrightarrow>
            (\<exists>s'. statements (fold (stmt_op eng p) ops sys) p = Some s' \<and> s_closed s'
                  \<and> \<not> s_parentConnection s')))
   \<and> (resultSets sys q = Some rs \<longrightarrow>
      length (filter is_end_statement (new_calls sys (fold (rs_op eng q) ops sys))) \<le> 1
      \<and> length (filter is_close_cursor (new_calls sys (fold (rs_op eng q) ops sys))) \<le> 1
      \<and> (\<forall>opr rest. ops = opr # rest \<longrightarrow>
            fold (rs_op eng q) rest (rs_op eng q opr sys) = rs_op eng q opr sys
            \<and> (\<exists>rs'. resultSets (fold (rs_op eng q) ops sys) q = Some rs' \<and> r_closed rs'
                     \<and> \<not> r_parentConnection rs')))"
  using stmt_ops_once[of sys p s ops eng] rs_ops_once[of sys q rs eng ops] by blast

lemma sample_stmt_ops_calls:
  "new_calls busy_session (fold (stmt_op sample_engine 1) [OpClose, OpInvalidate, OpDestructor] busy_session)
     = [MimerEndStatement 7]"
  by (simp add: new_calls_def stmt_Close_def stmt_CloseInternal_def stmt_Invalidate_def
        stmt_destructor_def stmt_release_cases UnregisterStatement_def set_erase_def
        MIMERNULLHANDLE_def busy_session_def sample_engine_def Let_def)

lemma sample_rs_ops_calls:
  "new_calls busy_session (fold (rs_op sample_engine 2) [OpClose, OpInvalidate, OpDestructor] busy_session)
     = [MimerCloseCursor 8, MimerEndStatement 8]"
  by (simp add: new_calls_def rs_Close_def rs_CloseInternal_def rs_Invalidate_def
        rs_destructor_def rs_release_cases UnregisterResultSet_def set_erase_def
        MIMERNULLHANDLE_def busy_session_def sample_engine_def Let_def)

theorem handle_released_once_witness:
  "statements busy_session 1 = Some \<lparr>s_stmt = 7, s_columnCount = 2, s_closed = False,
                              s_parentConnection = True\<rparr>
   \<and> destructor_last [OpClose, OpInvalidate, OpDestructor]
   \<and> new_calls busy_session (fold (stmt_op sample_engine 1) [OpClose, OpInvalidate, OpDestructor] busy_session)
       = [MimerEndStatement 7]
   \<and> length (filter is_end_statement
        (new_calls busy_session (fold (stmt_op sample_engine 1) [OpClose, OpInvalidate, OpDestructor] busy_session)))
       \<le> 1
   \<and> fold (stmt_op sample_engine 1) [OpInvalidate, OpDestructor] (stmt_op sample_engine 1 OpClose busy_session)
       = stmt_op sample_engine 1 OpClose busy_session
   \<and> (\<exists>s'. statements (fold (stmt_op sample_engine 1) [OpClose, OpInvalidate, OpDestructor] busy_session) 1
              = Some s' \<and> s_closed s' \<and> \<not> s_parentConnection s')
   \<and> resultSets busy_session 2 = Some \<lparr>r_stmt = 8, r_columnCount = 2, r_colNames = [''id'', ''name''],
                              r_colTypes = [31, - 63], r_closed = False, r_exhausted = False,
                              r_parentConnection = True\<rparr>
   \<and> new_calls busy_session (fold (rs_op sample_engine 2) [OpClose, OpInvalidate, OpDestructor] busy_session)
       = [MimerCloseCursor 8, MimerEndStatement 8]
   \<and> length (filter is_end_statement
        (new_calls busy_session (fold (rs_op sample_engine 2) [OpClose, OpInvalidate, OpDestructor] busy_session)))
       \<le> 1
   \<and> length (filter is_close_cursor
        (new_calls busy_session (fold (rs_op sample_engine 2) [OpClose, OpInvalidate, OpDestructor] busy_session)))
       \<le> 1
   \<and> fold (rs_op sample_engine 2) [OpInvalidate, OpDestructor] (rs_op sample_engine 2 OpClose busy_session)
       = rs_op sample_engine 2 OpClose busy_session"
proof -
  have s1: "statements busy_session 1 = Some \<lparr>s_stmt = 7, s_columnCount = 2, s_closed = False,
                              s_parentConnection = True\<rparr>"
    and r2: "resultSets busy_session 2 = Some \<lparr>r_stmt = 8, r_columnCount = 2, r_colNames = [''id'', ''name''],
                              r_colTypes = [31, - 63], r_closed = False, r_exhausted = False,
                              r_parentConnection = True\<rparr>"
    by (simp_all add: busy_session_def)
  have dl: "destructor_last [OpClose, OpInvalidate, OpDestructor]"
    by (simp add: destructor_last_def)
  note inst = handle_released_once[where sys = busy_session and p = 1 and q = 2
      and ops = "[OpClose, OpInvalidate, OpDestructor]" and eng = sample_engine
      and s = "\<lparr>s_stmt = 7, s_columnCount = 2, s_closed = False, s_parentConnection = True\<rparr>"
      and rs = "\<lparr>r_stmt = 8, r_columnCount = 2, r_colNames = [''id'', ''name''],
                 r_colTypes = [31, - 63], r_closed = False, r_exhausted = False,
                 r_parentConnection = True\<rparr>"]
  note st = inst[THEN conjunct1, rule_format, OF conjI[OF s1 dl]]
  have a1: "length (filter is_end_statement
        (new_calls busy_session (fold (stmt_op sample_engine 1) [OpClose, OpInvalidate, OpDestructor] busy_session)))
       \<le> 1"
    by (rule st[THEN conjunct1])
  have a2: "fold (stmt_op sample_engine 1) [OpInvalidate, OpDestructor] (stmt_op sample_engine 1 OpClose busy_session)
       = stmt_op sample_engine 1 OpClose busy_session"
    by (rule st[THEN conjunct2, THEN conjunct1, rule_format, OF refl])
  have a3: "\<exists>s'. statements (fold (stmt_op sample_engine 1) [OpClose, OpInvalidate, OpDestructor] busy_session) 1
              = Some s' \<and> s_closed s' \<and> \<not> s_parentConnection s'"
    by (rule st[THEN conjunct2, THEN conjunct2, rule_format,
                of OpClose "[OpInvalidate, OpDestructor]"]) simp
  note rt = inst[THEN conjunct2, rule_format, OF r2]
  have b1: "length (filter is_end_statement
        (new_calls busy_session (fold (rs_op sample_engine 2) [OpClose, OpInvalidate, OpDestructor] busy_session)))
       \<le> 1"
    by (rule rt[THEN conjunct1])
  have b2: "length (filter is_close_cursor
        (new_calls busy_session (fold (rs_op sample_engine 2) [OpClose, OpInvalidate, OpDestructor] busy_session)))
       \<le> 1"
    by (rule rt[THEN conjunct2, THEN conjunct1])
  have b3: "fold (rs_op sample_engine 2) [OpInvalidate, OpDestructor] (rs_op sample_engine 2 OpClose busy_session)
       = rs_op sample_engine 2 OpClose busy_session"
    by (rule rt[THEN conjunct2, THEN conjunct2, rule_format, OF refl, THEN conjunct1])
  from s1 dl sample_stmt_ops_calls a1 a2 a3 r2 sample_rs_ops_calls b1 b2 b3 show ?thesis
    by (intro conjI)
qed

section \<open>Cursor exhaustion\<close>

lemma BuildFieldsArray_loop_frame:
  "BuildFieldsArray_loop api eng stmt n col flds w = (flds', w') \<Longrightarrow>
   \<exists>cs. w' = w\<lparr>trace := trace w @ cs\<rparr>"
proof (induction api eng stmt n col flds w rule: BuildFieldsArray_loop.induct)
  case (1 api eng stmt columnCount col flds w)
  show ?case
  proof (cases "col \<le> columnCount")
    case False
    with "1.prems" have "w' = w" by (subst (asm) BuildFieldsArray_loop.simps) simp
    then show ?thesis by (intro exI[of _ "[]"]) simp
  next
    case True
    obtain rn w1 where c1: "ecall eng (MimerColumnName8 stmt (cast_int16 col)) w = (rn, w1)"
      by (cases "ecall eng (MimerColumnName8 stmt (cast_int16 col)) w")
    obtain rt w2 where c2: "ecall eng (MimerColumnType stmt (cast_int16 col)) w1 = (rt, w2)"
      by (cases "ecall eng (MimerColumnType stmt (cast_int16 col)) w1")
    have step: "BuildFieldsArray_loop api eng stmt columnCount (col + 1)
                  (flds @ [build_field api (rstr rn) (rcode rt)]) w2 = (flds', w')"
      using "1.prems"(1) True c1 c2
      by (subst (asm) BuildFieldsArray_loop.simps) simp
    from "1.IH"[OF True c1[symmetric] refl c2[symmetric] refl step]
    obtain cs where cs: "w' = w2\<lparr>trace := trace w2 @ cs\<rparr>" by blast
    have "w2 = w\<lparr>trace := trace w @ [MimerColumnName8 stmt (cast_int16 col),
                                     MimerColumnType stmt (cast_int16 col)]\<rparr>"
      using c1 c2 by (auto simp: ecall_def)
    with cs show ?thesis
      by (intro exI[of _ "[MimerColumnName8 stmt (cast_int16 col),
                           MimerColumnType stmt (cast_int16 col)] @ cs"]) simp
  qed
qed

lemma rs_GetFields_resultSets:
  "resultSets (snd (rs_GetFields api eng p sys)) = resultSets sys"
proof (cases "resultSets sys p")
  case None
  then show ?thesis by (simp add: rs_GetFields_def)
next
  case (Some rs)
  show ?thesis
  proof (cases "r_closed rs")
    case True
    with Some show ?thesis by (simp add: rs_GetFields_def)
  next
    case False
    obtain flds w' where b: "BuildFieldsArray_loop api eng (r_stmt rs) (r_columnCount rs) 1 [] sys
                               = (flds, w')"
      by (cases "BuildFieldsArray_loop api eng (r_stmt rs) (r_columnCount rs) 1 [] sys")
    from BuildFieldsArray_loop_frame[OF b] obtain cs where "w' = sys\<lparr>trace := trace sys @ cs\<rparr>"
      by blast
    with Some False b show ?thesis
      by (simp add: rs_GetFields_def BuildFieldsArray_def)
  qed
qed

lemma rs_FetchNext_null_done:
  assumes "rs_FetchNext api eng p sys = Some (JSNull, sys1)"
  shows "cursor_done p sys1"
proof (cases "resultSets sys p")
  case None
  with assms show ?thesis by (simp add: rs_FetchNext_def)
next
  case (Some rs)
  show ?thesis
  proof (cases "r_closed rs \<or> r_exhausted rs")
    case True
    with assms Some have "sys1 = sys" by (auto simp: rs_FetchNext_def)
    with Some True show ?thesis by (simp add: cursor_done_def)
  next
    case False
    define rf where "rf = eng (trace sys) (MimerFetch (r_stmt rs))"
    define sysf where "sysf = sys\<lparr>trace := trace sys @ [MimerFetch (r_stmt rs)]\<rparr>"
    have e: "ecall eng (MimerFetch (r_stmt rs)) sys = (rf, sysf)"
      by (simp add: ecall_def rf_def sysf_def)
    show ?thesis
    proof (cases "rcode rf = const api ''MIMER_SUCCESS''")
      case True
      with assms Some False e
      have "FetchSingleRow api eng (r_stmt rs) (r_columnCount rs) (r_colNames rs)
              (r_colTypes rs) sysf = Some (JSNull, sys1)"
        by (simp add: rs_FetchNext_def)
      from FetchSingleRow_never_throws[OF this] show ?thesis by simp
    next
      case ne: False
      with assms Some False e
      have "sys1 = sysf\<lparr>resultSets := (resultSets sysf)(p \<mapsto> rs\<lparr>r_exhausted := True\<rparr>)\<rparr>"
        by (simp add: rs_FetchNext_def)
      then show ?thesis by (simp add: cursor_done_def)
    qed
  qed
qed

lemma cursor_done_FetchNext:
  "cursor_done p sys \<Longrightarrow> rs_FetchNext api eng p sys = Some (JSNull, sys)"
  by (auto simp: cursor_done_def rs_FetchNext_def split: option.splits)

lemma flags_kept_refl: "cursor_done p sys \<Longrightarrow> flags_kept p sys sys"
  by (auto simp: cursor_done_def flags_kept_def split: option.splits)

lemma flags_kept_trans: "flags_kept p a b \<Longrightarrow> flags_kept p b c \<Longrightarrow> flags_kept p a c"
  by (auto simp: flags_kept_def split: option.splits if_splits)

lemma flags_kept_done: "cursor_done p a \<Longrightarrow> flags_kept p a b \<Longrightarrow> cursor_done p b"
  by (auto simp: cursor_done_def flags_kept_def split: option.splits if_splits)

lemma flags_kept_same: "cursor_done p a \<Longrightarrow> resultSets b = resultSets a \<Longrightarrow> flags_kept p a b"
  by (auto simp: cursor_done_def flags_kept_def split: option.splits)

lemma rs_CloseInternal_flags:
  "cursor_done p sys \<Longrightarrow> flags_kept p sys (rs_CloseInternal eng p sys)"
  by (auto simp: cursor_done_def flags_kept_def rs_CloseInternal_def rs_release_cases
        UnregisterResultSet_def Let_def split: option.splits)

lemma rs_Invalidate_flags:
  "cursor_done p sys \<Longrightarrow> flags_kept p sys (rs_Invalidate eng p sys)"
  by (auto simp: cursor_done_def flags_kept_def rs_Invalidate_def rs_release_cases
        Let_def split: option.splits)

lemma run_cursor_op_done:
  assumes "cursor_done p sys"
  shows "\<exists>sys'. run_cursor_op api eng p c sys = Some sys' \<and> flags_kept p sys sys'"
proof (cases c)
  case CFetchNext
  with assms show ?thesis by (simp add: cursor_done_FetchNext flags_kept_refl)
next
  case CGetFields
  with assms show ?thesis by (simp add: flags_kept_same rs_GetFields_resultSets)
next
  case CClose
  with assms show ?thesis by (simp add: rs_Close_def rs_CloseInternal_flags)
next
  case CIsClosed
  with assms show ?thesis
    by (auto simp: rs_IsClosed_def flags_kept_refl split: option.splits)
next
  case CInvalidate
  with assms show ?thesis by (simp add: rs_Invalidate_flags)
qed

lemma run_cursor_ops_done:
  "cursor_done p sys \<Longrightarrow>
   \<exists>sys'. run_cursor_ops api eng p cs sys = Some sys' \<and> flags_kept p sys sys'"
proof (induction cs arbitrary: sys)
  case Nil
  then show ?case by (simp add: flags_kept_refl)
next
  case (Cons c cs)
  from run_cursor_op_done[OF Cons.prems, of api eng c] obtain sys1 where
    1: "run_cursor_op api eng p c sys = Some sys1" "flags_kept p sys sys1" by blast
  from flags_kept_done[OF Cons.prems 1(2)] have "cursor_done p sys1" .
  from Cons.IH[OF this] obtain sys2 where
    2: "run_cursor_ops api eng p cs sys1 = Some sys2" "flags_kept p sys1 sys2" by blast
  from 1 2 flags_kept_trans show ?case by auto
qed

text \<open>
  C5. Once \<open>fetchNext\<close> has returned null (the cursor was closed or exhausted, or the
  fetch reported anything but success, the end of the data and errors alike), the cursor
  is closed or exhausted; after any further calls on it (\<open>fetchNext\<close>, \<open>getFields\<close>,
  \<open>close\<close>, \<open>isClosed\<close>, invalidation), each of which returns, \<open>fetchNext\<close> returns null
  again without touching the state, and neither flag has gone back to false.
\<close>

theorem fetchNext_null_is_final:
  assumes "rs_FetchNext api eng p sys = Some (JSNull, sys1)"
  shows "cursor_done p sys1
         \<and> (\<exists>sys2. run_cursor_ops api eng p cs sys1 = Some sys2
               \<and> flags_kept p sys1 sys2
               \<and> cursor_done p sys2
               \<and> rs_FetchNext api eng p sys2 = Some (JSNull, sys2))"
proof -
  from rs_FetchNext_null_done[OF assms] have d: "cursor_done p sys1" .
  from run_cursor_ops_done[OF d, of api eng cs] obtain sys2 where
    2: "run_cursor_ops api eng p cs sys1 = Some sys2" "flags_kept p sys1 sys2" by blast
  from flags_kept_done[OF d 2(2)] have d2: "cursor_done p sys2" .
  from d 2 d2 cursor_done_FetchNext[OF d2] show ?thesis by blast
qed

lemma sample_fetch_exhausts:
  "rs_FetchNext sample_api no_rows_engine 2 busy_session =
     Some (JSNull,
           busy_session
             \<lparr>trace := [MimerFetch 8],
              resultSets := (resultSets busy_session)
                (2 \<mapsto> \<lparr>r_stmt = 8, r_columnCount = 2, r_colNames = [''id'', ''name''],
                        r_colTypes = [31, - 63], r_closed = False, r_exhausted = True,
                        r_parentConnection = True\<rparr>)\<rparr>)"
  by (simp add: rs_FetchNext_def ecall_def busy_session_def no_rows_engine_def failing_at_def
        sample_api_def sample_const_def)

theorem fetchNext_null_is_final_witness:
  "rs_FetchNext sample_api no_rows_engine 2 busy_session =
     Some (JSNull,
           busy_session
             \<lparr>trace := [MimerFetch 8],
              resultSets := (resultSets busy_session)
                (2 \<mapsto> \<lparr>r_stmt = 8, r_columnCount = 2, r_colNames = [''id'', ''name''],
                        r_colTypes = [31, - 63], r_closed = False, r_exhausted = True,
                        r_parentConnection = True\<rparr>)\<rparr>)
   \<and> cursor_done 2
        (busy_session
             \<lparr>trace := [MimerFetch 8],
              resultSets := (resultSets busy_session)
                (2 \<mapsto> \<lparr>r_stmt = 8, r_columnCount = 2, r_colNames = [''id'', ''name''],
                        r_colTypes = [31, - 63], r_closed = False, r_exhausted = True,
                        r_parentConnection = True\<rparr>)\<rparr>)
   \<and> (\<exists>sys2. run_cursor_ops sample_api no_rows_engine 2
                 [CFetchNext, CGetFields, CClose, CFetchNext, CInvalidate]
                 (busy_session
                    \<lparr>trace := [MimerFetch 8],
                     resultSets := (resultSets busy_session)
                       (2 \<mapsto> \<lparr>r_stmt = 8, r_columnCount = 2, r_colNames = [''id'', ''name''],
                               r_colTypes = [31, - 63], r_closed = False, r_exhausted = True,
                               r_parentConnection = True\<rparr>)\<rparr>) = Some sys2
          \<and> cursor_done 2 sys2
          \<and> rs_FetchNext sample_api no_rows_engine 2 sys2 = Some (JSNull, sys2))"
proof -
  from fetchNext_null_is_final[OF sample_fetch_exhausts,
         of "[CFetchNext, CGetFields, CClose, CFetchNext, CInvalidate]"]
  have "cursor_done 2
        (busy_session
             \<lparr>trace := [MimerFetch 8],
              resultSets := (resultSets busy_session)
                (2 \<mapsto> \<lparr>r_stmt = 8, r_columnCount = 2, r_colNames = [''id'', ''name''],
                        r_colTypes = [31, - 63], r_closed = False, r_exhausted = True,
                        r_parentConnection = True\<rparr>)\<rparr>)"
    and "\<exists>sys2. run_cursor_ops sample_api no_rows_engine 2
                 [CFetchNext, CGetFields, CClose, CFetchNext, CInvalidate]
                 (busy_session
                    \<lparr>trace := [MimerFetch 8],
                     resultSets := (resultSets busy_session)
                       (2 \<mapsto> \<lparr>r_stmt = 8, r_columnCount = 2, r_colNames = [''id'', ''name''],
                               r_colTypes = [31, - 63], r_closed = False, r_exhausted = True,
                               r_parentConnection = True\<rparr>)\<rparr>) = Some sys2
          \<and> cursor_done 2 sys2
          \<and> rs_FetchNext sample_api no_rows_engine 2 sys2 = Some (JSNull, sys2)"
    by blast+
  with sample_fetch_exhausts show ?thesis by (intro conjI)
qed


end
